theory Spec2Isabelle
  imports Complex_Main "HOL-Library.Multiset"
begin

section \<open>Python and numpy values\<close>

text \<open>
  The routines of \<^verbatim>\<open>ReadRoutinesModifiedCloud.py\<close> are embedded as HOL functions.
  An exception raised by Python, numpy, xarray or skimage is a value of type \<open>error\<close>;
  a computation that may raise returns \<open>error + 'a\<close>, with \<open>Inl\<close> the exception.
  Floating-point numbers are modelled by exact reals.
\<close>

datatype error = IndexError | ValueError | UnboundLocalError

definition then_do :: "error + 'a \<Rightarrow> ('a \<Rightarrow> error + 'b) \<Rightarrow> error + 'b" where
  "then_do m f = (case m of Inl e \<Rightarrow> Inl e | Inr x \<Rightarrow> f x)"

subsection \<open>\<^verbatim>\<open>range\<close> and \<^verbatim>\<open>int\<close>\<close>

text \<open>
  \<^verbatim>\<open>len(range(lo, hi, step))\<close> as CPython computes it, and the elements
  \<^verbatim>\<open>lo + k * step\<close>. (A zero step raises in Python; every call in the source passes
  the constant stride 200.)
\<close>

definition range_len :: "int \<Rightarrow> int \<Rightarrow> int \<Rightarrow> nat" where
  "range_len lo hi step =
     (if 0 < step \<and> lo < hi then nat ((hi - lo - 1) div step + 1)
      else if step < 0 \<and> hi < lo then nat ((lo - hi - 1) div (- step) + 1)
      else 0)"

definition py_range :: "int \<Rightarrow> int \<Rightarrow> int \<Rightarrow> int list" where
  "py_range lo hi step = map (\<lambda>k. lo + int k * step) [0..<range_len lo hi step]"

text \<open>\<^verbatim>\<open>int(x)\<close> of a float truncates towards zero.\<close>

definition py_int :: "real \<Rightarrow> int" where
  "py_int x = (if 0 \<le> x then \<lfloor>x\<rfloor> else \<lceil>x\<rceil>)"

subsection \<open>Arrays\<close>

text \<open>
  A numpy array (and the data of an xarray \<^verbatim>\<open>DataArray\<close>) is its shape together
  with the element at every index tuple. Only the elements at indices inside the shape
  are meaningful.
\<close>

record 'a ndarray =
  shape :: "nat list"
  elem :: "nat list \<Rightarrow> 'a"

text \<open>
  A slice bound \<^verbatim>\<open>i\<close> on an axis of length \<open>n\<close>: a negative bound counts from the end,
  and every bound is clipped to the axis, as Python does for \<^verbatim>\<open>a[lo:hi]\<close>. A missing
  bound is \<open>None\<close>.
\<close>

definition slice_norm :: "int \<Rightarrow> nat \<Rightarrow> nat" where
  "slice_norm i n = (if i < 0 then nat (i + int n) else min (nat i) n)"

definition slice_start :: "int option \<Rightarrow> nat \<Rightarrow> nat" where
  "slice_start lo n = (case lo of None \<Rightarrow> 0 | Some i \<Rightarrow> slice_norm i n)"

definition slice_stop :: "int option \<Rightarrow> nat \<Rightarrow> nat" where
  "slice_stop hi n = (case hi of None \<Rightarrow> n | Some i \<Rightarrow> slice_norm i n)"

definition slice_len :: "int option \<Rightarrow> int option \<Rightarrow> nat \<Rightarrow> nat" where
  "slice_len lo hi n = slice_stop hi n - slice_start lo n"

text \<open>
  Basic indexing \<^verbatim>\<open>a[k1, k2, ...]\<close>, every key an integer or a slice. An integer
  outside the axis raises \<^verbatim>\<open>IndexError\<close>, as do more keys than axes; an integer key
  removes its axis. \<open>keys_index\<close> maps an index of the result to the index of \<open>a\<close> it
  reads.
\<close>

datatype key = Idx int | Slice "int option" "int option"

fun keys_ok :: "key list \<Rightarrow> nat list \<Rightarrow> bool" where
  "keys_ok [] ns = True"
| "keys_ok (Idx i # ks) (n # ns) = (- int n \<le> i \<and> i < int n \<and> keys_ok ks ns)"
| "keys_ok (Slice lo hi # ks) (n # ns) = keys_ok ks ns"
| "keys_ok (k # ks) [] = False"

fun keys_shape :: "key list \<Rightarrow> nat list \<Rightarrow> nat list" where
  "keys_shape [] ns = ns"
| "keys_shape (Idx i # ks) (n # ns) = keys_shape ks ns"
| "keys_shape (Slice lo hi # ks) (n # ns) = slice_len lo hi n # keys_shape ks ns"
| "keys_shape (k # ks) [] = []"

fun keys_index :: "key list \<Rightarrow> nat list \<Rightarrow> nat list \<Rightarrow> nat list" where
  "keys_index [] ns js = js"
| "keys_index (Idx i # ks) (n # ns) js =
     nat (if i < 0 then i + int n else i) # keys_index ks ns js"
| "keys_index (Slice lo hi # ks) (n # ns) (j # js) =
     (slice_start lo n + j) # keys_index ks ns js"
| "keys_index (Slice lo hi # ks) (n # ns) [] = []"
| "keys_index (k # ks) [] js = []"

definition getitem :: "'a ndarray \<Rightarrow> key list \<Rightarrow> error + 'a ndarray" where
  "getitem a ks =
     (if keys_ok ks (shape a)
      then Inr \<lparr>shape = keys_shape ks (shape a),
                elem = (\<lambda>js. elem a (keys_index ks (shape a) js))\<rparr>
      else Inl IndexError)"

text \<open>
  \<^verbatim>\<open>np.concatenate((a, b), axis)\<close>, which is also what \<^verbatim>\<open>xr.concat([a, b], dim)\<close> does
  to the data along an existing dimension: the shapes agree off the axis, and the
  lengths add up on it.
\<close>

definition np_concatenate :: "'a ndarray \<Rightarrow> 'a ndarray \<Rightarrow> int \<Rightarrow> error + 'a ndarray" where
  "np_concatenate a b axis =
     (let r = length (shape a); ax = (if axis < 0 then axis + int r else axis) in
      if length (shape b) \<noteq> r \<or> ax < 0 \<or> int r \<le> ax then Inl ValueError
      else let k = nat ax in
        if (shape a)[k := 0] \<noteq> (shape b)[k := 0] then Inl ValueError
        else Inr \<lparr>shape = (shape a)[k := shape a ! k + shape b ! k],
                  elem = (\<lambda>js. if js ! k < shape a ! k then elem a js
                                else elem b (js[k := js ! k - shape a ! k]))\<rparr>)"

text \<open>
  \<^verbatim>\<open>skimage.util.view_as_windows(arr_in, window_shape, 1)\<close>: the result has one
  leading index per window position and one trailing index per position inside the
  window; a window that does not fit raises \<^verbatim>\<open>ValueError\<close>.
\<close>

definition view_as_windows :: "'a ndarray \<Rightarrow> nat list \<Rightarrow> error + 'a ndarray" where
  "view_as_windows arr_in window_shape =
     (let r = length (shape arr_in) in
      if length window_shape \<noteq> r then Inl ValueError
      else if \<not> list_all2 (\<lambda>n w. w \<le> n) (shape arr_in) window_shape then Inl ValueError
      else if \<not> list_all (\<lambda>w. 1 \<le> w) window_shape then Inl ValueError
      else Inr \<lparr>shape = map2 (\<lambda>n w. n - w + 1) (shape arr_in) window_shape @ window_shape,
                elem = (\<lambda>js. elem arr_in (map2 (+) (take r js) (drop r js)))\<rparr>)"

text \<open>
  Row-major order: \<open>ravel ns js\<close> is the position of index \<open>js\<close> in an array of shape
  \<open>ns\<close>, \<open>unravel\<close> its inverse. \<^verbatim>\<open>a.reshape(newshape)\<close> keeps the row-major order
  of the elements; one entry of \<^verbatim>\<open>newshape\<close> may be \<^verbatim>\<open>-1\<close> and is then inferred.
\<close>

fun ravel :: "nat list \<Rightarrow> nat list \<Rightarrow> nat" where
  "ravel (n # ns) (j # js) = j * prod_list ns + ravel ns js"
| "ravel ns js = 0"

fun unravel :: "nat list \<Rightarrow> nat \<Rightarrow> nat list" where
  "unravel [] p = []"
| "unravel (n # ns) p = (p div prod_list ns) # unravel ns (p mod prod_list ns)"

definition infer_shape :: "int list \<Rightarrow> nat \<Rightarrow> error + nat list" where
  "infer_shape newshape sz =
     (let known = filter (\<lambda>d. d \<noteq> - 1) newshape; p = prod_list known in
      if \<not> list_all (\<lambda>d. 0 \<le> d) known \<or> length known + 1 < length newshape
      then Inl ValueError
      else if length known = length newshape
      then (if nat p = sz then Inr (map nat newshape) else Inl ValueError)
      else if p = 0 \<or> int sz mod p \<noteq> 0 then Inl ValueError
      else Inr (map (\<lambda>d. if d = - 1 then sz div nat p else nat d) newshape))"

definition reshape :: "'a ndarray \<Rightarrow> int list \<Rightarrow> error + 'a ndarray" where
  "reshape a newshape =
     then_do (infer_shape newshape (prod_list (shape a)))
       (\<lambda>ns. Inr \<lparr>shape = ns, elem = (\<lambda>js. elem a (unravel (shape a) (ravel ns js)))\<rparr>)"

text \<open>
  \<^verbatim>\<open>np.tile(a, reps)\<close>: the shorter of the shape and \<^verbatim>\<open>reps\<close> is padded with ones in
  front. \<^verbatim>\<open>np.expand_dims(a, axis=-1)\<close> appends an axis of length one.
\<close>

definition np_tile :: "'a ndarray \<Rightarrow> int list \<Rightarrow> error + 'a ndarray" where
  "np_tile a reps =
     (if \<not> list_all (\<lambda>r. 0 \<le> r) reps then Inl ValueError
      else let d = max (length reps) (length (shape a));
               sh = replicate (d - length (shape a)) 1 @ shape a;
               rp = replicate (d - length reps) 1 @ map nat reps
           in Inr \<lparr>shape = map2 (*) sh rp,
                     elem = (\<lambda>js. elem a (drop (d - length (shape a))
                                               (map2 (\<lambda>j n. j mod n) js sh)))\<rparr>)"

definition expand_dims :: "'a ndarray \<Rightarrow> 'a ndarray" where
  "expand_dims a = \<lparr>shape = shape a @ [1], elem = (\<lambda>js. elem a (butlast js))\<rparr>"

text \<open>
  The difference of two arrays of one shape (the source subtracts two selections made
  with the same slices), the elements in row-major order, the selection \<^verbatim>\<open>a[ix]\<close> of
  rows by an integer array, and \<^verbatim>\<open>isel(T=ix)\<close>, the selection of time steps by
  position.
\<close>

definition arr_minus :: "real ndarray \<Rightarrow> real ndarray \<Rightarrow> error + real ndarray" where
  "arr_minus a b =
     (if shape a = shape b
      then Inr \<lparr>shape = shape a, elem = (\<lambda>js. elem a js - elem b js)\<rparr>
      else Inl ValueError)"

definition tolist :: "'a ndarray \<Rightarrow> 'a list" where
  "tolist a = map (\<lambda>p. elem a (unravel (shape a) p)) [0..<prod_list (shape a)]"

definition take_rows :: "'a ndarray \<Rightarrow> nat list \<Rightarrow> error + 'a ndarray" where
  "take_rows a ix =
     (case shape a of
        [] \<Rightarrow> Inl IndexError
      | n # ns \<Rightarrow>
          if list_all (\<lambda>i. i < n) ix
          then Inr \<lparr>shape = length ix # ns,
                    elem = (\<lambda>js. elem a ((ix ! hd js) # tl js))\<rparr>
          else Inl IndexError)"

definition isel_T :: "'a ndarray \<Rightarrow> int list \<Rightarrow> error + 'a ndarray" where
  "isel_T a ix =
     (case shape a of
        [] \<Rightarrow> Inl ValueError
      | n # ns \<Rightarrow>
          if list_all (\<lambda>i. - int n \<le> i \<and> i < int n) ix
          then Inr \<lparr>shape = length ix # ns,
                    elem = (\<lambda>js. elem a (nat (if ix ! hd js < 0 then ix ! hd js + int n
                                                 else ix ! hd js) # tl js))\<rparr>
          else Inl IndexError)"

section \<open>\<^verbatim>\<open>GetInputs\<close>\<close>

text \<open>
  \<^verbatim>\<open>run_vars\<close> is the dictionary of the run; its keys are the fields of the record.
  The coordinate arrays \<^verbatim>\<open>lat\<close> and \<^verbatim>\<open>lon\<close> of \<^verbatim>\<open>GetInputs\<close> are written \<open>lat'\<close> and
  \<open>lon'\<close>, as \<open>lat\<close> and \<open>lon\<close> name the keys.
\<close>

record run_vars =
  dimension :: int
  sal :: bool
  current :: bool
  bolus_vel :: bool
  density :: bool
  eta :: bool
  lat :: bool
  lon :: bool
  dep :: bool
  poly_degree :: int
  StepSize :: int

text \<open>
  \<^verbatim>\<open>PolynomialFeatures(degree, interaction_only=True, include_bias=False)\<close> of
  scikit-learn: one column per product of up to \<^verbatim>\<open>degree\<close> distinct input columns, by
  degree and then in the order of \<^verbatim>\<open>itertools.combinations\<close>.
\<close>

fun combinations :: "nat \<Rightarrow> 'a list \<Rightarrow> 'a list list" where
  "combinations 0 xs = [[]]"
| "combinations (Suc k) [] = []"
| "combinations (Suc k) (x # xs) = map ((#) x) (combinations k xs) @ combinations (Suc k) xs"

definition fit_transform :: "int \<Rightarrow> real ndarray \<Rightarrow> error + real ndarray" where
  "fit_transform degree X =
     (if length (shape X) \<noteq> 2 then Inl ValueError
      else let combos = concat (map (\<lambda>k. combinations k [0..<shape X ! 1]) [1..<nat degree + 1])
           in Inr \<lparr>shape = [shape X ! 0, length combos],
                     elem = (\<lambda>js. prod_list (map (\<lambda>f. elem X [js ! 0, f]) (combos ! (js ! 1))))\<rparr>)"

text \<open>
  The three lines the source repeats for every physical field:
  \<^verbatim>\<open>
    tmp = view_as_windows(Sal.data.compute(), (1, 3, 3), 1)
    tmp = tmp.reshape((tmp.shape[0], tmp.shape[1], tmp.shape[2], -1))
    inputs = np.concatenate((inputs, tmp), axis=-1)
  \<close>
  \<open>stencil\<close> is the first two, \<open>add_stencil\<close> all three; \<open>stencil_inputs\<close> is the body of
  one branch of the test on \<^verbatim>\<open>run_vars["dimension"]\<close> (lines 76 to 102 with the window
  \<^verbatim>\<open>(1, 3, 3)\<close>, lines 105 to 131 with \<^verbatim>\<open>(3, 3, 3)\<close>).
\<close>

definition stencil :: "real ndarray \<Rightarrow> nat list \<Rightarrow> error + real ndarray" where
  "stencil a window_shape =
     then_do (view_as_windows a window_shape)
       (\<lambda>tmp. reshape tmp [int (shape tmp ! 0), int (shape tmp ! 1), int (shape tmp ! 2), - 1])"

definition add_stencil :: "real ndarray \<Rightarrow> nat list \<Rightarrow> real ndarray \<Rightarrow> error + real ndarray" where
  "add_stencil a window_shape inputs =
     then_do (stencil a window_shape) (\<lambda>tmp. np_concatenate inputs tmp (- 1))"

definition stencil_inputs ::
  "run_vars \<Rightarrow> nat list \<Rightarrow> real ndarray \<Rightarrow> real ndarray \<Rightarrow> real ndarray \<Rightarrow> real ndarray
     \<Rightarrow> real ndarray \<Rightarrow> real ndarray \<Rightarrow> real ndarray \<Rightarrow> real ndarray \<Rightarrow> error + real ndarray" where
  "stencil_inputs rv w Temp Sal U V Kwx Kwy Kwz dns =
     then_do (stencil Temp w) (\<lambda>inputs.
     then_do (if sal rv then add_stencil Sal w inputs else Inr inputs) (\<lambda>inputs.
     then_do (if current rv
              then then_do (add_stencil U w inputs) (add_stencil V w)
              else Inr inputs) (\<lambda>inputs.
     then_do (if bolus_vel rv
              then then_do (then_do (add_stencil Kwx w inputs) (add_stencil Kwy w))
                     (add_stencil Kwz w)
              else Inr inputs) (\<lambda>inputs.
     if density rv then add_stencil dns w inputs else Inr inputs))))"

text \<open>
  When \<^verbatim>\<open>run_vars["dimension"]\<close> is neither 2 nor 3 the source prints a message and goes
  on, with the local names \<^verbatim>\<open>inputs\<close> and \<^verbatim>\<open>z_subsize\<close> unbound. The two names are
  therefore optional values, and reading an unbound one raises
  \<^verbatim>\<open>UnboundLocalError\<close>.
\<close>

definition local_var :: "'a option \<Rightarrow> error + 'a" where
  "local_var v = (case v of None \<Rightarrow> Inl UnboundLocalError | Some x \<Rightarrow> Inr x)"

definition add_column :: "real ndarray option \<Rightarrow> real ndarray \<Rightarrow> error + real ndarray option" where
  "add_column inputs tmp =
     then_do (local_var inputs) (\<lambda>inp.
     then_do (np_concatenate inp tmp (- 1)) (\<lambda>res. Inr (Some res)))"

text \<open>
  Lines 134 to 162, one definition per optional feature group:
  \<^verbatim>\<open>
    if run_vars["eta"]:
        tmp = view_as_windows(Eta.data.compute(), (3, 3), 1)
        tmp = np.tile(tmp, (z_subsize, 1, 1, 1, 1))
        tmp = tmp.reshape((tmp.shape[0], tmp.shape[1], tmp.shape[2], -1))
        inputs = np.concatenate((inputs, tmp), axis=-1)
    if run_vars["lat"]:
        tmp = lat
        tmp = np.tile(tmp, (z_subsize, 1))
        tmp = np.expand_dims(tmp, axis=-1)
        tmp = np.tile(tmp, (1, x_subsize))
        tmp = np.expand_dims(tmp, axis=-1)
        inputs = np.concatenate((inputs, tmp), axis=-1)
    if run_vars["lon"]:
        tmp = lon
        tmp = np.tile(tmp, (y_subsize, 1))
        tmp = np.tile(tmp, (z_subsize, 1, 1))
        tmp = np.expand_dims(tmp, axis=-1)
        inputs = np.concatenate((inputs, tmp), axis=-1)
    if run_vars["dep"]:
        tmp = depth
        tmp = np.expand_dims(tmp, axis=-1)
        tmp = np.tile(tmp, (1, y_subsize))
        tmp = np.expand_dims(tmp, axis=-1)
        tmp = np.tile(tmp, (1, x_subsize))
        tmp = np.expand_dims(tmp, axis=-1)
        inputs = np.concatenate((inputs, tmp), axis=-1)
  \<close>
\<close>

definition eta_features ::
  "real ndarray \<Rightarrow> int option \<Rightarrow> real ndarray option \<Rightarrow> error + real ndarray option" where
  "eta_features Eta z_subsize inputs =
     then_do (view_as_windows Eta [3, 3]) (\<lambda>tmp.
     then_do (local_var z_subsize) (\<lambda>z.
     then_do (np_tile tmp [z, 1, 1, 1, 1]) (\<lambda>tmp.
     then_do (reshape tmp [int (shape tmp ! 0), int (shape tmp ! 1), int (shape tmp ! 2), - 1])
       (add_column inputs))))"

definition lat_feature ::
  "real ndarray \<Rightarrow> int option \<Rightarrow> int \<Rightarrow> real ndarray option \<Rightarrow> error + real ndarray option" where
  "lat_feature lat' z_subsize x_subsize inputs =
     then_do (local_var z_subsize) (\<lambda>z.
     then_do (np_tile lat' [z, 1]) (\<lambda>tmp.
     then_do (np_tile (expand_dims tmp) [1, x_subsize]) (\<lambda>tmp.
     add_column inputs (expand_dims tmp))))"

definition lon_feature ::
  "real ndarray \<Rightarrow> int option \<Rightarrow> int \<Rightarrow> real ndarray option \<Rightarrow> error + real ndarray option" where
  "lon_feature lon' z_subsize y_subsize inputs =
     then_do (np_tile lon' [y_subsize, 1]) (\<lambda>tmp.
     then_do (local_var z_subsize) (\<lambda>z.
     then_do (np_tile tmp [z, 1, 1]) (\<lambda>tmp.
     add_column inputs (expand_dims tmp))))"

definition dep_feature ::
  "real ndarray \<Rightarrow> int \<Rightarrow> int \<Rightarrow> real ndarray option \<Rightarrow> error + real ndarray option" where
  "dep_feature depth y_subsize x_subsize inputs =
     then_do (np_tile (expand_dims depth) [1, y_subsize]) (\<lambda>tmp.
     then_do (np_tile (expand_dims tmp) [1, x_subsize]) (\<lambda>tmp.
     add_column inputs (expand_dims tmp)))"

text \<open>
  \<^verbatim>\<open>GetInputs\<close> itself (lines 69 to 179): the sizes of the forecast region, the
  stencils of the physical fields by dimension, the optional feature groups, the
  reshape to one row per grid cell, and the polynomial terms.
\<close>

definition GetInputs ::
  "run_vars \<Rightarrow> real ndarray \<Rightarrow> real ndarray \<Rightarrow> real ndarray \<Rightarrow> real ndarray \<Rightarrow> real ndarray
     \<Rightarrow> real ndarray \<Rightarrow> real ndarray \<Rightarrow> real ndarray \<Rightarrow> real ndarray \<Rightarrow> real ndarray
     \<Rightarrow> real ndarray \<Rightarrow> real ndarray \<Rightarrow> error + real ndarray" where
  "GetInputs rv Temp Sal U V Kwx Kwy Kwz dns Eta lat' lon' depth =
     (if length (shape Temp) < 3 then Inl IndexError
      else
        let x_subsize = int (shape Temp ! 2) - 2;
            y_subsize = int (shape Temp ! 1) - 2
        in
        then_do
          (if dimension rv = 2
           then then_do (stencil_inputs rv [1, 3, 3] Temp Sal U V Kwx Kwy Kwz dns)
                  (\<lambda>inputs. Inr (Some (int (shape Temp ! 0)), Some inputs))
           else if dimension rv = 3
           then then_do (stencil_inputs rv [3, 3, 3] Temp Sal U V Kwx Kwy Kwz dns)
                  (\<lambda>inputs. Inr (Some (int (shape Temp ! 0) - 2), Some inputs))
           else Inr (None, None))
          (\<lambda>(z_subsize, inputs).
        then_do (if eta rv then eta_features Eta z_subsize inputs else Inr inputs) (\<lambda>inputs.
        then_do (if lat rv then lat_feature lat' z_subsize x_subsize inputs
                 else Inr inputs) (\<lambda>inputs.
        then_do (if lon rv then lon_feature lon' z_subsize y_subsize inputs
                 else Inr inputs) (\<lambda>inputs.
        then_do (if dep rv then dep_feature depth y_subsize x_subsize inputs
                 else Inr inputs) (\<lambda>inputs.
        then_do (local_var inputs) (\<lambda>inp.
        then_do (local_var z_subsize) (\<lambda>z.
        then_do (reshape inp [z * y_subsize * x_subsize, int (last (shape inp))]) (\<lambda>inputs.
        if 1 < poly_degree rv then fit_transform (poly_degree rv) inputs
        else Inr inputs)))))))))"

section \<open>The temporal splitter of \<^verbatim>\<open>ReadMITGCM\<close>\<close>

text \<open>
  Lines 216 to 243 of the source:
  \<^verbatim>\<open>
    subsample_rate = 200
    start = 0
    data_end_index = 7200
    trainval_split = int(data_end_index * trainval_split_ratio)
    valtest_split = int(data_end_index * valtest_split_ratio)
    trainval_range = range(start, trainval_split, subsample_rate)
    valtest_range = range(trainval_split, valtest_split, subsample_rate)
    test_range = range(valtest_split, data_end_index, subsample_rate)
    full_range = chain(trainval_range, valtest_range, test_range)
    sample_times = [(t, t + 1) for t in full_range]
    ds = mitgcm_filename.to_dask()
    ds = ds.isel(T=np.array(sample_times).flatten())
  \<close>
  The two ratios are keyword parameters with the defaults 0.7 and 0.9; with these
  the float products are 5040.0 and 6480.0, as the exact products are.
\<close>

definition subsample_rate :: int where
  "subsample_rate = 200"

definition start :: int where
  "start = 0"

definition data_end_index :: int where
  "data_end_index = 7200"

definition trainval_split :: "real \<Rightarrow> int" where
  "trainval_split trainval_split_ratio = py_int (of_int data_end_index * trainval_split_ratio)"

definition valtest_split :: "real \<Rightarrow> int" where
  "valtest_split valtest_split_ratio = py_int (of_int data_end_index * valtest_split_ratio)"

definition trainval_range :: "real \<Rightarrow> int list" where
  "trainval_range r1 = py_range start (trainval_split r1) subsample_rate"

definition valtest_range :: "real \<Rightarrow> real \<Rightarrow> int list" where
  "valtest_range r1 r2 = py_range (trainval_split r1) (valtest_split r2) subsample_rate"

definition test_range :: "real \<Rightarrow> int list" where
  "test_range r2 = py_range (valtest_split r2) data_end_index subsample_rate"

definition full_range :: "real \<Rightarrow> real \<Rightarrow> int list" where
  "full_range r1 r2 = trainval_range r1 @ valtest_range r1 r2 @ test_range r2"

definition sample_times :: "real \<Rightarrow> real \<Rightarrow> (int \<times> int) list" where
  "sample_times r1 r2 = map (\<lambda>t. (t, t + 1)) (full_range r1 r2)"

definition flatten_pairs :: "(int \<times> int) list \<Rightarrow> int list" where
  "flatten_pairs ps = concat (map (\<lambda>(a, b). [a, b]) ps)"

text \<open>
  \<open>subsampled r1 r2 v\<close> is a variable of \<^verbatim>\<open>ds\<close> after the \<^verbatim>\<open>isel\<close>, for the variable
  \<open>v\<close> of the dataset as it was read. The three loops of the source run over
  \<^verbatim>\<open>range(len(trainval_range))\<close>,
  \<^verbatim>\<open>range(len(trainval_range), len(trainval_range) + len(valtest_range))\<close> and
  \<^verbatim>\<open>range(len(trainval_range) + len(valtest_range),
  len(trainval_range) + len(valtest_range) + len(test_range))\<close>, and index the
  subsampled variables with the loop variable \<^verbatim>\<open>t\<close>.
\<close>

definition subsampled :: "real \<Rightarrow> real \<Rightarrow> 'a ndarray \<Rightarrow> error + 'a ndarray" where
  "subsampled r1 r2 v = isel_T v (flatten_pairs (sample_times r1 r2))"

definition train_steps :: "real \<Rightarrow> int list" where
  "train_steps r1 = map int [0..<length (trainval_range r1)]"

definition val_steps :: "real \<Rightarrow> real \<Rightarrow> int list" where
  "val_steps r1 r2 =
     map int [length (trainval_range r1)..<length (trainval_range r1) + length (valtest_range r1 r2)]"

definition test_steps :: "real \<Rightarrow> real \<Rightarrow> int list" where
  "test_steps r1 r2 =
     map int [length (trainval_range r1) + length (valtest_range r1 r2)..<
              length (trainval_range r1) + length (valtest_range r1 r2) + length (test_range r2)]"

section \<open>The regions of \<^verbatim>\<open>ReadMITGCM\<close>\<close>

text \<open>
  The variables the loops read: the eight fields over (T, Z, Y, X), the surface
  height over (T, Y, X) and the three coordinates. \<open>da_dns\<close> is the variable
  \<^verbatim>\<open>density\<close> of the source. \<open>da_U\<close> and \<open>da_V\<close> are the velocities after the source
  has averaged them (lines 259 to 261). The fields need not have one shape:
  \<^verbatim>\<open>da_V\<close> is the sum of two selections that xarray aligns on the labels of their
  latitude axis and can be a latitude row shorter than \<^verbatim>\<open>da_T\<close>, and \<^verbatim>\<open>density\<close> is
  read from a file of its own (line 263) and is not subsampled, so it can hold more
  time steps. The sizes \<^verbatim>\<open>x_size\<close>, \<^verbatim>\<open>y_size\<close> and \<^verbatim>\<open>z_size\<close> are the dimensions of
  the dataset, which are those of \<^verbatim>\<open>da_T\<close>.
\<close>

record dataset =
  da_T :: "real ndarray"
  da_S :: "real ndarray"
  da_U :: "real ndarray"
  da_V :: "real ndarray"
  da_Kwx :: "real ndarray"
  da_Kwy :: "real ndarray"
  da_Kwz :: "real ndarray"
  da_dns :: "real ndarray"
  da_Eta :: "real ndarray"
  da_lat :: "real ndarray"
  da_lon :: "real ndarray"
  da_depth :: "real ndarray"

definition x_size :: "dataset \<Rightarrow> int" where
  "x_size ds = int (shape (da_T ds) ! 3)"

definition y_size :: "dataset \<Rightarrow> int" where
  "y_size ds = int (shape (da_T ds) ! 2)"

definition z_size :: "dataset \<Rightarrow> int" where
  "z_size ds = int (shape (da_T ds) ! 1)"

text \<open>
  The bounds of the three forecast regions (lines 282 to 293, 309 to 314 and 330 to
  337), each upper bound the first point that is not forecast.
\<close>

record bounds =
  x_lw :: int
  x_up :: int
  y_lw :: int
  y_up :: int
  z_lw :: int
  z_up :: int

definition region_1 :: "int \<Rightarrow> int \<Rightarrow> int \<Rightarrow> bounds" where
  "region_1 xs ys zs =
     \<lparr>x_lw = 1, x_up = xs - 2, y_lw = 1, y_up = ys - 3, z_lw = 1, z_up = zs - 1\<rparr>"

definition region_2 :: bounds where
  "region_2 = \<lparr>x_lw = 1, x_up = 2, y_lw = 1, y_up = 15, z_lw = 1, z_up = 31\<rparr>"

definition region_3 :: "int \<Rightarrow> bounds" where
  "region_3 xs = \<lparr>x_lw = xs - 3, x_up = xs - 1, y_lw = 1, y_up = 15, z_lw = 1, z_up = 31\<rparr>"

datatype region = Interior | WestWrap | EastWrap

definition region_bounds :: "dataset \<Rightarrow> region \<Rightarrow> bounds" where
  "region_bounds ds r =
     (case r of
        Interior \<Rightarrow> region_1 (x_size ds) (y_size ds) (z_size ds)
      | WestWrap \<Rightarrow> region_2
      | EastWrap \<Rightarrow> region_3 (x_size ds))"

text \<open>
  The shifted copies of the fields for the two wrap regions, for every field with the
  longitude as its last axis:
  \<^verbatim>\<open>
    da_T2 = xr.concat([da_T[:, :, :, -1:], da_T[:, :, :, :-1]], dim="X")
    da_T3 = xr.concat([da_T[:, :, :, 1:], da_T[:, :, :, :1]], dim="X")
  \<close>
  and in the same way for the other seven fields, for \<^verbatim>\<open>da_Eta\<close> and for \<^verbatim>\<open>da_lon\<close>;
  the latitudes and depths are not shifted.
\<close>

definition leading :: "'a ndarray \<Rightarrow> key list" where
  "leading a = replicate (length (shape a) - 1) (Slice None None)"

definition shift_west :: "'a ndarray \<Rightarrow> error + 'a ndarray" where
  "shift_west a =
     then_do (getitem a (leading a @ [Slice (Some (- 1)) None])) (\<lambda>east_most.
     then_do (getitem a (leading a @ [Slice None (Some (- 1))])) (\<lambda>others.
     np_concatenate east_most others (- 1)))"

definition shift_east :: "'a ndarray \<Rightarrow> error + 'a ndarray" where
  "shift_east a =
     then_do (getitem a (leading a @ [Slice (Some 1) None])) (\<lambda>others.
     then_do (getitem a (leading a @ [Slice None (Some 1)])) (\<lambda>west_most.
     np_concatenate others west_most (- 1)))"

definition shifted :: "(real ndarray \<Rightarrow> error + real ndarray) \<Rightarrow> dataset \<Rightarrow> error + dataset" where
  "shifted sh ds =
     then_do (sh (da_T ds)) (\<lambda>T'.
     then_do (sh (da_S ds)) (\<lambda>S'.
     then_do (sh (da_U ds)) (\<lambda>U'.
     then_do (sh (da_V ds)) (\<lambda>V'.
     then_do (sh (da_Kwx ds)) (\<lambda>Kwx'.
     then_do (sh (da_Kwy ds)) (\<lambda>Kwy'.
     then_do (sh (da_Kwz ds)) (\<lambda>Kwz'.
     then_do (sh (da_Eta ds)) (\<lambda>Eta'.
     then_do (sh (da_lon ds)) (\<lambda>lon'.
     then_do (sh (da_dns ds)) (\<lambda>dns'.
     Inr (ds\<lparr>da_T := T', da_S := S', da_U := U', da_V := V', da_Kwx := Kwx',
             da_Kwy := Kwy', da_Kwz := Kwz', da_dns := dns', da_Eta := Eta',
             da_lon := lon'\<rparr>)))))))))))"

definition region_fields :: "dataset \<Rightarrow> region \<Rightarrow> error + dataset" where
  "region_fields ds r =
     (case r of Interior \<Rightarrow> Inr ds
              | WestWrap \<Rightarrow> shifted shift_west ds
              | EastWrap \<Rightarrow> shifted shift_east ds)"

text \<open>
  The call of \<^verbatim>\<open>GetInputs\<close> for one region and one step of a loop, here for region 1
  and dimension 3 (lines 400 to 454; with dimension 2 the depth slice is
  \<^verbatim>\<open>z_lw_1:z_up_1\<close>):
  \<^verbatim>\<open>
    inputs_1 = GetInputs(run_vars,
        da_T[t, z_lw_1 - 1 : z_up_1 + 1, y_lw_1 - 1 : y_up_1 + 1, x_lw_1 - 1 : x_up_1 + 1],
        ...
        da_Eta[t, y_lw_1 - 1 : y_up_1 + 1, x_lw_1 - 1 : x_up_1 + 1],
        da_lat[y_lw_1:y_up_1], da_lon[x_lw_1:x_up_1], da_depth[z_lw_1:z_up_1])
  \<close>
  With any other dimension no call is made, and the first use of the unbound
  \<^verbatim>\<open>inputs_1\<close> raises.
\<close>

definition from_to :: "int \<Rightarrow> int \<Rightarrow> key" where
  "from_to lo hi = Slice (Some lo) (Some hi)"

definition input_keys :: "run_vars \<Rightarrow> bounds \<Rightarrow> int \<Rightarrow> key list" where
  "input_keys rv b t =
     [Idx t,
      if dimension rv = 2 then from_to (z_lw b) (z_up b) else from_to (z_lw b - 1) (z_up b + 1),
      from_to (y_lw b - 1) (y_up b + 1),
      from_to (x_lw b - 1) (x_up b + 1)]"

definition region_inputs :: "run_vars \<Rightarrow> dataset \<Rightarrow> bounds \<Rightarrow> int \<Rightarrow> error + real ndarray" where
  "region_inputs rv ds b t =
     (if dimension rv = 2 \<or> dimension rv = 3
      then
        then_do (getitem (da_T ds) (input_keys rv b t)) (\<lambda>Temp.
        then_do (getitem (da_S ds) (input_keys rv b t)) (\<lambda>Sal.
        then_do (getitem (da_U ds) (input_keys rv b t)) (\<lambda>U.
        then_do (getitem (da_V ds) (input_keys rv b t)) (\<lambda>V.
        then_do (getitem (da_Kwx ds) (input_keys rv b t)) (\<lambda>Kwx.
        then_do (getitem (da_Kwy ds) (input_keys rv b t)) (\<lambda>Kwy.
        then_do (getitem (da_Kwz ds) (input_keys rv b t)) (\<lambda>Kwz.
        then_do (getitem (da_dns ds) (input_keys rv b t)) (\<lambda>dns.
        then_do (getitem (da_Eta ds)
                   [Idx t, from_to (y_lw b - 1) (y_up b + 1), from_to (x_lw b - 1) (x_up b + 1)])
          (\<lambda>Eta.
        then_do (getitem (da_lat ds) [from_to (y_lw b) (y_up b)]) (\<lambda>lat'.
        then_do (getitem (da_lon ds) [from_to (x_lw b) (x_up b)]) (\<lambda>lon'.
        then_do (getitem (da_depth ds) [from_to (z_lw b) (z_up b)]) (\<lambda>depth.
        GetInputs rv Temp Sal U V Kwx Kwy Kwz dns Eta lat' lon' depth))))))))))))
      else Inl UnboundLocalError)"

definition region_sample_inputs :: "run_vars \<Rightarrow> dataset \<Rightarrow> region \<Rightarrow> int \<Rightarrow> error + real ndarray" where
  "region_sample_inputs rv ds r t =
     then_do (region_fields ds r) (\<lambda>fields. region_inputs rv fields (region_bounds ds r) t)"

text \<open>
  The targets of one region and one step, for region 2 (lines 605 to 620); in every
  region and every loop they are sliced from the unshifted \<^verbatim>\<open>da_T\<close>:
  \<^verbatim>\<open>
    outputs_2_DelT = (
        da_T[t + StepSize, z_lw_2:z_up_2, y_lw_2:y_up_2, x_lw_2:x_up_2]
        - da_T[t, z_lw_2:z_up_2, y_lw_2:y_up_2, x_lw_2:x_up_2])
    outputs_2_Temp = da_T[t + StepSize, z_lw_2:z_up_2, y_lw_2:y_up_2, x_lw_2:x_up_2]
    orig_2_Temp = da_T[t, z_lw_2:z_up_2, y_lw_2:y_up_2, x_lw_2:x_up_2]
    outputs_2_DelT = outputs_2_DelT.data.reshape((-1, 1))
    outputs_2_Temp = outputs_2_Temp.data.reshape((-1, 1))
    orig_2_Temp = orig_2_Temp.data.reshape((-1, 1))
    clim_2_Temp = da_clim_T[0, z_lw_2:z_up_2, y_lw_2:y_up_2, x_lw_2:x_up_2].data.reshape((-1, 1))
  \<close>
\<close>

definition target_keys :: "bounds \<Rightarrow> int \<Rightarrow> key list" where
  "target_keys b t =
     [Idx t, from_to (z_lw b) (z_up b), from_to (y_lw b) (y_up b), from_to (x_lw b) (x_up b)]"

definition outputs_DelT :: "real ndarray \<Rightarrow> int \<Rightarrow> bounds \<Rightarrow> int \<Rightarrow> error + real ndarray" where
  "outputs_DelT T step b t =
     then_do (getitem T (target_keys b (t + step))) (\<lambda>later.
     then_do (getitem T (target_keys b t)) (\<lambda>now.
     then_do (arr_minus later now) (\<lambda>d. reshape d [- 1, 1])))"

definition outputs_Temp :: "real ndarray \<Rightarrow> int \<Rightarrow> bounds \<Rightarrow> int \<Rightarrow> error + real ndarray" where
  "outputs_Temp T step b t =
     then_do (getitem T (target_keys b (t + step))) (\<lambda>later. reshape later [- 1, 1])"

definition orig_Temp :: "real ndarray \<Rightarrow> bounds \<Rightarrow> int \<Rightarrow> error + real ndarray" where
  "orig_Temp T b t = then_do (getitem T (target_keys b t)) (\<lambda>now. reshape now [- 1, 1])"

definition clim_Temp :: "real ndarray \<Rightarrow> bounds \<Rightarrow> error + real ndarray" where
  "clim_Temp da_clim_T b = then_do (getitem da_clim_T (target_keys b 0)) (\<lambda>c. reshape c [- 1, 1])"

text \<open>
  The grid cells a selection reads, in the order of the selected elements; the cells
  of the targets of a region are the cells of \<^verbatim>\<open>da_T\<close> its target slices address.
\<close>

definition selected_cells :: "key list \<Rightarrow> nat list \<Rightarrow> nat list list" where
  "selected_cells ks ns =
     map (\<lambda>p. keys_index ks ns (unravel (keys_shape ks ns) p)) [0..<prod_list (keys_shape ks ns)]"

definition target_cells :: "real ndarray \<Rightarrow> bounds \<Rightarrow> int \<Rightarrow> nat list list" where
  "target_cells T b t = selected_cells (target_keys b t) (shape T)"

text \<open>
  The body of a loop for one region and one step \<open>t\<close>: the call of \<^verbatim>\<open>GetInputs\<close>
  when the dimension is 2 or 3, then the targets, then the use of the inputs, which
  raises when no call was made. The loops over the training and the validation steps
  produce five arrays for a region and step; the loop over the test steps produces
  three (lines 1217 to 1628 compute no \<^verbatim>\<open>orig_Temp\<close> and no \<^verbatim>\<open>clim_Temp\<close>).
\<close>

type_synonym arrays5 = "real ndarray \<times> real ndarray \<times> real ndarray \<times> real ndarray \<times> real ndarray"

type_synonym arrays3 = "real ndarray \<times> real ndarray \<times> real ndarray"

definition region_step5 ::
  "run_vars \<Rightarrow> dataset \<Rightarrow> real ndarray \<Rightarrow> region \<Rightarrow> int \<Rightarrow> error + arrays5" where
  "region_step5 rv ds da_clim_T r t =
     then_do (if dimension rv = 2 \<or> dimension rv = 3
              then then_do (region_sample_inputs rv ds r t) (\<lambda>inputs. Inr (Some inputs))
              else Inr None) (\<lambda>inputs_r.
     then_do (outputs_DelT (da_T ds) (StepSize rv) (region_bounds ds r) t) (\<lambda>outputs_DelT.
     then_do (outputs_Temp (da_T ds) (StepSize rv) (region_bounds ds r) t) (\<lambda>outputs_Temp.
     then_do (orig_Temp (da_T ds) (region_bounds ds r) t) (\<lambda>orig_Temp.
     then_do (clim_Temp da_clim_T (region_bounds ds r)) (\<lambda>clim_Temp.
     then_do (local_var inputs_r) (\<lambda>inputs.
     Inr (inputs, outputs_DelT, outputs_Temp, orig_Temp, clim_Temp)))))))"

definition region_step3 :: "run_vars \<Rightarrow> dataset \<Rightarrow> region \<Rightarrow> int \<Rightarrow> error + arrays3" where
  "region_step3 rv ds r t =
     then_do (if dimension rv = 2 \<or> dimension rv = 3
              then then_do (region_sample_inputs rv ds r t) (\<lambda>inputs. Inr (Some inputs))
              else Inr None) (\<lambda>inputs_r.
     then_do (outputs_DelT (da_T ds) (StepSize rv) (region_bounds ds r) t) (\<lambda>outputs_DelT.
     then_do (outputs_Temp (da_T ds) (StepSize rv) (region_bounds ds r) t) (\<lambda>outputs_Temp.
     then_do (local_var inputs_r) (\<lambda>inputs.
     Inr (inputs, outputs_DelT, outputs_Temp)))))"

text \<open>
  The accumulation, in the training loop (lines 472 to 487, 622 to 630 and 765 to
  773):
  \<^verbatim>\<open>
    if t == start:
        inputs_tr = inputs_1
        ...
    else:
        inputs_tr = np.concatenate((inputs_tr, inputs_1), axis=0)
        ...
    inputs_tr = np.concatenate((inputs_tr, inputs_2), axis=0)
    ...
    inputs_tr = np.concatenate((inputs_tr, inputs_3), axis=0)
  \<close>
  The validation loop compares \<^verbatim>\<open>t\<close> with \<^verbatim>\<open>len(trainval_range)\<close> and the test loop
  with \<^verbatim>\<open>len(trainval_range) + len(valtest_range)\<close>. The accumulators of a loop are
  unbound, \<open>None\<close>, before its first step.
\<close>

definition concatenate5 :: "arrays5 \<Rightarrow> arrays5 \<Rightarrow> error + arrays5" where
  "concatenate5 acc s =
     (case (acc, s) of
        ((inputs, delT, temp, orig, clim), (inputs_1, delT_1, temp_1, orig_1, clim_1)) \<Rightarrow>
          then_do (np_concatenate inputs inputs_1 0) (\<lambda>inputs'.
          then_do (np_concatenate delT delT_1 0) (\<lambda>delT'.
          then_do (np_concatenate temp temp_1 0) (\<lambda>temp'.
          then_do (np_concatenate orig orig_1 0) (\<lambda>orig'.
          then_do (np_concatenate clim clim_1 0) (\<lambda>clim'.
          Inr (inputs', delT', temp', orig', clim')))))))"

definition concatenate3 :: "arrays3 \<Rightarrow> arrays3 \<Rightarrow> error + arrays3" where
  "concatenate3 acc s =
     (case (acc, s) of ((inputs, delT, temp), (inputs_1, delT_1, temp_1)) \<Rightarrow>
        then_do (np_concatenate inputs inputs_1 0) (\<lambda>inputs'.
        then_do (np_concatenate delT delT_1 0) (\<lambda>delT'.
        then_do (np_concatenate temp temp_1 0) (\<lambda>temp'.
        Inr (inputs', delT', temp')))))"

definition loop_body5 ::
  "run_vars \<Rightarrow> dataset \<Rightarrow> real ndarray \<Rightarrow> int \<Rightarrow> arrays5 option \<Rightarrow> int \<Rightarrow> error + arrays5" where
  "loop_body5 rv ds da_clim_T first acc t =
     then_do (region_step5 rv ds da_clim_T Interior t) (\<lambda>s1.
     then_do (if t = first then Inr s1
              else then_do (local_var acc) (\<lambda>a. concatenate5 a s1)) (\<lambda>a1.
     then_do (region_step5 rv ds da_clim_T WestWrap t) (\<lambda>s2.
     then_do (concatenate5 a1 s2) (\<lambda>a2.
     then_do (region_step5 rv ds da_clim_T EastWrap t) (\<lambda>s3.
     concatenate5 a2 s3)))))"

definition loop_body3 ::
  "run_vars \<Rightarrow> dataset \<Rightarrow> int \<Rightarrow> arrays3 option \<Rightarrow> int \<Rightarrow> error + arrays3" where
  "loop_body3 rv ds first acc t =
     then_do (region_step3 rv ds Interior t) (\<lambda>s1.
     then_do (if t = first then Inr s1
              else then_do (local_var acc) (\<lambda>a. concatenate3 a s1)) (\<lambda>a1.
     then_do (region_step3 rv ds WestWrap t) (\<lambda>s2.
     then_do (concatenate3 a1 s2) (\<lambda>a2.
     then_do (region_step3 rv ds EastWrap t) (\<lambda>s3.
     concatenate3 a2 s3)))))"

fun loop5 ::
  "run_vars \<Rightarrow> dataset \<Rightarrow> real ndarray \<Rightarrow> int \<Rightarrow> arrays5 option \<Rightarrow> int list
     \<Rightarrow> error + arrays5 option" where
  "loop5 rv ds da_clim_T first acc [] = Inr acc"
| "loop5 rv ds da_clim_T first acc (t # ts) =
     then_do (loop_body5 rv ds da_clim_T first acc t)
       (\<lambda>a. loop5 rv ds da_clim_T first (Some a) ts)"

fun loop3 ::
  "run_vars \<Rightarrow> dataset \<Rightarrow> int \<Rightarrow> arrays3 option \<Rightarrow> int list \<Rightarrow> error + arrays3 option" where
  "loop3 rv ds first acc [] = Inr acc"
| "loop3 rv ds first acc (t # ts) =
     then_do (loop_body3 rv ds first acc t) (\<lambda>a. loop3 rv ds first (Some a) ts)"

section \<open>Shuffling and normalisation in \<^verbatim>\<open>ReadMITGCM\<close>\<close>

text \<open>The arrays the three loops accumulate.\<close>

record pools =
  inputs_tr :: "real ndarray"
  outputs_tr_DelT :: "real ndarray"
  outputs_tr_Temp :: "real ndarray"
  orig_tr_Temp :: "real ndarray"
  clim_tr_Temp :: "real ndarray"
  inputs_val :: "real ndarray"
  outputs_val_DelT :: "real ndarray"
  outputs_val_Temp :: "real ndarray"
  orig_val_Temp :: "real ndarray"
  clim_val_Temp :: "real ndarray"
  inputs_te :: "real ndarray"
  outputs_te_DelT :: "real ndarray"
  outputs_te_Temp :: "real ndarray"

text \<open>
  The three loops, one after the other, over the steps of the three splits. A loop
  without a step leaves its accumulators unbound, and lines 1693 to 1695, which read
  them, raise.
\<close>

definition accumulate ::
  "run_vars \<Rightarrow> dataset \<Rightarrow> real ndarray \<Rightarrow> real \<Rightarrow> real \<Rightarrow> error + pools" where
  "accumulate rv ds da_clim_T r1 r2 =
     then_do (loop5 rv ds da_clim_T start None (train_steps r1)) (\<lambda>tr.
     then_do (loop5 rv ds da_clim_T (int (length (trainval_range r1))) None (val_steps r1 r2))
       (\<lambda>val.
     then_do (loop3 rv ds (int (length (trainval_range r1)) + int (length (valtest_range r1 r2)))
                None (test_steps r1 r2)) (\<lambda>te.
     then_do (local_var tr) (\<lambda>(i_tr, d_tr, t_tr, o_tr, c_tr).
     then_do (local_var val) (\<lambda>(i_val, d_val, t_val, o_val, c_val).
     then_do (local_var te) (\<lambda>(i_te, d_te, t_te).
     Inr \<lparr>inputs_tr = i_tr, outputs_tr_DelT = d_tr, outputs_tr_Temp = t_tr,
          orig_tr_Temp = o_tr, clim_tr_Temp = c_tr,
          inputs_val = i_val, outputs_val_DelT = d_val, outputs_val_Temp = t_val,
          orig_val_Temp = o_val, clim_val_Temp = c_val,
          inputs_te = i_te, outputs_te_DelT = d_te, outputs_te_Temp = t_te\<rparr>))))))"

text \<open>
  Lines 1691 to 1711:
  \<^verbatim>\<open>
    np.random.seed(5)
    ordering_tr = np.random.permutation(inputs_tr.shape[0])
    ordering_val = np.random.permutation(inputs_val.shape[0])
    ordering_te = np.random.permutation(inputs_te.shape[0])
    inputs_tr = inputs_tr[ordering_tr]
    outputs_tr_DelT = outputs_tr_DelT[ordering_tr].compute()
    ...
    outputs_te_Temp = outputs_te_Temp[ordering_te].compute()
  \<close>
  The generator of numpy is a parameter: \<open>seed\<close> gives the state
  \<^verbatim>\<open>np.random.seed\<close> sets, and \<open>permutation g n\<close> the array \<^verbatim>\<open>np.random.permutation(n)\<close>
  returns in state \<open>g\<close> together with the state it leaves. \<open>g0\<close> is the state of the
  generator when the lines are reached.
\<close>

definition randomise ::
  "(int \<Rightarrow> 'g) \<Rightarrow> ('g \<Rightarrow> nat \<Rightarrow> nat list \<times> 'g) \<Rightarrow> 'g \<Rightarrow> pools \<Rightarrow> error + (pools \<times> 'g)" where
  "randomise seed permutation g0 p =
     (let g = seed 5;
          (ordering_tr, g) = permutation g (shape (inputs_tr p) ! 0);
          (ordering_val, g) = permutation g (shape (inputs_val p) ! 0);
          (ordering_te, g) = permutation g (shape (inputs_te p) ! 0)
      in
      then_do (take_rows (inputs_tr p) ordering_tr) (\<lambda>i_tr.
      then_do (take_rows (outputs_tr_DelT p) ordering_tr) (\<lambda>d_tr.
      then_do (take_rows (outputs_tr_Temp p) ordering_tr) (\<lambda>t_tr.
      then_do (take_rows (orig_tr_Temp p) ordering_tr) (\<lambda>o_tr.
      then_do (take_rows (clim_tr_Temp p) ordering_tr) (\<lambda>c_tr.
      then_do (take_rows (inputs_val p) ordering_val) (\<lambda>i_val.
      then_do (take_rows (outputs_val_DelT p) ordering_val) (\<lambda>d_val.
      then_do (take_rows (outputs_val_Temp p) ordering_val) (\<lambda>t_val.
      then_do (take_rows (orig_val_Temp p) ordering_val) (\<lambda>o_val.
      then_do (take_rows (clim_val_Temp p) ordering_val) (\<lambda>c_val.
      then_do (take_rows (inputs_te p) ordering_te) (\<lambda>i_te.
      then_do (take_rows (outputs_te_DelT p) ordering_te) (\<lambda>d_te.
      then_do (take_rows (outputs_te_Temp p) ordering_te) (\<lambda>t_te.
      Inr (\<lparr>inputs_tr = i_tr, outputs_tr_DelT = d_tr, outputs_tr_Temp = t_tr,
             orig_tr_Temp = o_tr, clim_tr_Temp = c_tr,
             inputs_val = i_val, outputs_val_DelT = d_val, outputs_val_Temp = t_val,
             orig_val_Temp = o_val, clim_val_Temp = c_val,
             inputs_te = i_te, outputs_te_DelT = d_te, outputs_te_Temp = t_te\<rparr>, g)))))))))))))))"

text \<open>
  Lines 1839 to 1844:
  \<^verbatim>\<open>
    def normalise_data(train, val, test):
        train_mean, train_std = np.mean(train), np.std(train)
        norm_train = (train - train_mean) / train_std
        norm_val = (val - train_mean) / train_std
        norm_test = (test - train_mean) / train_std
        return norm_train, norm_val, norm_test, train_mean, train_std
  \<close>
  \<^verbatim>\<open>np.mean\<close> and \<^verbatim>\<open>np.std\<close> range over all elements; of an empty array they are
  not-a-number, and a division by a zero deviation gives an infinity or not-a-number.
  A float is therefore a \<open>real option\<close> here, \<open>None\<close> for the values that are not
  finite.
\<close>

definition np_mean :: "real ndarray \<Rightarrow> real option" where
  "np_mean a = (if tolist a = [] then None
                else Some (sum_list (tolist a) / real (length (tolist a))))"

definition np_std :: "real ndarray \<Rightarrow> real option" where
  "np_std a =
     (case np_mean a of
        None \<Rightarrow> None
      | Some m \<Rightarrow> Some (sqrt (sum_list (map (\<lambda>x. (x - m)\<^sup>2) (tolist a))
                               / real (length (tolist a)))))"

definition standardise :: "real option \<Rightarrow> real option \<Rightarrow> real \<Rightarrow> real option" where
  "standardise mean std x =
     (case (mean, std) of
        (Some m, Some s) \<Rightarrow> if s = 0 then None else Some ((x - m) / s)
      | _ \<Rightarrow> None)"

definition normalise_data ::
  "real ndarray \<Rightarrow> real ndarray \<Rightarrow> real ndarray
     \<Rightarrow> real option ndarray \<times> real option ndarray \<times> real option ndarray \<times> real option \<times> real option" where
  "normalise_data train val test =
     (let train_mean = np_mean train; train_std = np_std train;
          norm_train = \<lparr>shape = shape train,
                         elem = (\<lambda>js. standardise train_mean train_std (elem train js))\<rparr>;
          norm_val = \<lparr>shape = shape val,
                       elem = (\<lambda>js. standardise train_mean train_std (elem val js))\<rparr>;
          norm_test = \<lparr>shape = shape test,
                        elem = (\<lambda>js. standardise train_mean train_std (elem test js))\<rparr>
      in (norm_train, norm_val, norm_test, train_mean, train_std))"

section \<open>Notions of the specification\<close>

text \<open>
  The number of physical fields a configuration enables (the temperature always, the
  two currents and the three bolus velocities together), and the length of a feature
  vector as the specification counts it: the stencil volume for every field, nine for
  the surface height, one for every coordinate.
\<close>

definition n_fields :: "run_vars \<Rightarrow> nat" where
  "n_fields rv = 1 + (if sal rv then 1 else 0) + (if current rv then 2 else 0)
                   + (if bolus_vel rv then 3 else 0) + (if density rv then 1 else 0)"

definition n_features :: "run_vars \<Rightarrow> nat" where
  "n_features rv =
     (if dimension rv = 2 then 9 else 27) * n_fields rv
     + (if eta rv then 9 else 0)
     + (if lat rv then 1 else 0) + (if lon rv then 1 else 0) + (if dep rv then 1 else 0)"

text \<open>
  An array covers a list of bounds when it has one axis per bound and every axis is at
  least as long as its bound. The window of a region fits a dataset at a step \<open>t\<close> when
  the bounds of the region are not empty and start at 1 or above, every field over
  (T, Z, Y, X) holds the step \<open>t\<close> and extends to the upper ends of the slices of the
  call (\<open>z_up\<close> when the dimension is 2 and \<open>z_up + 1\<close> otherwise, \<open>y_up + 1\<close>,
  \<open>x_up + 1\<close>), the surface height likewise, and the coordinates extend to the upper
  bounds of the region. No slice of the call is then clipped.
\<close>

definition covers :: "'a ndarray \<Rightarrow> int list \<Rightarrow> bool" where
  "covers a ups \<longleftrightarrow> list_all2 (\<lambda>u n. u \<le> int n) ups (shape a)"

definition field_fits :: "run_vars \<Rightarrow> bounds \<Rightarrow> int \<Rightarrow> 'a ndarray \<Rightarrow> bool" where
  "field_fits rv b t a \<longleftrightarrow>
     covers a [t + 1, z_up b + (if dimension rv = 2 then 0 else 1), y_up b + 1, x_up b + 1]"

definition window_fits :: "run_vars \<Rightarrow> dataset \<Rightarrow> bounds \<Rightarrow> int \<Rightarrow> bool" where
  "window_fits rv ds b t \<longleftrightarrow>
     0 \<le> t \<and> 1 \<le> z_lw b \<and> z_lw b < z_up b \<and> 1 \<le> y_lw b \<and> y_lw b < y_up b
     \<and> 1 \<le> x_lw b \<and> x_lw b < x_up b
     \<and> field_fits rv b t (da_T ds) \<and> field_fits rv b t (da_S ds)
     \<and> field_fits rv b t (da_U ds) \<and> field_fits rv b t (da_V ds)
     \<and> field_fits rv b t (da_Kwx ds) \<and> field_fits rv b t (da_Kwy ds)
     \<and> field_fits rv b t (da_Kwz ds) \<and> field_fits rv b t (da_dns ds)
     \<and> covers (da_Eta ds) [t + 1, y_up b + 1, x_up b + 1]
     \<and> covers (da_lat ds) [y_up b] \<and> covers (da_lon ds) [x_up b]
     \<and> covers (da_depth ds) [z_up b]"




text \<open>
  The samples of a split: row \<open>i\<close> of every array of the split, taken together. The
  arrays of a split have one row per sample.
\<close>

definition row :: "'a ndarray \<Rightarrow> nat \<Rightarrow> 'a list" where
  "row a i = map (\<lambda>f. elem a [i, f]) [0..<shape a ! 1]"

definition samples_tr :: "pools \<Rightarrow> (real list \<times> real list \<times> real list \<times> real list \<times> real list) list" where
  "samples_tr p =
     map (\<lambda>i. (row (inputs_tr p) i, row (outputs_tr_DelT p) i, row (outputs_tr_Temp p) i,
               row (orig_tr_Temp p) i, row (clim_tr_Temp p) i))
         [0..<shape (inputs_tr p) ! 0]"

definition samples_val :: "pools \<Rightarrow> (real list \<times> real list \<times> real list \<times> real list \<times> real list) list" where
  "samples_val p =
     map (\<lambda>i. (row (inputs_val p) i, row (outputs_val_DelT p) i, row (outputs_val_Temp p) i,
               row (orig_val_Temp p) i, row (clim_val_Temp p) i))
         [0..<shape (inputs_val p) ! 0]"

definition samples_te :: "pools \<Rightarrow> (real list \<times> real list \<times> real list) list" where
  "samples_te p =
     map (\<lambda>i. (row (inputs_te p) i, row (outputs_te_DelT p) i, row (outputs_te_Temp p) i))
         [0..<shape (inputs_te p) ! 0]"

definition pools_shaped :: "pools \<Rightarrow> nat \<Rightarrow> nat \<Rightarrow> nat \<Rightarrow> nat \<Rightarrow> bool" where
  "pools_shaped p n_tr n_val n_te F \<longleftrightarrow>
     shape (inputs_tr p) = [n_tr, F] \<and> shape (outputs_tr_DelT p) = [n_tr, 1]
     \<and> shape (outputs_tr_Temp p) = [n_tr, 1] \<and> shape (orig_tr_Temp p) = [n_tr, 1]
     \<and> shape (clim_tr_Temp p) = [n_tr, 1]
     \<and> shape (inputs_val p) = [n_val, F] \<and> shape (outputs_val_DelT p) = [n_val, 1]
     \<and> shape (outputs_val_Temp p) = [n_val, 1] \<and> shape (orig_val_Temp p) = [n_val, 1]
     \<and> shape (clim_val_Temp p) = [n_val, 1]
     \<and> shape (inputs_te p) = [n_te, F] \<and> shape (outputs_te_DelT p) = [n_te, 1]
     \<and> shape (outputs_te_Temp p) = [n_te, 1]"

text \<open>
  A step of a loop fits a region when the window of the region fits, the temperature
  holds the step \<open>t + StepSize\<close> of the targets, and the climatology extends to the upper
  bounds of the region. A run fits when every step of its three loops fits the three
  regions and every loop has a step. The arrays of one region and step, like the
  arrays of a split, are described by their numbers of rows: \<open>n\<close> rows of inputs with
  \<open>F\<close> columns of features, and \<open>m\<close> rows of every target, with one column. The arrays
  of a split have one row per sample when the two numbers agree (\<open>pools_shaped\<close>).
  \<open>cells\<close> is the number of cells of a region, and \<open>rows_of N\<close> the number of rows the
  three regions add in one step of a loop when region \<open>r\<close> adds \<open>N r\<close>.
\<close>

definition step_fits :: "run_vars \<Rightarrow> dataset \<Rightarrow> real ndarray \<Rightarrow> region \<Rightarrow> int \<Rightarrow> bool" where
  "step_fits rv ds da_clim_T r t \<longleftrightarrow>
     window_fits rv ds (region_bounds ds r) t
     \<and> 0 \<le> t + StepSize rv \<and> t + StepSize rv < int (hd (shape (da_T ds)))
     \<and> covers da_clim_T [1, z_up (region_bounds ds r), y_up (region_bounds ds r),
                           x_up (region_bounds ds r)]"

definition run_fits :: "run_vars \<Rightarrow> dataset \<Rightarrow> real ndarray \<Rightarrow> real \<Rightarrow> real \<Rightarrow> bool" where
  "run_fits rv ds da_clim_T r1 r2 \<longleftrightarrow>
     train_steps r1 \<noteq> [] \<and> val_steps r1 r2 \<noteq> [] \<and> test_steps r1 r2 \<noteq> []
     \<and> list_all (\<lambda>t. list_all (\<lambda>r. step_fits rv ds da_clim_T r t) [Interior, WestWrap, EastWrap])
         (train_steps r1 @ val_steps r1 r2 @ test_steps r1 r2)"

definition shaped5 :: "arrays5 \<Rightarrow> nat \<Rightarrow> nat \<Rightarrow> nat \<Rightarrow> bool" where
  "shaped5 s n m F \<longleftrightarrow>
     (case s of (inputs, delT, temp, orig, clim) \<Rightarrow>
        shape inputs = [n, F] \<and> shape delT = [m, 1] \<and> shape temp = [m, 1]
        \<and> shape orig = [m, 1] \<and> shape clim = [m, 1])"

definition shaped3 :: "arrays3 \<Rightarrow> nat \<Rightarrow> nat \<Rightarrow> nat \<Rightarrow> bool" where
  "shaped3 s n m F \<longleftrightarrow>
     (case s of (inputs, delT, temp) \<Rightarrow>
        shape inputs = [n, F] \<and> shape delT = [m, 1] \<and> shape temp = [m, 1])"

definition pools_rows ::
  "pools \<Rightarrow> nat \<Rightarrow> nat \<Rightarrow> nat \<Rightarrow> nat \<Rightarrow> nat \<Rightarrow> nat \<Rightarrow> nat \<Rightarrow> bool" where
  "pools_rows p n_tr m_tr n_val m_val n_te m_te F \<longleftrightarrow>
     shape (inputs_tr p) = [n_tr, F] \<and> shape (outputs_tr_DelT p) = [m_tr, 1]
     \<and> shape (outputs_tr_Temp p) = [m_tr, 1] \<and> shape (orig_tr_Temp p) = [m_tr, 1]
     \<and> shape (clim_tr_Temp p) = [m_tr, 1]
     \<and> shape (inputs_val p) = [n_val, F] \<and> shape (outputs_val_DelT p) = [m_val, 1]
     \<and> shape (outputs_val_Temp p) = [m_val, 1] \<and> shape (orig_val_Temp p) = [m_val, 1]
     \<and> shape (clim_val_Temp p) = [m_val, 1]
     \<and> shape (inputs_te p) = [n_te, F] \<and> shape (outputs_te_DelT p) = [m_te, 1]
     \<and> shape (outputs_te_Temp p) = [m_te, 1]"

definition cells :: "bounds \<Rightarrow> nat" where
  "cells b = nat (z_up b - z_lw b) * nat (y_up b - y_lw b) * nat (x_up b - x_lw b)"

definition rows_of :: "(region \<Rightarrow> nat) \<Rightarrow> nat" where
  "rows_of N = N Interior + N WestWrap + N EastWrap"

section \<open>Example data\<close>

text \<open>
  Concrete inputs at which the theorems are instantiated: a field whose value at a cell
  is the longitude index of the cell plus a hundred times its time index, a dataset of
  such fields on a grid of 42 by 78 by 11 cells, the same dataset with \<open>da_V\<close> a
  latitude row short and the density on 7300 time steps, a dataset on a grid of 5 by 7
  by 6 cells with the rows of inputs and of targets its three regions give in one step,
  a climatology for either grid, a temperature series of 7300 steps whose value is the time
  index, a run with the stencil of the temperature alone and a run with every feature
  group, a training array with the values 1 and 3 with a validation and a test array,
  three small pools of samples with other values in every array, and a generator whose
  permutations reverse the order.
\<close>

definition lon_field :: "nat list \<Rightarrow> real ndarray" where
  "lon_field ns = \<lparr>shape = ns, elem = (\<lambda>js. real (last js) + 100 * real (hd js))\<rparr>"

definition coord :: "nat \<Rightarrow> real ndarray" where
  "coord n = \<lparr>shape = [n], elem = (\<lambda>js. real (hd js))\<rparr>"

definition example_ds :: dataset where
  "example_ds =
     \<lparr>da_T = lon_field [76, 42, 78, 11], da_S = lon_field [76, 42, 78, 11],
      da_U = lon_field [76, 42, 78, 11], da_V = lon_field [76, 42, 78, 11],
      da_Kwx = lon_field [76, 42, 78, 11], da_Kwy = lon_field [76, 42, 78, 11],
      da_Kwz = lon_field [76, 42, 78, 11], da_dns = lon_field [76, 42, 78, 11],
      da_Eta = lon_field [76, 78, 11],
      da_lat = coord 78, da_lon = coord 11, da_depth = coord 42\<rparr>"

definition example_run_ds :: dataset where
  "example_run_ds =
     example_ds\<lparr>da_V := lon_field [76, 42, 77, 11], da_dns := lon_field [7300, 42, 78, 11]\<rparr>"

definition small_ds :: dataset where
  "small_ds =
     \<lparr>da_T = lon_field [76, 5, 7, 6], da_S = lon_field [76, 5, 7, 6],
      da_U = lon_field [76, 5, 7, 6], da_V = lon_field [76, 5, 7, 6],
      da_Kwx = lon_field [76, 5, 7, 6], da_Kwy = lon_field [76, 5, 7, 6],
      da_Kwz = lon_field [76, 5, 7, 6], da_dns = lon_field [76, 5, 7, 6],
      da_Eta = lon_field [76, 7, 6],
      da_lat = coord 7, da_lon = coord 6, da_depth = coord 5\<rparr>"

definition example_clim :: "real ndarray" where
  "example_clim = lon_field [12, 42, 78, 11]"

definition small_clim :: "real ndarray" where
  "small_clim = lon_field [12, 5, 7, 6]"

definition small_inputs :: "region \<Rightarrow> nat" where
  "small_inputs r = (case r of Interior \<Rightarrow> 27 | WestWrap \<Rightarrow> 20 | EastWrap \<Rightarrow> 40)"

definition small_targets :: "region \<Rightarrow> nat" where
  "small_targets r = (case r of Interior \<Rightarrow> 27 | WestWrap \<Rightarrow> 24 | EastWrap \<Rightarrow> 48)"

definition clock_field :: "real ndarray" where
  "clock_field = \<lparr>shape = [7300, 42, 78, 11], elem = (\<lambda>js. real (hd js))\<rparr>"

definition temp_only :: "int \<Rightarrow> run_vars" where
  "temp_only d =
     \<lparr>dimension = d, sal = False, current = False, bolus_vel = False, density = False,
      eta = False, lat = False, lon = False, dep = False, poly_degree = 1, StepSize = 1\<rparr>"

definition full_run :: "int \<Rightarrow> run_vars" where
  "full_run d =
     \<lparr>dimension = d, sal = True, current = True, bolus_vel = True, density = True,
      eta = True, lat = True, lon = True, dep = True, poly_degree = 1, StepSize = 1\<rparr>"

definition peek :: "error + 'a ndarray \<Rightarrow> nat list \<Rightarrow> error + (nat list \<times> 'a)" where
  "peek m js = then_do m (\<lambda>a. Inr (shape a, elem a js))"

definition example_train :: "real ndarray" where
  "example_train = \<lparr>shape = [2], elem = (\<lambda>js. if hd js = 0 then 1 else 3)\<rparr>"

definition example_val :: "real ndarray" where
  "example_val = \<lparr>shape = [1], elem = (\<lambda>js. 5)\<rparr>"

definition example_test :: "real ndarray" where
  "example_test = \<lparr>shape = [1], elem = (\<lambda>js. 2)\<rparr>"

definition column_from :: "nat \<Rightarrow> nat \<Rightarrow> real ndarray" where
  "column_from c n = \<lparr>shape = [n, 1], elem = (\<lambda>js. real (c + hd js))\<rparr>"

definition example_split_pools :: pools where
  "example_split_pools =
     \<lparr>inputs_tr = column_from 0 3, outputs_tr_DelT = column_from 10 3,
      outputs_tr_Temp = column_from 20 3, orig_tr_Temp = column_from 30 3,
      clim_tr_Temp = column_from 40 3,
      inputs_val = column_from 100 2, outputs_val_DelT = column_from 110 2,
      outputs_val_Temp = column_from 120 2, orig_val_Temp = column_from 130 2,
      clim_val_Temp = column_from 140 2,
      inputs_te = column_from 200 2, outputs_te_DelT = column_from 210 2,
      outputs_te_Temp = column_from 220 2\<rparr>"

definition example_seed :: "int \<Rightarrow> nat" where
  "example_seed s = nat s"

definition example_permutation :: "nat \<Rightarrow> nat \<Rightarrow> nat list \<times> nat" where
  "example_permutation g n = (rev [0..<n], Suc g)"

section \<open>Sequencing\<close>

lemma then_do_Inr [simp]: "then_do (Inr x) f = f x"
  by (simp add: then_do_def)

lemma then_do_Inl [simp]: "then_do (Inl e) f = Inl e"
  by (simp add: then_do_def)

section \<open>Properties of the temporal splitter\<close>

lemma py_range_mem:
  assumes "0 < s"
  shows "x \<in> set (py_range a b s) \<longleftrightarrow> a \<le> x \<and> x < b \<and> s dvd (x - a)"
proof
  assume "x \<in> set (py_range a b s)"
  then obtain k where k: "k < range_len a b s" and x: "x = a + int k * s"
    by (auto simp: py_range_def)
  from k have ab: "a < b" using assms by (auto simp: range_len_def split: if_splits)
  from k ab assms have "int k < (b - a - 1) div s + 1" by (simp add: range_len_def)
  hence "int k \<le> (b - a - 1) div s" by simp
  hence "int k * s \<le> ((b - a - 1) div s) * s" using assms by (simp add: mult_right_mono)
  also have "\<dots> \<le> b - a - 1" using assms
    by (metis div_mult_mod_eq le_add_same_cancel1 pos_mod_sign)
  finally show "a \<le> x \<and> x < b \<and> s dvd (x - a)" using x assms by simp
next
  assume h: "a \<le> x \<and> x < b \<and> s dvd (x - a)"
  then obtain q where q: "x - a = s * q" by (auto simp: dvd_def)
  have "0 \<le> s * q" using h q by simp
  with assms have q0: "0 \<le> q" by (simp add: zero_le_mult_iff)
  have "s * q \<le> b - a - 1" using h q by simp
  hence "q \<le> (b - a - 1) div s" using assms
    by (metis mult.commute zdiv_mono1 nonzero_mult_div_cancel_left less_irrefl)
  hence "nat q < range_len a b s" using h assms q0 by (simp add: range_len_def)
  hence "nat q \<in> set [0..<range_len a b s]" by simp
  hence "(\<lambda>k. a + int k * s) (nat q) \<in> set (py_range a b s)"
    unfolding py_range_def set_map by (rule imageI)
  moreover have "x = a + int (nat q) * s" using q q0 by (simp add: mult.commute)
  ultimately show "x \<in> set (py_range a b s)" by simp
qed

lemma py_range_sorted: "0 < s \<Longrightarrow> sorted_wrt (<) (py_range a b s)"
  by (simp add: py_range_def sorted_wrt_map sorted_wrt_iff_nth_less)

lemma py_range_append:
  assumes "0 < s" "a \<le> m" "m \<le> b" "s dvd (m - a)"
  shows "py_range a m s @ py_range m b s = py_range a b s"
proof (rule sorted_distinct_set_unique)
  have lt: "\<forall>x\<in>set (py_range a m s). \<forall>y\<in>set (py_range m b s). x < y"
    using assms by (auto simp: py_range_mem)
  show "sorted (py_range a m s @ py_range m b s)"
    using py_range_sorted[OF assms(1), of a m] py_range_sorted[OF assms(1), of m b] lt
    by (auto simp: sorted_append strict_sorted_iff intro: less_imp_le)
  show "distinct (py_range a m s @ py_range m b s)"
    using py_range_sorted[OF assms(1), of a m] py_range_sorted[OF assms(1), of m b] lt
    by (auto simp: strict_sorted_iff)
  show "sorted (py_range a b s)" "distinct (py_range a b s)"
    using py_range_sorted[OF assms(1), of a b] by (auto simp: strict_sorted_iff)
  show "set (py_range a m s @ py_range m b s) = set (py_range a b s)"
  proof (rule set_eqI)
    fix x
    have "s dvd (x - m) \<longleftrightarrow> s dvd (x - a)"
    proof -
      have "x - a = (x - m) + (m - a)" by simp
      thus ?thesis using assms(4) by (metis dvd_add_left_iff)
    qed
    thus "x \<in> set (py_range a m s @ py_range m b s) \<longleftrightarrow> x \<in> set (py_range a b s)"
      using assms by (auto simp: py_range_mem)
  qed
qed

lemma py_int_mono: "x \<le> y \<Longrightarrow> py_int x \<le> py_int y"
proof -
  assume xy: "x \<le> y"
  consider "0 \<le> x" | "x < 0" "0 \<le> y" | "y < 0" using xy by linarith
  thus ?thesis
  proof cases
    case 1
    thus ?thesis using xy by (simp add: py_int_def floor_mono)
  next
    case 2
    have "\<lceil>x\<rceil> \<le> 0" using 2(1) by (simp add: ceiling_le_iff)
    moreover have "0 \<le> \<lfloor>y\<rfloor>" using 2(2) by simp
    ultimately have "\<lceil>x\<rceil> \<le> \<lfloor>y\<rfloor>" by (rule order_trans)
    thus ?thesis using 2 by (simp add: py_int_def)
  next
    case 3
    thus ?thesis using xy by (simp add: py_int_def ceiling_mono)
  qed
qed

lemma split_boundaries_mono: "r1 \<le> r2 \<Longrightarrow> trainval_split r1 \<le> valtest_split r2"
  unfolding trainval_split_def valtest_split_def data_end_index_def
  by (rule py_int_mono) simp

text \<open>
  Claim C4, as amended. For split ratios \<open>r1 \<le> r2\<close> the three index sequences are
  pairwise disjoint, every train index is below every validation index and every
  validation index below every test index. Each sequence is stepped from its own lower
  boundary, so their concatenation is the single stride-stepped range
  \<^verbatim>\<open>range(start, data_end_index, subsample_rate)\<close> when both split boundaries are
  multiples of the stride (and the ratios lie in the unit interval).
\<close>

theorem temporal_split_ranges:
  assumes "r1 \<le> r2"
  shows "set (trainval_range r1) \<inter> set (valtest_range r1 r2) = {}
       \<and> set (trainval_range r1) \<inter> set (test_range r2) = {}
       \<and> set (valtest_range r1 r2) \<inter> set (test_range r2) = {}
       \<and> (\<forall>a\<in>set (trainval_range r1). \<forall>b\<in>set (valtest_range r1 r2). a < b)
       \<and> (\<forall>b\<in>set (valtest_range r1 r2). \<forall>c\<in>set (test_range r2). b < c)
       \<and> (0 \<le> r1 \<and> r2 \<le> 1 \<and> subsample_rate dvd trainval_split r1
            \<and> subsample_rate dvd valtest_split r2
           \<longrightarrow> full_range r1 r2 = py_range start data_end_index subsample_rate)"
proof -
  have le: "trainval_split r1 \<le> valtest_split r2"
    using assms by (rule split_boundaries_mono)
  have s: "(0::int) < subsample_rate" by (simp add: subsample_rate_def)
  have d1: "set (trainval_range r1) \<inter> set (valtest_range r1 r2) = {}"
    using s by (auto simp: trainval_range_def valtest_range_def py_range_mem)
  have d2: "set (trainval_range r1) \<inter> set (test_range r2) = {}"
    using s le by (auto simp: trainval_range_def test_range_def py_range_mem)
  have d3: "set (valtest_range r1 r2) \<inter> set (test_range r2) = {}"
    using s by (auto simp: valtest_range_def test_range_def py_range_mem)
  have o1: "\<forall>a\<in>set (trainval_range r1). \<forall>b\<in>set (valtest_range r1 r2). a < b"
    using s by (auto simp: trainval_range_def valtest_range_def py_range_mem)
  have o2: "\<forall>b\<in>set (valtest_range r1 r2). \<forall>c\<in>set (test_range r2). b < c"
    using s by (auto simp: valtest_range_def test_range_def py_range_mem)
  have u: "full_range r1 r2 = py_range start data_end_index subsample_rate"
    if h: "0 \<le> r1" "r2 \<le> 1" "subsample_rate dvd trainval_split r1"
          "subsample_rate dvd valtest_split r2"
  proof -
    have lo: "start \<le> trainval_split r1"
      using h(1) by (simp add: start_def trainval_split_def data_end_index_def py_int_def)
    have "valtest_split r2 \<le> py_int (of_int data_end_index * 1)"
      unfolding valtest_split_def using h(2)
      by (intro py_int_mono) (simp add: data_end_index_def)
    hence hi: "valtest_split r2 \<le> data_end_index"
      by (simp add: py_int_def data_end_index_def)
    have dv: "subsample_rate dvd (valtest_split r2 - trainval_split r1)"
      using h(3,4) by (simp add: dvd_diff)
    have dt: "subsample_rate dvd (trainval_split r1 - start)"
      using h(3) by (simp add: start_def)
    have "valtest_range r1 r2 @ test_range r2
            = py_range (trainval_split r1) data_end_index subsample_rate"
      unfolding valtest_range_def test_range_def
      using s le hi dv by (rule py_range_append)
    moreover have "trainval_range r1 @ py_range (trainval_split r1) data_end_index subsample_rate
            = py_range start data_end_index subsample_rate"
      unfolding trainval_range_def
      using s lo _ dt by (rule py_range_append) (use le hi in simp)
    ultimately show ?thesis by (simp add: full_range_def)
  qed
  from d1 d2 d3 o1 o2 u show ?thesis by blast
qed

theorem temporal_split_ranges_witness:
  "(1/2::real) \<le> 3/4
   \<and> 3400 \<in> set (trainval_range (1/2)) \<and> 3600 \<in> set (valtest_range (1/2) (3/4))
   \<and> 5400 \<in> set (test_range (3/4))
   \<and> set (trainval_range (1/2)) \<inter> set (valtest_range (1/2) (3/4)) = {}
   \<and> full_range (1/2) (3/4) = py_range start data_end_index subsample_rate"
proof -
  have h: "(1/2::real) \<le> 3/4" by simp
  have tv: "trainval_split (1/2) = 3600"
    by (simp add: trainval_split_def data_end_index_def py_int_def)
  have vt: "valtest_split (3/4) = 5400"
    by (simp add: valtest_split_def data_end_index_def py_int_def)
  have m: "3400 \<in> set (trainval_range (1/2))" "3600 \<in> set (valtest_range (1/2) (3/4))"
      "5400 \<in> set (test_range (3/4))"
    by (simp_all add: trainval_range_def valtest_range_def test_range_def tv vt
        py_range_mem subsample_rate_def start_def data_end_index_def)
  have d: "subsample_rate dvd trainval_split (1/2)" "subsample_rate dvd valtest_split (3/4)"
    by (simp_all add: tv vt subsample_rate_def)
  show ?thesis using temporal_split_ranges [OF h] m d h by simp
qed

text \<open>
  With the default ratios the boundaries are 5040 and 6480, which are no multiples of
  200: the validation sequence starts at 5040, an index the stride-stepped range over
  the whole usable length does not contain.
\<close>

theorem temporal_split_union_counterexample:
  "set (trainval_range (7/10)) \<union> set (valtest_range (7/10) (9/10)) \<union> set (test_range (9/10))
     \<noteq> set (py_range start data_end_index subsample_rate)"
proof -
  have tv: "trainval_split (7/10) = 5040"
    by (simp add: trainval_split_def data_end_index_def py_int_def)
  have vt: "valtest_split (9/10) = 6480"
    by (simp add: valtest_split_def data_end_index_def py_int_def)
  have "5040 \<in> set (valtest_range (7/10) (9/10))"
    by (simp add: valtest_range_def tv vt py_range_mem subsample_rate_def)
  moreover have "5040 \<notin> set (py_range start data_end_index subsample_rate)"
    by (simp add: py_range_mem subsample_rate_def start_def data_end_index_def)
  ultimately show ?thesis by blast
qed

section \<open>Row-major indices\<close>








lemma unravel_window2: "unravel [3, 3] f = [f div 3, f mod 3]"
  by simp

declare ravel.simps [simp del] unravel.simps [simp del]


section \<open>Shapes and elements of the stencils\<close>

lemma infer_shape_last:
  assumes "0 < a * b * c"
  shows "infer_shape [int a, int b, int c, - 1] (a * b * c * d) = Inr [a, b, c, d]"
proof -
  have p: "int a * (int b * int c) = int (a * b * c)" by (simp add: mult.assoc)
  have nz: "int (a * b * c) \<noteq> 0" using assms by simp
  have m: "int (a * b * c * d) mod int (a * b * c) = 0"
    by (metis dvd_triv_left mod_0_imp_dvd dvd_eq_mod_eq_0 of_nat_mult of_nat_dvd_iff)
  show ?thesis
    unfolding infer_shape_def Let_def using assms nz m
    by (simp add: p del: of_nat_mult)
qed

lemma infer_shape_rows:
  "infer_shape [int a * int b * int c, int f] (a * b * c * f) = Inr [a * b * c, f]"
proof -
  have p: "int a * int b * int c = int (a * b * c)" by simp
  have q: "int (a * b * c) * int f = int (a * b * c * f)" by simp
  show ?thesis
    unfolding infer_shape_def Let_def p
    by (simp add: q del: of_nat_mult)
qed

lemma prod_list_windows: "prod_list [a, b, c, wz, 3, 3] = a * b * c * (wz * 9)" for a :: nat
  by simp

lemma view_as_windows_3d:
  assumes "shape a = [Z, Y, X]" "1 \<le> wz" "wz \<le> Z" "3 \<le> Y" "3 \<le> X"
  shows "view_as_windows a [wz, 3, 3] =
     Inr \<lparr>shape = [Z - wz + 1, Y - 2, X - 2, wz, 3, 3],
          elem = (\<lambda>js. elem a (map2 (+) (take 3 js) (drop 3 js)))\<rparr>"
  using assms by (auto simp add: view_as_windows_def Let_def numeral_3_eq_3)

lemma reshape_windows:
  assumes "shape t = [a, b, c, wz, 3, 3]" "0 < a * b * c"
  shows "reshape t [int (shape t ! 0), int (shape t ! 1), int (shape t ! 2), - 1] =
     Inr \<lparr>shape = [a, b, c, wz * 9],
          elem = (\<lambda>js. elem t (unravel [a, b, c, wz, 3, 3] (ravel [a, b, c, wz * 9] js)))\<rparr>"
proof -
  have "infer_shape [int a, int b, int c, - 1] (prod_list [a, b, c, wz, 3, 3]) = Inr [a, b, c, wz * 9]"
    using infer_shape_last[OF assms(2), of "wz * 9"] by (simp only: prod_list_windows)
  thus ?thesis
    unfolding reshape_def by (simp add: assms(1) del: prod_list.Cons)
qed

lemma stencil_3d:
  assumes "shape a = [Z, Y, X]" "1 \<le> wz" "wz \<le> Z" "3 \<le> Y" "3 \<le> X"
  shows "stencil a [wz, 3, 3] =
     Inr \<lparr>shape = [Z - wz + 1, Y - 2, X - 2, wz * 9],
          elem = (\<lambda>js. elem a (map2 (+)
                    (take 3 (unravel [Z - wz + 1, Y - 2, X - 2, wz, 3, 3]
                                (ravel [Z - wz + 1, Y - 2, X - 2, wz * 9] js)))
                    (drop 3 (unravel [Z - wz + 1, Y - 2, X - 2, wz, 3, 3]
                                (ravel [Z - wz + 1, Y - 2, X - 2, wz * 9] js)))))\<rparr>"
proof -
  have pos: "0 < (Z - wz + 1) * (Y - 2) * (X - 2)" using assms by simp
  define t :: "real ndarray" where
    "t = \<lparr>shape = [Z - wz + 1, Y - 2, X - 2, wz, 3, 3],
          elem = (\<lambda>js. elem a (map2 (+) (take 3 js) (drop 3 js)))\<rparr>"
  have st: "shape t = [Z - wz + 1, Y - 2, X - 2, wz, 3, 3]" by (simp add: t_def)
  have "stencil a [wz, 3, 3]
          = reshape t [int (shape t ! 0), int (shape t ! 1), int (shape t ! 2), - 1]"
    unfolding stencil_def view_as_windows_3d[OF assms] t_def by simp
  also have "\<dots> = Inr \<lparr>shape = [Z - wz + 1, Y - 2, X - 2, wz * 9],
          elem = (\<lambda>js. elem t (unravel [Z - wz + 1, Y - 2, X - 2, wz, 3, 3]
                     (ravel [Z - wz + 1, Y - 2, X - 2, wz * 9] js)))\<rparr>"
    using st pos by (rule reshape_windows)
  finally show ?thesis by (simp add: t_def)
qed


lemma concat_last4:
  assumes "shape p = [a, b, c, F]" "shape q = [a, b, c, G]"
  shows "np_concatenate p q (- 1) =
     Inr \<lparr>shape = [a, b, c, F + G],
          elem = (\<lambda>js. if js ! 3 < F then elem p js else elem q (js[3 := js ! 3 - F]))\<rparr>"
  using assms by (simp add: np_concatenate_def Let_def cong: if_cong)

lemma reshape_last_shape:
  assumes "prod_list (shape t) = a * b * c * d" "0 < a * b * c"
  shows "\<exists>r. reshape t [int a, int b, int c, - 1] = Inr r \<and> shape r = [a, b, c, d]"
  unfolding reshape_def assms(1) infer_shape_last[OF assms(2)] by simp

lemma add_stencil_shape:
  assumes "shape inputs = [A, B, C, F]" "shape a = [A + wz - 1, B + 2, C + 2]" "1 \<le> wz"
    "0 < A" "0 < B" "0 < C"
  shows "\<exists>r. add_stencil a [wz, 3, 3] inputs = Inr r \<and> shape r = [A, B, C, F + wz * 9]"
proof -
  have "stencil a [wz, 3, 3] = Inr \<lparr>shape = [A + wz - 1 - wz + 1, B + 2 - 2, C + 2 - 2, wz * 9],
          elem = (\<lambda>js. elem a (map2 (+)
                    (take 3 (unravel [A + wz - 1 - wz + 1, B + 2 - 2, C + 2 - 2, wz, 3, 3]
                                (ravel [A + wz - 1 - wz + 1, B + 2 - 2, C + 2 - 2, wz * 9] js)))
                    (drop 3 (unravel [A + wz - 1 - wz + 1, B + 2 - 2, C + 2 - 2, wz, 3, 3]
                                (ravel [A + wz - 1 - wz + 1, B + 2 - 2, C + 2 - 2, wz * 9] js)))))\<rparr>"
    using assms by (intro stencil_3d) simp_all
  then obtain s where s: "stencil a [wz, 3, 3] = Inr s" "shape s = [A, B, C, wz * 9]"
    using assms(3,4) by simp
  show ?thesis
    unfolding add_stencil_def s(1) using concat_last4[OF assms(1) s(2)] by simp
qed

lemma opt_stencil_shape:
  assumes "shape inputs = [A, B, C, F]" "shape a = [A + wz - 1, B + 2, C + 2]" "1 \<le> wz"
    "0 < A" "0 < B" "0 < C"
  shows "\<exists>r. (if flag then add_stencil a [wz, 3, 3] inputs else Inr inputs) = Inr r
           \<and> shape r = [A, B, C, F + (if flag then wz * 9 else 0)]"
  using add_stencil_shape[OF assms] assms(1) by simp

lemma stencil_inputs_shape:
  assumes T: "shape Temp = [A + wz - 1, B + 2, C + 2]"
    and S: "shape Sal = [A + wz - 1, B + 2, C + 2]"
    and U: "shape U = [A + wz - 1, B + 2, C + 2]"
    and V: "shape V = [A + wz - 1, B + 2, C + 2]"
    and Kx: "shape Kwx = [A + wz - 1, B + 2, C + 2]"
    and Ky: "shape Kwy = [A + wz - 1, B + 2, C + 2]"
    and Kz: "shape Kwz = [A + wz - 1, B + 2, C + 2]"
    and D: "shape dns = [A + wz - 1, B + 2, C + 2]"
    and w: "1 \<le> wz" and pos: "0 < A" "0 < B" "0 < C"
  shows "\<exists>r. stencil_inputs rv [wz, 3, 3] Temp Sal U V Kwx Kwy Kwz dns = Inr r
           \<and> shape r = [A, B, C, wz * 9 * n_fields rv]"
proof -
  have "stencil Temp [wz, 3, 3] = Inr \<lparr>shape = [A + wz - 1 - wz + 1, B + 2 - 2, C + 2 - 2, wz * 9],
          elem = (\<lambda>js. elem Temp (map2 (+)
                    (take 3 (unravel [A + wz - 1 - wz + 1, B + 2 - 2, C + 2 - 2, wz, 3, 3]
                                (ravel [A + wz - 1 - wz + 1, B + 2 - 2, C + 2 - 2, wz * 9] js)))
                    (drop 3 (unravel [A + wz - 1 - wz + 1, B + 2 - 2, C + 2 - 2, wz, 3, 3]
                                (ravel [A + wz - 1 - wz + 1, B + 2 - 2, C + 2 - 2, wz * 9] js)))))\<rparr>"
    using T w pos by (intro stencil_3d) simp_all
  then obtain i0 where i0: "stencil Temp [wz, 3, 3] = Inr i0" "shape i0 = [A, B, C, wz * 9]"
    using w pos by simp
  obtain i1 where i1: "(if sal rv then add_stencil Sal [wz, 3, 3] i0 else Inr i0) = Inr i1"
      "shape i1 = [A, B, C, wz * 9 + (if sal rv then wz * 9 else 0)]"
    using opt_stencil_shape[OF i0(2) S w pos] by blast
  obtain i2 where i2: "(if current rv then add_stencil U [wz, 3, 3] i1 else Inr i1) = Inr i2"
      "shape i2 = [A, B, C, wz * 9 + (if sal rv then wz * 9 else 0) + (if current rv then wz * 9 else 0)]"
    using opt_stencil_shape[OF i1(2) U w pos] by blast
  obtain i3 where i3: "(if current rv then add_stencil V [wz, 3, 3] i2 else Inr i2) = Inr i3"
      "shape i3 = [A, B, C, wz * 9 + (if sal rv then wz * 9 else 0) + (if current rv then wz * 9 else 0)
                     + (if current rv then wz * 9 else 0)]"
    using opt_stencil_shape[OF i2(2) V w pos] by blast
  obtain i4 where i4: "(if bolus_vel rv then add_stencil Kwx [wz, 3, 3] i3 else Inr i3) = Inr i4"
      "shape i4 = [A, B, C, wz * 9 + (if sal rv then wz * 9 else 0) + (if current rv then wz * 9 else 0)
                     + (if current rv then wz * 9 else 0) + (if bolus_vel rv then wz * 9 else 0)]"
    using opt_stencil_shape[OF i3(2) Kx w pos] by blast
  obtain i5 where i5: "(if bolus_vel rv then add_stencil Kwy [wz, 3, 3] i4 else Inr i4) = Inr i5"
      "shape i5 = [A, B, C, wz * 9 + (if sal rv then wz * 9 else 0) + (if current rv then wz * 9 else 0)
                     + (if current rv then wz * 9 else 0) + (if bolus_vel rv then wz * 9 else 0)
                     + (if bolus_vel rv then wz * 9 else 0)]"
    using opt_stencil_shape[OF i4(2) Ky w pos] by blast
  obtain i6 where i6: "(if bolus_vel rv then add_stencil Kwz [wz, 3, 3] i5 else Inr i5) = Inr i6"
      "shape i6 = [A, B, C, wz * 9 + (if sal rv then wz * 9 else 0) + (if current rv then wz * 9 else 0)
                     + (if current rv then wz * 9 else 0) + (if bolus_vel rv then wz * 9 else 0)
                     + (if bolus_vel rv then wz * 9 else 0) + (if bolus_vel rv then wz * 9 else 0)]"
    using opt_stencil_shape[OF i5(2) Kz w pos] by blast
  obtain i7 where i7: "(if density rv then add_stencil dns [wz, 3, 3] i6 else Inr i6) = Inr i7"
      "shape i7 = [A, B, C, wz * 9 + (if sal rv then wz * 9 else 0) + (if current rv then wz * 9 else 0)
                     + (if current rv then wz * 9 else 0) + (if bolus_vel rv then wz * 9 else 0)
                     + (if bolus_vel rv then wz * 9 else 0) + (if bolus_vel rv then wz * 9 else 0)
                     + (if density rv then wz * 9 else 0)]"
    using opt_stencil_shape[OF i6(2) D w pos] by blast
  have cur: "(if current rv then then_do (add_stencil U [wz, 3, 3] i1) (add_stencil V [wz, 3, 3])
             else Inr i1) = Inr i3"
    using i2(1) i3(1) by (cases "current rv") simp_all
  have bol: "(if bolus_vel rv
              then then_do (then_do (add_stencil Kwx [wz, 3, 3] i3) (add_stencil Kwy [wz, 3, 3]))
                     (add_stencil Kwz [wz, 3, 3])
              else Inr i3) = Inr i6"
    using i4(1) i5(1) i6(1) by (cases "bolus_vel rv") simp_all
  have res: "stencil_inputs rv [wz, 3, 3] Temp Sal U V Kwx Kwy Kwz dns = Inr i7"
    unfolding stencil_inputs_def i0(1) then_do_Inr i1(1) cur bol by (rule i7(1))
  have "shape i7 = [A, B, C, wz * 9 * n_fields rv]"
    unfolding i7(2) n_fields_def by (simp add: algebra_simps)
  with res show ?thesis by blast
qed

lemma add_column_shape:
  assumes "shape inp = [A, B, C, F]" "shape tmp = [A, B, C, G]"
  shows "\<exists>r. add_column (Some inp) tmp = Inr (Some r) \<and> shape r = [A, B, C, F + G]"
  unfolding add_column_def local_var_def using concat_last4[OF assms] by simp

lemma eta_features_shape:
  assumes "shape inp = [A, B, C, F]" "shape Eta = [B + 2, C + 2]" "0 < A" "0 < B" "0 < C"
  shows "\<exists>r. eta_features Eta (Some (int A)) (Some inp) = Inr (Some r)
           \<and> shape r = [A, B, C, F + 9]"
proof -
  have v: "view_as_windows Eta [3, 3] =
      Inr \<lparr>shape = [B, C, 3, 3], elem = (\<lambda>js. elem Eta (map2 (+) (take 2 js) (drop 2 js)))\<rparr>"
    using assms(2,4,5) by (auto simp add: view_as_windows_def Let_def numeral_2_eq_2)
  define t1 :: "real ndarray" where
    "t1 = \<lparr>shape = [B, C, 3, 3], elem = (\<lambda>js. elem Eta (map2 (+) (take 2 js) (drop 2 js)))\<rparr>"
  obtain t2 where t2: "np_tile t1 [int A, 1, 1, 1, 1] = Inr t2" "shape t2 = [A, B, C, 3, 3]"
    by (simp add: np_tile_def Let_def t1_def)
  have "prod_list (shape t2) = A * B * C * 9" by (simp add: t2(2))
  moreover have "0 < A * B * C" using assms by simp
  ultimately obtain t3 where t3: "reshape t2 [int A, int B, int C, - 1] = Inr t3"
      "shape t3 = [A, B, C, 9]"
    using reshape_last_shape by blast
  obtain r where r: "add_column (Some inp) t3 = Inr (Some r)" "shape r = [A, B, C, F + 9]"
    using add_column_shape[OF assms(1) t3(2)] by blast
  have "eta_features Eta (Some (int A)) (Some inp) = Inr (Some r)"
    unfolding eta_features_def v t1_def[symmetric]
    by (simp add: local_var_def t2 t3 r)
  with r(2) show ?thesis by blast
qed

lemma lat_feature_shape:
  assumes "shape inp = [A, B, C, F]" "shape lat' = [B]"
  shows "\<exists>r. lat_feature lat' (Some (int A)) (int C) (Some inp) = Inr (Some r)
           \<and> shape r = [A, B, C, F + 1]"
proof -
  obtain t1 where t1: "np_tile lat' [int A, 1] = Inr t1" "shape t1 = [A, B]"
    by (simp add: np_tile_def Let_def assms(2))
  obtain t2 where t2: "np_tile (expand_dims t1) [1, int C] = Inr t2" "shape t2 = [A, B, C]"
    by (simp add: np_tile_def Let_def expand_dims_def t1(2))
  have "shape (expand_dims t2) = [A, B, C, 1]" by (simp add: expand_dims_def t2(2))
  from add_column_shape[OF assms(1) this]
  obtain r where r: "add_column (Some inp) (expand_dims t2) = Inr (Some r)"
      "shape r = [A, B, C, F + 1]" by blast
  have "lat_feature lat' (Some (int A)) (int C) (Some inp) = Inr (Some r)"
    unfolding lat_feature_def by (simp add: local_var_def t1 t2 r)
  with r(2) show ?thesis by blast
qed

lemma lon_feature_shape:
  assumes "shape inp = [A, B, C, F]" "shape lon' = [C]"
  shows "\<exists>r. lon_feature lon' (Some (int A)) (int B) (Some inp) = Inr (Some r)
           \<and> shape r = [A, B, C, F + 1]"
proof -
  obtain t1 where t1: "np_tile lon' [int B, 1] = Inr t1" "shape t1 = [B, C]"
    by (simp add: np_tile_def Let_def assms(2))
  obtain t2 where t2: "np_tile t1 [int A, 1, 1] = Inr t2" "shape t2 = [A, B, C]"
    by (simp add: np_tile_def Let_def t1(2))
  have "shape (expand_dims t2) = [A, B, C, 1]" by (simp add: expand_dims_def t2(2))
  from add_column_shape[OF assms(1) this]
  obtain r where r: "add_column (Some inp) (expand_dims t2) = Inr (Some r)"
      "shape r = [A, B, C, F + 1]" by blast
  have "lon_feature lon' (Some (int A)) (int B) (Some inp) = Inr (Some r)"
    unfolding lon_feature_def by (simp add: local_var_def t1 t2 r)
  with r(2) show ?thesis by blast
qed

lemma dep_feature_shape:
  assumes "shape inp = [A, B, C, F]" "shape depth = [A]"
  shows "\<exists>r. dep_feature depth (int B) (int C) (Some inp) = Inr (Some r)
           \<and> shape r = [A, B, C, F + 1]"
proof -
  obtain t1 where t1: "np_tile (expand_dims depth) [1, int B] = Inr t1" "shape t1 = [A, B]"
    by (simp add: np_tile_def Let_def expand_dims_def assms(2))
  obtain t2 where t2: "np_tile (expand_dims t1) [1, int C] = Inr t2" "shape t2 = [A, B, C]"
    by (simp add: np_tile_def Let_def expand_dims_def t1(2))
  have "shape (expand_dims t2) = [A, B, C, 1]" by (simp add: expand_dims_def t2(2))
  from add_column_shape[OF assms(1) this]
  obtain r where r: "add_column (Some inp) (expand_dims t2) = Inr (Some r)"
      "shape r = [A, B, C, F + 1]" by blast
  have "dep_feature depth (int B) (int C) (Some inp) = Inr (Some r)"
    unfolding dep_feature_def by (simp add: t1 t2 r)
  with r(2) show ?thesis by blast
qed

lemma rows_reshape_shape:
  assumes "shape inp = [A, B, C, F]"
  shows "\<exists>r. reshape inp [int A * int B * int C, int (last (shape inp))] = Inr r
           \<and> shape r = [A * B * C, F]"
proof -
  have "prod_list (shape inp) = A * B * C * F" by (simp add: assms)
  thus ?thesis
    unfolding reshape_def by (simp add: assms infer_shape_rows del: prod_list.Cons)
qed

lemma GetInputs_shape:
  assumes dim: "dimension rv = 2 \<and> wz = 1 \<or> dimension rv = 3 \<and> wz = 3"
    and poly: "poly_degree rv \<le> 1"
    and T: "shape Temp = [A + wz - 1, B + 2, C + 2]"
    and S: "shape Sal = [A + wz - 1, B + 2, C + 2]"
    and U: "shape U = [A + wz - 1, B + 2, C + 2]"
    and V: "shape V = [A + wz - 1, B + 2, C + 2]"
    and Kx: "shape Kwx = [A + wz - 1, B + 2, C + 2]"
    and Ky: "shape Kwy = [A + wz - 1, B + 2, C + 2]"
    and Kz: "shape Kwz = [A + wz - 1, B + 2, C + 2]"
    and D: "shape dns = [A + wz - 1, B + 2, C + 2]"
    and E: "shape Eta = [B + 2, C + 2]"
    and la: "shape lat' = [B]" and lo: "shape lon' = [C]" and de: "shape depth = [A]"
    and pos: "0 < A" "0 < B" "0 < C"
  shows "\<exists>r. GetInputs rv Temp Sal U V Kwx Kwy Kwz dns Eta lat' lon' depth = Inr r
           \<and> shape r = [A * B * C, n_features rv]"
proof -
  have w: "1 \<le> wz" using dim by auto
  obtain i0 where i0: "stencil_inputs rv [wz, 3, 3] Temp Sal U V Kwx Kwy Kwz dns = Inr i0"
      "shape i0 = [A, B, C, wz * 9 * n_fields rv]"
    using stencil_inputs_shape[OF T S U V Kx Ky Kz D w pos] by blast
  have zsub: "(if dimension rv = 2
           then then_do (stencil_inputs rv [1, 3, 3] Temp Sal U V Kwx Kwy Kwz dns)
                  (\<lambda>inputs. Inr (Some (int (shape Temp ! 0)), Some inputs))
           else if dimension rv = 3
           then then_do (stencil_inputs rv [3, 3, 3] Temp Sal U V Kwx Kwy Kwz dns)
                  (\<lambda>inputs. Inr (Some (int (shape Temp ! 0) - 2), Some inputs))
           else Inr (None, None)) = Inr (Some (int A), Some i0)"
    using dim i0(1) T by auto
  have xs: "int (shape Temp ! 2) - 2 = int C" and ys: "int (shape Temp ! 1) - 2 = int B"
    by (simp_all add: T)
  obtain i1 where i1: "(if eta rv then eta_features Eta (Some (int A)) (Some i0) else Inr (Some i0))
                         = Inr (Some i1)"
      "shape i1 = [A, B, C, wz * 9 * n_fields rv + (if eta rv then 9 else 0)]"
    using eta_features_shape[OF i0(2) E pos] i0(2) by (cases "eta rv") auto
  obtain i2 where i2: "(if lat rv then lat_feature lat' (Some (int A)) (int C) (Some i1)
                        else Inr (Some i1)) = Inr (Some i2)"
      "shape i2 = [A, B, C, wz * 9 * n_fields rv + (if eta rv then 9 else 0)
                     + (if lat rv then 1 else 0)]"
    using lat_feature_shape[OF i1(2) la] i1(2) by (cases "lat rv") auto
  obtain i3 where i3: "(if lon rv then lon_feature lon' (Some (int A)) (int B) (Some i2)
                        else Inr (Some i2)) = Inr (Some i3)"
      "shape i3 = [A, B, C, wz * 9 * n_fields rv + (if eta rv then 9 else 0)
                     + (if lat rv then 1 else 0) + (if lon rv then 1 else 0)]"
    using lon_feature_shape[OF i2(2) lo] i2(2) by (cases "lon rv") auto
  obtain i4 where i4: "(if dep rv then dep_feature depth (int B) (int C) (Some i3)
                        else Inr (Some i3)) = Inr (Some i4)"
      "shape i4 = [A, B, C, wz * 9 * n_fields rv + (if eta rv then 9 else 0)
                     + (if lat rv then 1 else 0) + (if lon rv then 1 else 0)
                     + (if dep rv then 1 else 0)]"
    using dep_feature_shape[OF i3(2) de] i3(2) by (cases "dep rv") auto
  obtain r where r: "reshape i4 [int A * int B * int C, int (last (shape i4))] = Inr r"
      "shape r = [A * B * C, wz * 9 * n_fields rv + (if eta rv then 9 else 0)
                     + (if lat rv then 1 else 0) + (if lon rv then 1 else 0)
                     + (if dep rv then 1 else 0)]"
    using rows_reshape_shape[OF i4(2)] by blast
  have len: "\<not> length (shape Temp) < 3" by (simp add: T)
  have "GetInputs rv Temp Sal U V Kwx Kwy Kwz dns Eta lat' lon' depth = Inr r"
    unfolding GetInputs_def Let_def xs ys zsub
    using len poly by (simp add: i1(1) i2(1) i3(1) i4(1) local_var_def r(1))
  moreover have "shape r = [A * B * C, n_features rv]"
    unfolding r(2) n_features_def using dim by auto
  ultimately show ?thesis by blast
qed

section \<open>Selections and shifted fields\<close>

lemma slice_in_range:
  assumes "0 \<le> lo" "lo \<le> hi" "hi \<le> int n"
  shows "slice_start (Some lo) n = nat lo" "slice_len (Some lo) (Some hi) n = nat (hi - lo)"
  using assms by (auto simp add: slice_start_def slice_len_def slice_stop_def slice_norm_def)

lemma getitem_field4:
  assumes "shape a = [nt, Z, Y, X]" "0 \<le> t" "t < int nt"
    and "0 \<le> zl" "zl \<le> zh" "zh \<le> int Z"
    and "0 \<le> yl" "yl \<le> yh" "yh \<le> int Y"
    and "0 \<le> xl" "xl \<le> xh" "xh \<le> int X"
  shows "getitem a [Idx t, from_to zl zh, from_to yl yh, from_to xl xh] =
           Inr \<lparr>shape = [nat (zh - zl), nat (yh - yl), nat (xh - xl)],
                elem = (\<lambda>js. elem a (keys_index [Idx t, from_to zl zh, from_to yl yh, from_to xl xh]
                                          [nt, Z, Y, X] js))\<rparr>"
  using assms by (simp add: getitem_def from_to_def slice_in_range)


lemma getitem_field3:
  assumes "shape a = [nt, Y, X]" "0 \<le> t" "t < int nt"
    and "0 \<le> yl" "yl \<le> yh" "yh \<le> int Y"
    and "0 \<le> xl" "xl \<le> xh" "xh \<le> int X"
  shows "\<exists>r. getitem a [Idx t, from_to yl yh, from_to xl xh] = Inr r
           \<and> shape r = [nat (yh - yl), nat (xh - xl)]"
  using assms by (simp add: getitem_def from_to_def slice_in_range)

lemma getitem_coord:
  assumes "shape a = [n]" "0 \<le> lo" "lo \<le> hi" "hi \<le> int n"
  shows "\<exists>r. getitem a [from_to lo hi] = Inr r \<and> shape r = [nat (hi - lo)]"
  using assms by (simp add: getitem_def from_to_def slice_in_range)

lemma shift_west4:
  assumes "shape a = [nt, Z, Y, X]" "1 \<le> X"
  shows "\<exists>r. shift_west a = Inr r \<and> shape r = [nt, Z, Y, X]
           \<and> (\<forall>t z y x. elem r [t, z, y, x] = elem a [t, z, y, if x = 0 then X - 1 else x - 1])"
  using assms
  by (simp add: shift_west_def leading_def getitem_def np_concatenate_def Let_def
        slice_len_def slice_start_def slice_stop_def slice_norm_def nat_diff_distrib)

lemma shift_west3:
  assumes "shape a = [nt, Y, X]" "1 \<le> X"
  shows "\<exists>r. shift_west a = Inr r \<and> shape r = [nt, Y, X]"
  using assms
  by (simp add: shift_west_def leading_def getitem_def np_concatenate_def Let_def
        slice_len_def slice_start_def slice_stop_def slice_norm_def nat_diff_distrib)

lemma shift_west1:
  assumes "shape a = [X]" "1 \<le> X"
  shows "\<exists>r. shift_west a = Inr r \<and> shape r = [X]"
  using assms
  by (simp add: shift_west_def leading_def getitem_def np_concatenate_def Let_def
        slice_len_def slice_start_def slice_stop_def slice_norm_def nat_diff_distrib)

lemma shift_east4:
  assumes "shape a = [nt, Z, Y, X]" "1 \<le> X"
  shows "\<exists>r. shift_east a = Inr r \<and> shape r = [nt, Z, Y, X]
           \<and> (\<forall>t z y x. elem r [t, z, y, x] = elem a [t, z, y, if x < X - 1 then x + 1 else x - (X - 1)])"
  using assms
  by (simp add: shift_east_def leading_def getitem_def np_concatenate_def Let_def
        slice_len_def slice_start_def slice_stop_def slice_norm_def nat_diff_distrib)

lemma shift_east3:
  assumes "shape a = [nt, Y, X]" "1 \<le> X"
  shows "\<exists>r. shift_east a = Inr r \<and> shape r = [nt, Y, X]"
  using assms
  by (simp add: shift_east_def leading_def getitem_def np_concatenate_def Let_def
        slice_len_def slice_start_def slice_stop_def slice_norm_def nat_diff_distrib)

lemma shift_east1:
  assumes "shape a = [X]" "1 \<le> X"
  shows "\<exists>r. shift_east a = Inr r \<and> shape r = [X]"
  using assms
  by (simp add: shift_east_def leading_def getitem_def np_concatenate_def Let_def
        slice_len_def slice_start_def slice_stop_def slice_norm_def nat_diff_distrib)

lemma covers4:
  assumes "covers a [t1, z1, y1, x1]"
  obtains nt Z Y X where "shape a = [nt, Z, Y, X]" "t1 \<le> int nt" "z1 \<le> int Z" "y1 \<le> int Y"
    "x1 \<le> int X"
  using assms by (auto simp add: covers_def list_all2_Cons1)

lemma covers3:
  assumes "covers a [t1, y1, x1]"
  obtains nt Y X where "shape a = [nt, Y, X]" "t1 \<le> int nt" "y1 \<le> int Y" "x1 \<le> int X"
  using assms by (auto simp add: covers_def list_all2_Cons1)

lemma covers1:
  assumes "covers a [x1]"
  obtains X where "shape a = [X]" "x1 \<le> int X"
  using assms by (auto simp add: covers_def list_all2_Cons1)

lemma getitem_coord_prefix:
  assumes "covers a [hi]" "0 \<le> lo" "lo \<le> hi"
  shows "\<exists>r. getitem a [from_to lo hi] = Inr r \<and> shape r = [nat (hi - lo)]"
proof -
  from assms(1) obtain n where "shape a = [n]" "hi \<le> int n" by (rule covers1)
  thus ?thesis using assms(2,3) by (intro getitem_coord) simp_all
qed

lemma input_keys_fit:
  assumes a: "field_fits rv b t a"
    and t: "0 \<le> t"
    and dim: "dimension rv = 2 \<and> wz = 1 \<or> dimension rv = 3 \<and> wz = 3"
    and hz: "1 \<le> z_lw b" "z_lw b < z_up b"
    and hy: "1 \<le> y_lw b" "y_lw b < y_up b"
    and hx: "1 \<le> x_lw b" "x_lw b < x_up b"
  shows "\<exists>r. getitem a (input_keys rv b t) = Inr r
           \<and> shape r = [nat (z_up b - z_lw b) + wz - 1, nat (y_up b - y_lw b) + 2,
                          nat (x_up b - x_lw b) + 2]"
proof -
  from a obtain nt Z Y X where s: "shape a = [nt, Z, Y, X]" "t + 1 \<le> int nt"
      "z_up b + (if dimension rv = 2 then 0 else 1) \<le> int Z" "y_up b + 1 \<le> int Y"
      "x_up b + 1 \<le> int X"
    unfolding field_fits_def by (rule covers4)
  have tn: "t < int nt" using s(2) by simp
  from dim show ?thesis
  proof
    assume d: "dimension rv = 2 \<and> wz = 1"
    have "getitem a [Idx t, from_to (z_lw b) (z_up b), from_to (y_lw b - 1) (y_up b + 1),
                     from_to (x_lw b - 1) (x_up b + 1)] =
           Inr \<lparr>shape = [nat (z_up b - z_lw b), nat (y_up b + 1 - (y_lw b - 1)),
                           nat (x_up b + 1 - (x_lw b - 1))],
                elem = (\<lambda>js. elem a (keys_index [Idx t, from_to (z_lw b) (z_up b),
                     from_to (y_lw b - 1) (y_up b + 1), from_to (x_lw b - 1) (x_up b + 1)]
                                          [nt, Z, Y, X] js))\<rparr>"
      using s t tn hz hy hx d by (intro getitem_field4) simp_all
    moreover have "nat (y_up b + 1 - (y_lw b - 1)) = nat (y_up b - y_lw b) + 2"
      "nat (x_up b + 1 - (x_lw b - 1)) = nat (x_up b - x_lw b) + 2"
      using hy hx by simp_all
    ultimately show ?thesis using d by (simp add: input_keys_def)
  next
    assume d: "dimension rv = 3 \<and> wz = 3"
    have "getitem a [Idx t, from_to (z_lw b - 1) (z_up b + 1), from_to (y_lw b - 1) (y_up b + 1),
                     from_to (x_lw b - 1) (x_up b + 1)] =
           Inr \<lparr>shape = [nat (z_up b + 1 - (z_lw b - 1)), nat (y_up b + 1 - (y_lw b - 1)),
                           nat (x_up b + 1 - (x_lw b - 1))],
                elem = (\<lambda>js. elem a (keys_index [Idx t, from_to (z_lw b - 1) (z_up b + 1),
                     from_to (y_lw b - 1) (y_up b + 1), from_to (x_lw b - 1) (x_up b + 1)]
                                          [nt, Z, Y, X] js))\<rparr>"
      using s t tn hz hy hx d by (intro getitem_field4) simp_all
    moreover have "nat (y_up b + 1 - (y_lw b - 1)) = nat (y_up b - y_lw b) + 2"
      "nat (x_up b + 1 - (x_lw b - 1)) = nat (x_up b - x_lw b) + 2"
      "nat (z_up b + 1 - (z_lw b - 1)) = nat (z_up b - z_lw b) + 3 - 1"
      using hy hx hz by simp_all
    ultimately show ?thesis using d by (simp add: input_keys_def)
  qed
qed

lemma region_inputs_fit:
  assumes fit: "window_fits rv ds b t"
    and dim: "dimension rv = 2 \<or> dimension rv = 3" and poly: "poly_degree rv \<le> 1"
  shows "\<exists>r. region_inputs rv ds b t = Inr r
           \<and> shape r = [nat (z_up b - z_lw b) * nat (y_up b - y_lw b) * nat (x_up b - x_lw b),
                          n_features rv]"
proof -
  define wz :: nat where "wz = (if dimension rv = 2 then 1 else 3)"
  have dw: "dimension rv = 2 \<and> wz = 1 \<or> dimension rv = 3 \<and> wz = 3"
    using dim by (auto simp: wz_def)
  define A where "A = nat (z_up b - z_lw b)"
  define B where "B = nat (y_up b - y_lw b)"
  define C where "C = nat (x_up b - x_lw b)"
  note g = fit[unfolded window_fits_def]
  have t: "0 \<le> t" and hz: "1 \<le> z_lw b" "z_lw b < z_up b" and hy: "1 \<le> y_lw b" "y_lw b < y_up b"
    and hx: "1 \<le> x_lw b" "x_lw b < x_up b"
    using g by simp_all
  have fld: "\<exists>r. getitem a (input_keys rv b t) = Inr r \<and> shape r = [A + wz - 1, B + 2, C + 2]"
    if "field_fits rv b t a" for a
    unfolding A_def B_def C_def using that t dw hz hy hx by (rule input_keys_fit)
  obtain Temp where Temp: "getitem (da_T ds) (input_keys rv b t) = Inr Temp"
      "shape Temp = [A + wz - 1, B + 2, C + 2]" using fld g by blast
  obtain Sal where Sal: "getitem (da_S ds) (input_keys rv b t) = Inr Sal"
      "shape Sal = [A + wz - 1, B + 2, C + 2]" using fld g by blast
  obtain U where U: "getitem (da_U ds) (input_keys rv b t) = Inr U"
      "shape U = [A + wz - 1, B + 2, C + 2]" using fld g by blast
  obtain V where V: "getitem (da_V ds) (input_keys rv b t) = Inr V"
      "shape V = [A + wz - 1, B + 2, C + 2]" using fld g by blast
  obtain Kwx where Kwx: "getitem (da_Kwx ds) (input_keys rv b t) = Inr Kwx"
      "shape Kwx = [A + wz - 1, B + 2, C + 2]" using fld g by blast
  obtain Kwy where Kwy: "getitem (da_Kwy ds) (input_keys rv b t) = Inr Kwy"
      "shape Kwy = [A + wz - 1, B + 2, C + 2]" using fld g by blast
  obtain Kwz where Kwz: "getitem (da_Kwz ds) (input_keys rv b t) = Inr Kwz"
      "shape Kwz = [A + wz - 1, B + 2, C + 2]" using fld g by blast
  obtain dns where dns: "getitem (da_dns ds) (input_keys rv b t) = Inr dns"
      "shape dns = [A + wz - 1, B + 2, C + 2]" using fld g by blast
  from g obtain nt Y X where e: "shape (da_Eta ds) = [nt, Y, X]" "t + 1 \<le> int nt"
      "y_up b + 1 \<le> int Y" "x_up b + 1 \<le> int X"
    by (elim conjE covers3)
  have tn: "t < int nt" using e(2) by linarith
  have "\<exists>r. getitem (da_Eta ds) [Idx t, from_to (y_lw b - 1) (y_up b + 1),
                                    from_to (x_lw b - 1) (x_up b + 1)] = Inr r
          \<and> shape r = [nat (y_up b + 1 - (y_lw b - 1)), nat (x_up b + 1 - (x_lw b - 1))]"
    using e(1) t tn hy hx e(3,4) by (intro getitem_field3) simp_all
  moreover have "nat (y_up b + 1 - (y_lw b - 1)) = B + 2" "nat (x_up b + 1 - (x_lw b - 1)) = C + 2"
    using hy hx by (simp_all add: B_def C_def)
  ultimately obtain Eta where Eta: "getitem (da_Eta ds) [Idx t, from_to (y_lw b - 1) (y_up b + 1),
                                    from_to (x_lw b - 1) (x_up b + 1)] = Inr Eta"
      "shape Eta = [B + 2, C + 2]" by auto
  obtain lat' where lat': "getitem (da_lat ds) [from_to (y_lw b) (y_up b)] = Inr lat'"
      "shape lat' = [B]"
    unfolding B_def using getitem_coord_prefix[of "da_lat ds" "y_up b" "y_lw b"] g hy by auto
  obtain lon' where lon': "getitem (da_lon ds) [from_to (x_lw b) (x_up b)] = Inr lon'"
      "shape lon' = [C]"
    unfolding C_def using getitem_coord_prefix[of "da_lon ds" "x_up b" "x_lw b"] g hx by auto
  obtain depth where depth: "getitem (da_depth ds) [from_to (z_lw b) (z_up b)] = Inr depth"
      "shape depth = [A]"
    unfolding A_def using getitem_coord_prefix[of "da_depth ds" "z_up b" "z_lw b"] g hz by auto
  have pos: "0 < A" "0 < B" "0 < C" using hz hy hx by (simp_all add: A_def B_def C_def)
  obtain r where r: "GetInputs rv Temp Sal U V Kwx Kwy Kwz dns Eta lat' lon' depth = Inr r"
      "shape r = [A * B * C, n_features rv]"
    using GetInputs_shape[OF dw poly Temp(2) Sal(2) U(2) V(2) Kwx(2) Kwy(2) Kwz(2) dns(2)
            Eta(2) lat'(2) lon'(2) depth(2) pos] by blast
  have "region_inputs rv ds b t = Inr r"
    unfolding region_inputs_def using dim
    by (simp add: Temp(1) Sal(1) U(1) V(1) Kwx(1) Kwy(1) Kwz(1) dns(1) Eta(1) lat'(1) lon'(1)
          depth(1) r(1))
  with r(2) show ?thesis by (simp add: A_def B_def C_def)
qed

lemma shift_west_fits4:
  assumes "field_fits rv b t a" "0 \<le> x_up b"
  shows "\<exists>r. shift_west a = Inr r \<and> shape r = shape a"
proof -
  from assms(1) obtain nt Z Y X where s: "shape a = [nt, Z, Y, X]" "x_up b + 1 \<le> int X"
    unfolding field_fits_def by (rule covers4)
  thus ?thesis using shift_west4[OF s(1)] assms(2) by auto
qed

lemma shift_west_fits3:
  assumes "covers a [t1, y1, x1]" "1 \<le> x1"
  shows "\<exists>r. shift_west a = Inr r \<and> shape r = shape a"
proof -
  from assms(1) obtain nt Y X where s: "shape a = [nt, Y, X]" "x1 \<le> int X"
    by (rule covers3)
  thus ?thesis using shift_west3[OF s(1)] assms(2) by auto
qed

lemma shift_west_fits1:
  assumes "covers a [x1]" "1 \<le> x1"
  shows "\<exists>r. shift_west a = Inr r \<and> shape r = shape a"
proof -
  from assms(1) obtain X where s: "shape a = [X]" "x1 \<le> int X"
    by (rule covers1)
  thus ?thesis using shift_west1[OF s(1)] assms(2) by auto
qed

lemma shift_east_fits4:
  assumes "field_fits rv b t a" "0 \<le> x_up b"
  shows "\<exists>r. shift_east a = Inr r \<and> shape r = shape a"
proof -
  from assms(1) obtain nt Z Y X where s: "shape a = [nt, Z, Y, X]" "x_up b + 1 \<le> int X"
    unfolding field_fits_def by (rule covers4)
  thus ?thesis using shift_east4[OF s(1)] assms(2) by auto
qed

lemma shift_east_fits3:
  assumes "covers a [t1, y1, x1]" "1 \<le> x1"
  shows "\<exists>r. shift_east a = Inr r \<and> shape r = shape a"
proof -
  from assms(1) obtain nt Y X where s: "shape a = [nt, Y, X]" "x1 \<le> int X"
    by (rule covers3)
  thus ?thesis using shift_east3[OF s(1)] assms(2) by auto
qed

lemma shift_east_fits1:
  assumes "covers a [x1]" "1 \<le> x1"
  shows "\<exists>r. shift_east a = Inr r \<and> shape r = shape a"
proof -
  from assms(1) obtain X where s: "shape a = [X]" "x1 \<le> int X"
    by (rule covers1)
  thus ?thesis using shift_east1[OF s(1)] assms(2) by auto
qed

lemma shifted_fits:
  assumes fit: "window_fits rv ds b t"
    and sh4: "\<And>a. field_fits rv b t a \<Longrightarrow> 0 \<le> x_up b
                \<Longrightarrow> \<exists>r. sh a = Inr r \<and> shape r = shape a"
    and sh3: "\<And>a t1 y1 x1. covers a [t1, y1, x1] \<Longrightarrow> 1 \<le> x1
                \<Longrightarrow> \<exists>r. sh a = Inr r \<and> shape r = shape a"
    and sh1: "\<And>a x1. covers a [x1] \<Longrightarrow> 1 \<le> x1
                \<Longrightarrow> \<exists>r. sh a = Inr r \<and> shape r = shape a"
  shows "\<exists>ds'. shifted sh ds = Inr ds' \<and> window_fits rv ds' b t"
proof -
  note g = fit[unfolded window_fits_def]
  have x: "0 \<le> x_up b" "1 \<le> x_up b + 1" "1 \<le> x_up b" using g by simp_all
  have f4: "\<exists>r. sh a = Inr r \<and> shape r = shape a" if "field_fits rv b t a" for a
    using sh4[OF that x(1)] .
  obtain T' where T': "sh (da_T ds) = Inr T'" "shape T' = shape (da_T ds)" using f4 g by blast
  obtain S' where S': "sh (da_S ds) = Inr S'" "shape S' = shape (da_S ds)" using f4 g by blast
  obtain U' where U': "sh (da_U ds) = Inr U'" "shape U' = shape (da_U ds)" using f4 g by blast
  obtain V' where V': "sh (da_V ds) = Inr V'" "shape V' = shape (da_V ds)" using f4 g by blast
  obtain Kwx' where Kwx': "sh (da_Kwx ds) = Inr Kwx'" "shape Kwx' = shape (da_Kwx ds)"
    using f4 g by blast
  obtain Kwy' where Kwy': "sh (da_Kwy ds) = Inr Kwy'" "shape Kwy' = shape (da_Kwy ds)"
    using f4 g by blast
  obtain Kwz' where Kwz': "sh (da_Kwz ds) = Inr Kwz'" "shape Kwz' = shape (da_Kwz ds)"
    using f4 g by blast
  obtain dns' where dns': "sh (da_dns ds) = Inr dns'" "shape dns' = shape (da_dns ds)"
    using f4 g by blast
  obtain Eta' where Eta': "sh (da_Eta ds) = Inr Eta'" "shape Eta' = shape (da_Eta ds)"
    using sh3[of "da_Eta ds" "t + 1" "y_up b + 1" "x_up b + 1"] g x by blast
  obtain lon' where lon': "sh (da_lon ds) = Inr lon'" "shape lon' = shape (da_lon ds)"
    using sh1[of "da_lon ds" "x_up b"] g x by blast
  show ?thesis
    unfolding shifted_def
    using fit
    by (simp add: T' S' U' V' Kwx' Kwy' Kwz' dns' Eta' lon' window_fits_def field_fits_def
          covers_def)
qed

lemma shifted_west_fits:
  assumes "window_fits rv ds b t"
  shows "\<exists>ds'. shifted shift_west ds = Inr ds' \<and> window_fits rv ds' b t"
  using assms
proof (rule shifted_fits)
  show "\<exists>r. shift_west a = Inr r \<and> shape r = shape a" if "field_fits rv b t a" "0 \<le> x_up b"
    for a :: "real ndarray" using that by (rule shift_west_fits4)
  show "\<exists>r. shift_west a = Inr r \<and> shape r = shape a" if "covers a [t1, y1, x1]" "1 \<le> x1"
    for a :: "real ndarray" and t1 y1 x1 using that by (rule shift_west_fits3)
  show "\<exists>r. shift_west a = Inr r \<and> shape r = shape a" if "covers a [x1]" "1 \<le> x1"
    for a :: "real ndarray" and x1 using that by (rule shift_west_fits1)
qed

lemma shifted_east_fits:
  assumes "window_fits rv ds b t"
  shows "\<exists>ds'. shifted shift_east ds = Inr ds' \<and> window_fits rv ds' b t"
  using assms
proof (rule shifted_fits)
  show "\<exists>r. shift_east a = Inr r \<and> shape r = shape a" if "field_fits rv b t a" "0 \<le> x_up b"
    for a :: "real ndarray" using that by (rule shift_east_fits4)
  show "\<exists>r. shift_east a = Inr r \<and> shape r = shape a" if "covers a [t1, y1, x1]" "1 \<le> x1"
    for a :: "real ndarray" and t1 y1 x1 using that by (rule shift_east_fits3)
  show "\<exists>r. shift_east a = Inr r \<and> shape r = shape a" if "covers a [x1]" "1 \<le> x1"
    for a :: "real ndarray" and x1 using that by (rule shift_east_fits1)
qed

text \<open>
  Claim C5, as amended. For every configuration of the feature groups with
  \<^verbatim>\<open>poly_degree = 1\<close> and a dimension of 2 or 3, and for every region and time step
  whose window fits the dataset (the bounds of the region are not empty, and every
  field and coordinate holds the time step and extends to the upper ends of the slices
  of the call), the call of \<^verbatim>\<open>GetInputs\<close> returns an array with one row per cell of the
  region, \<open>(z_up - z_lw) * (y_up - y_lw) * (x_up - x_lw)\<close> rows, and with \<open>n_features\<close>
  columns: the stencil volume (9 or 27) for every enabled physical field, 9 for the
  surface height, one for every enabled coordinate. The number of columns depends on
  the configuration only, so it is the same for every region and time step of a run.
  The fields need not have one shape: the theorem holds with \<^verbatim>\<open>da_V\<close> a latitude row
  short and the density on more time steps, as the source builds them.
\<close>

theorem GetInputs_rows_and_columns:
  assumes fit: "window_fits rv ds (region_bounds ds r) t"
    and dim: "dimension rv = 2 \<or> dimension rv = 3" and poly: "poly_degree rv = 1"
  shows "\<exists>inputs. region_sample_inputs rv ds r t = Inr inputs
           \<and> shape inputs =
               [nat ((z_up (region_bounds ds r) - z_lw (region_bounds ds r))
                     * (y_up (region_bounds ds r) - y_lw (region_bounds ds r))
                     * (x_up (region_bounds ds r) - x_lw (region_bounds ds r))),
                n_features rv]"
proof -
  have p: "poly_degree rv \<le> 1" using poly by simp
  define b where "b = region_bounds ds r"
  have fb: "window_fits rv ds b t" using fit by (simp add: b_def)
  have hz: "z_lw b < z_up b" and hy: "y_lw b < y_up b" and hx: "x_lw b < x_up b"
    using fb by (simp_all add: window_fits_def)
  obtain fields where f: "region_fields ds r = Inr fields" "window_fits rv fields b t"
  proof (cases r)
    case Interior
    thus ?thesis using fb that by (simp add: region_fields_def)
  next
    case WestWrap
    thus ?thesis using shifted_west_fits[OF fb] that
      by (auto simp add: region_fields_def)
  next
    case EastWrap
    thus ?thesis using shifted_east_fits[OF fb] that
      by (auto simp add: region_fields_def)
  qed
  obtain res where res: "region_inputs rv fields b t = Inr res"
      "shape res = [nat (z_up b - z_lw b) * nat (y_up b - y_lw b) * nat (x_up b - x_lw b),
                    n_features rv]"
    using region_inputs_fit[OF f(2) dim p] by blast
  have "nat (z_up b - z_lw b) * nat (y_up b - y_lw b) * nat (x_up b - x_lw b)
          = nat ((z_up b - z_lw b) * (y_up b - y_lw b) * (x_up b - x_lw b))"
    using hz hy hx by (simp add: nat_mult_distrib)
  with res have "region_sample_inputs rv ds r t = Inr res \<and> shape res =
      [nat ((z_up b - z_lw b) * (y_up b - y_lw b) * (x_up b - x_lw b)), n_features rv]"
    by (simp add: region_sample_inputs_def f(1) b_def)
  thus ?thesis unfolding b_def by blast
qed

theorem GetInputs_rows_and_columns_witness:
  "window_fits (full_run 3) example_run_ds (region_bounds example_run_ds EastWrap) 5
   \<and> shape (da_V example_run_ds) = [76, 42, 77, 11]
   \<and> shape (da_dns example_run_ds) = [7300, 42, 78, 11]
   \<and> dimension (full_run 3) = 3 \<and> poly_degree (full_run 3) = 1
   \<and> (\<exists>inputs. region_sample_inputs (full_run 3) example_run_ds EastWrap 5 = Inr inputs
          \<and> shape inputs = [840, 228])"
proof -
  have g: "window_fits (full_run 3) example_run_ds (region_bounds example_run_ds EastWrap) 5"
    by (simp add: window_fits_def field_fits_def covers_def example_run_ds_def example_ds_def lon_field_def
          coord_def full_run_def region_bounds_def region_3_def x_size_def)
  have s: "shape (da_V example_run_ds) = [76, 42, 77, 11]"
    "shape (da_dns example_run_ds) = [7300, 42, 78, 11]"
    by (simp_all add: example_run_ds_def lon_field_def)
  have d3: "dimension (full_run 3) = 3" and p: "poly_degree (full_run 3) = 1"
    by (simp_all add: full_run_def)
  have d: "dimension (full_run 3) = 2 \<or> dimension (full_run 3) = 3"
    using d3 by simp
  have b: "nat ((z_up (region_bounds example_run_ds EastWrap) - z_lw (region_bounds example_run_ds EastWrap))
                 * (y_up (region_bounds example_run_ds EastWrap) - y_lw (region_bounds example_run_ds EastWrap))
                 * (x_up (region_bounds example_run_ds EastWrap) - x_lw (region_bounds example_run_ds EastWrap)))
             = 840"
    by (simp add: region_bounds_def region_3_def)
  have f: "n_features (full_run 3) = 228"
    by (simp add: n_features_def n_fields_def full_run_def)
  show ?thesis
    using GetInputs_rows_and_columns [OF g d p] g s d3 p
    by (simp add: b f)
qed

section \<open>A dimension that is neither 2 nor 3\<close>

lemma eta_features_unbound: "\<exists>e. eta_features Eta None inputs = Inl e"
  by (cases "view_as_windows Eta [3, 3]") (simp_all add: eta_features_def local_var_def)

lemma lat_feature_unbound: "\<exists>e. lat_feature lat' None x inputs = Inl e"
  by (simp add: lat_feature_def local_var_def)

lemma lon_feature_unbound: "\<exists>e. lon_feature lon' None y inputs = Inl e"
  by (cases "np_tile lon' [y, 1]") (simp_all add: lon_feature_def local_var_def)

lemma add_column_unbound: "add_column None tmp = Inl UnboundLocalError"
  by (simp add: add_column_def local_var_def)

lemma dep_feature_unbound: "\<exists>e. dep_feature depth y x None = Inl e"
proof (cases "np_tile (expand_dims depth) [1, y]")
  case (Inl e)
  thus ?thesis by (simp add: dep_feature_def)
next
  case (Inr t1)
  show ?thesis
    by (cases "np_tile (expand_dims t1) [1, x]")
       (simp_all add: dep_feature_def Inr add_column_unbound)
qed

lemma optional_unbound:
  assumes "\<exists>e. stage = Inl e"
  shows "(\<exists>e. (if flag then stage else Inr None) = Inl e) \<or> (if flag then stage else Inr None) = Inr None"
  using assms by auto

text \<open>
  Claim C8. When \<^verbatim>\<open>run_vars["dimension"]\<close> is neither 2 nor 3, \<^verbatim>\<open>GetInputs\<close> returns
  no feature array, whatever the other arguments are: the call ends with an exception.
  (The source prints its message and goes on; the exception is raised where the
  unbound \<^verbatim>\<open>z_subsize\<close> or \<^verbatim>\<open>inputs\<close> is first read, or earlier by an array
  operation.)
\<close>

theorem GetInputs_bad_dimension:
  assumes "dimension rv \<noteq> 2" "dimension rv \<noteq> 3"
  shows "\<exists>e. GetInputs rv Temp Sal U V Kwx Kwy Kwz dns Eta lat' lon' depth = Inl e"
proof (cases "length (shape Temp) < 3")
  case True
  thus ?thesis by (simp add: GetInputs_def)
next
  case False
  define xs where "xs = int (shape Temp ! 2) - 2"
  define ys where "ys = int (shape Temp ! 1) - 2"
  define s1 where "s1 = (if eta rv then eta_features Eta None None else Inr None)"
  define s2 where "s2 = (if lat rv then lat_feature lat' None xs None else Inr None)"
  define s3 where "s3 = (if lon rv then lon_feature lon' None ys None else Inr None)"
  define s4 where "s4 = (if dep rv then dep_feature depth ys xs None else Inr None)"
  have G: "GetInputs rv Temp Sal U V Kwx Kwy Kwz dns Eta lat' lon' depth =
      then_do s1 (\<lambda>inputs.
        then_do (if lat rv then lat_feature lat' None xs inputs else Inr inputs) (\<lambda>inputs.
        then_do (if lon rv then lon_feature lon' None ys inputs else Inr inputs) (\<lambda>inputs.
        then_do (if dep rv then dep_feature depth ys xs inputs else Inr inputs) (\<lambda>inputs.
        then_do (local_var inputs) (\<lambda>inp.
        then_do (local_var (None :: int option)) (\<lambda>z.
        then_do (reshape inp [z * ys * xs, int (last (shape inp))]) (\<lambda>inputs.
        if 1 < poly_degree rv then fit_transform (poly_degree rv) inputs
        else Inr inputs)))))))"
    using False assms by (simp add: GetInputs_def Let_def xs_def ys_def s1_def)
  have c1: "(\<exists>e. s1 = Inl e) \<or> s1 = Inr None"
    unfolding s1_def using eta_features_unbound by (rule optional_unbound)
  have c2: "(\<exists>e. s2 = Inl e) \<or> s2 = Inr None"
    unfolding s2_def using lat_feature_unbound by (rule optional_unbound)
  have c3: "(\<exists>e. s3 = Inl e) \<or> s3 = Inr None"
    unfolding s3_def using lon_feature_unbound by (rule optional_unbound)
  have c4: "(\<exists>e. s4 = Inl e) \<or> s4 = Inr None"
    unfolding s4_def using dep_feature_unbound by (rule optional_unbound)
  from c1 show ?thesis
  proof
    assume "\<exists>e. s1 = Inl e"
    thus ?thesis unfolding G by auto
  next
    assume a1: "s1 = Inr None"
    from c2 show ?thesis
    proof
      assume "\<exists>e. s2 = Inl e"
      thus ?thesis unfolding G a1 s2_def by auto
    next
      assume a2: "s2 = Inr None"
      from c3 show ?thesis
      proof
        assume "\<exists>e. s3 = Inl e"
        thus ?thesis using a2 unfolding G a1 s2_def s3_def by auto
      next
        assume a3: "s3 = Inr None"
        from c4 show ?thesis
        proof
          assume "\<exists>e. s4 = Inl e"
          thus ?thesis using a2 a3 unfolding G a1 s2_def s3_def s4_def by auto
        next
          assume a4: "s4 = Inr None"
          show ?thesis using a2 a3 a4 unfolding G a1 s2_def s3_def s4_def
            by (auto simp: local_var_def)
        qed
      qed
    qed
  qed
qed

theorem GetInputs_bad_dimension_witness:
  "dimension (temp_only 4) \<noteq> 2 \<and> dimension (temp_only 4) \<noteq> 3
   \<and> (\<exists>e. GetInputs (temp_only 4) (lon_field [30, 16, 3]) (lon_field [30, 16, 3])
              (lon_field [30, 16, 3]) (lon_field [30, 16, 3]) (lon_field [30, 16, 3])
              (lon_field [30, 16, 3]) (lon_field [30, 16, 3]) (lon_field [30, 16, 3])
              (lon_field [16, 3]) (coord 14) (coord 1) (coord 30) = Inl e)
   \<and> GetInputs (temp_only 4) (lon_field [30, 16, 3]) (lon_field [30, 16, 3])
              (lon_field [30, 16, 3]) (lon_field [30, 16, 3]) (lon_field [30, 16, 3])
              (lon_field [30, 16, 3]) (lon_field [30, 16, 3]) (lon_field [30, 16, 3])
              (lon_field [16, 3]) (coord 14) (coord 1) (coord 30) = Inl UnboundLocalError"
proof -
  have d: "dimension (temp_only 4) \<noteq> 2" "dimension (temp_only 4) \<noteq> 3"
    by (simp_all add: temp_only_def)
  have "GetInputs (temp_only 4) (lon_field [30, 16, 3]) (lon_field [30, 16, 3])
              (lon_field [30, 16, 3]) (lon_field [30, 16, 3]) (lon_field [30, 16, 3])
              (lon_field [30, 16, 3]) (lon_field [30, 16, 3]) (lon_field [30, 16, 3])
              (lon_field [16, 3]) (coord 14) (coord 1) (coord 30) = Inl UnboundLocalError"
    by (simp add: GetInputs_def temp_only_def lon_field_def local_var_def)
  thus ?thesis
    using GetInputs_bad_dimension [OF d, of "lon_field [30, 16, 3]" "lon_field [30, 16, 3]"
        "lon_field [30, 16, 3]" "lon_field [30, 16, 3]" "lon_field [30, 16, 3]"
        "lon_field [30, 16, 3]" "lon_field [30, 16, 3]" "lon_field [30, 16, 3]"
        "lon_field [16, 3]" "coord 14" "coord 1" "coord 30"] d
    by simp
qed

section \<open>The periodic seam\<close>









section \<open>The routines at the example data\<close>

lemmas array_defs = getitem_def np_concatenate_def view_as_windows_def reshape_def infer_shape_def
  arr_minus_def slice_len_def slice_start_def slice_stop_def slice_norm_def from_to_def Let_def
  ravel.simps unravel.simps

lemmas region_defs = region_sample_inputs_def region_fields_def shifted_def shift_west_def
  shift_east_def leading_def region_inputs_def input_keys_def region_bounds_def region_1_def
  region_2_def region_3_def x_size_def y_size_def z_size_def target_keys_def orig_Temp_def
  outputs_DelT_def

lemmas GetInputs_defs = GetInputs_def stencil_inputs_def stencil_def add_stencil_def local_var_def
  add_column_def

lemmas example_defs = example_ds_def lon_field_def coord_def temp_only_def peek_def

text \<open>
  Claim C5 as it is written, for every region and time step, does not hold: a slice
  that reaches past the end of a field is clipped, and no error is raised. On a grid
  of 5 by 7 by 6 cells the call for the west-wrap region, whose bounds 15 and 31 are
  constants of the source, returns 20 rows with 9 columns, while the bounds of the
  region give \<open>30 * 14 * 1 = 420\<close> rows; the targets of the same region and step have
  24 rows.
\<close>

theorem GetInputs_rows_clipped_counterexample:
  "dimension (temp_only 2) = 2 \<and> poly_degree (temp_only 2) = 1
   \<and> shape (da_T small_ds) = [76, 5, 7, 6]
   \<and> peek (region_sample_inputs (temp_only 2) small_ds WestWrap 0) [0, 4] = Inr ([20, 9], 0)
   \<and> nat ((z_up (region_bounds small_ds WestWrap) - z_lw (region_bounds small_ds WestWrap))
          * (y_up (region_bounds small_ds WestWrap) - y_lw (region_bounds small_ds WestWrap))
          * (x_up (region_bounds small_ds WestWrap) - x_lw (region_bounds small_ds WestWrap)))
       = 420
   \<and> n_features (temp_only 2) = 9
   \<and> peek (orig_Temp (da_T small_ds) (region_bounds small_ds WestWrap) 0) [0, 0]
        = Inr ([24, 1], 1)"
  by (simp add: small_ds_def lon_field_def coord_def temp_only_def peek_def region_defs array_defs
        GetInputs_defs n_features_def n_fields_def)

text \<open>
  Claim C1 (the source departs from it in the two wrap regions). On the example
  dataset, whose temperature at time step 0 is the longitude index of the cell, the
  first sample of the west-wrap region has the stencil centre 0 (the cell of the
  unshifted column 0, column 4 of the nine temperature features) while its unnormalised
  temperature \<^verbatim>\<open>orig_2_Temp\<close> is 1, the value of the cell of column 1: the target
  slices address the unshifted \<^verbatim>\<open>da_T\<close> with bounds meant for the shifted field. In the
  east-wrap region the centre is the cell of column 9 and the target the cell of
  column 8. In the interior region centre and target are the same cell. In every
  region the target is the difference of the values at \<open>t + step\<close> and \<open>t\<close> (here 100).
\<close>

theorem wrap_targets_off_centre:
  "peek (region_sample_inputs (temp_only 2) example_ds WestWrap 0) [0, 4] = Inr ([420, 9], 0)
   \<and> peek (orig_Temp (da_T example_ds) (region_bounds example_ds WestWrap) 0) [0, 0]
        = Inr ([420, 1], 1)
   \<and> peek (outputs_DelT (da_T example_ds) 1 (region_bounds example_ds WestWrap) 0) [0, 0]
        = Inr ([420, 1], 100)
   \<and> peek (region_sample_inputs (temp_only 2) example_ds EastWrap 0) [0, 4] = Inr ([840, 9], 9)
   \<and> peek (orig_Temp (da_T example_ds) (region_bounds example_ds EastWrap) 0) [0, 0]
        = Inr ([840, 1], 8)
   \<and> peek (region_sample_inputs (temp_only 2) example_ds Interior 0) [0, 4] = Inr ([23680, 9], 1)
   \<and> peek (orig_Temp (da_T example_ds) (region_bounds example_ds Interior) 0) [0, 0]
        = Inr ([23680, 1], 1)"
  by (simp add: example_defs region_defs GetInputs_defs array_defs)

lemma selected_cells_mem:
  assumes "p < prod_list (keys_shape ks ns)"
  shows "keys_index ks ns (unravel (keys_shape ks ns) p) \<in> set (selected_cells ks ns)"
  unfolding selected_cells_def using assms by simp

text \<open>
  Claim C3 (the source departs from it). On the grid of the example dataset the cells
  the target slices of the regions address in \<^verbatim>\<open>da_T\<close> are not disjoint: the cell
  \<open>(z, y, x) = (1, 1, 1)\<close> is a target cell of the interior region and of the west-wrap
  region, and the cell \<open>(1, 1, 8)\<close>, with \<open>8 = x_size - 3\<close>, is a target cell of the
  interior region and of the east-wrap region.
\<close>

theorem region_targets_overlap:
  "[0, 1, 1, 1] \<in> set (target_cells (da_T example_ds) (region_bounds example_ds Interior) 0)
   \<and> [0, 1, 1, 1] \<in> set (target_cells (da_T example_ds) (region_bounds example_ds WestWrap) 0)
   \<and> [0, 1, 1, 8] \<in> set (target_cells (da_T example_ds) (region_bounds example_ds Interior) 0)
   \<and> [0, 1, 1, 8] \<in> set (target_cells (da_T example_ds) (region_bounds example_ds EastWrap) 0)"
proof -
  have s1: "keys_shape (target_keys (region_bounds example_ds Interior) 0) [76, 42, 78, 11]
              = [40, 74, 8]"
    by (simp add: example_defs region_defs array_defs)
  have s2: "keys_shape (target_keys (region_bounds example_ds WestWrap) 0) [76, 42, 78, 11]
              = [30, 14, 1]"
    by (simp add: example_defs region_defs array_defs)
  have s3: "keys_shape (target_keys (region_bounds example_ds EastWrap) 0) [76, 42, 78, 11]
              = [30, 14, 2]"
    by (simp add: example_defs region_defs array_defs)
  have sh: "shape (da_T example_ds) = [76, 42, 78, 11]" by (simp add: example_defs)
  have a: "[0, 1, 1, 1] \<in> set (target_cells (da_T example_ds) (region_bounds example_ds Interior) 0)"
    using selected_cells_mem[of 0 "target_keys (region_bounds example_ds Interior) 0"
            "[76, 42, 78, 11]"]
    unfolding target_cells_def sh s1 by (simp add: example_defs region_defs array_defs)
  have b: "[0, 1, 1, 1] \<in> set (target_cells (da_T example_ds) (region_bounds example_ds WestWrap) 0)"
    using selected_cells_mem[of 0 "target_keys (region_bounds example_ds WestWrap) 0"
            "[76, 42, 78, 11]"]
    unfolding target_cells_def sh s2 by (simp add: example_defs region_defs array_defs)
  have c: "[0, 1, 1, 8] \<in> set (target_cells (da_T example_ds) (region_bounds example_ds Interior) 0)"
    using selected_cells_mem[of 7 "target_keys (region_bounds example_ds Interior) 0"
            "[76, 42, 78, 11]"]
    unfolding target_cells_def sh s1 by (simp add: example_defs region_defs array_defs)
  have d: "[0, 1, 1, 8] \<in> set (target_cells (da_T example_ds) (region_bounds example_ds EastWrap) 0)"
    using selected_cells_mem[of 0 "target_keys (region_bounds example_ds EastWrap) 0"
            "[76, 42, 78, 11]"]
    unfolding target_cells_def sh s3 by (simp add: example_defs region_defs array_defs)
  from a b c d show ?thesis by blast
qed

lemma default_trainval_range:
  "trainval_range (7/10) = [0, 200, 400, 600, 800, 1000, 1200, 1400, 1600, 1800, 2000, 2200,
      2400, 2600, 2800, 3000, 3200, 3400, 3600, 3800, 4000, 4200, 4400, 4600, 4800, 5000]"
  by (simp add: trainval_range_def trainval_split_def data_end_index_def py_int_def start_def
        subsample_rate_def py_range_def range_len_def upt_rec)

lemma default_valtest_range:
  "valtest_range (7/10) (9/10) = [5040, 5240, 5440, 5640, 5840, 6040, 6240, 6440]"
  by (simp add: valtest_range_def trainval_split_def valtest_split_def data_end_index_def
        py_int_def subsample_rate_def py_range_def range_len_def upt_rec)

lemma default_test_range:
  "test_range (9/10) = [6480, 6680, 6880, 7080]"
  by (simp add: test_range_def valtest_split_def data_end_index_def
        py_int_def subsample_rate_def py_range_def range_len_def upt_rec)

text \<open>
  Claim C2 (the source departs from it). With the default ratios and a step size of 1,
  on a temperature series whose value is its time index: step \<open>t = 1\<close> of the training
  loop reads the time index 1 of the series, which the splitter did not select for the
  training split, and its target is the temperature at time 200 minus the temperature
  at time 1; the first step of the validation loop, \<open>t = 26\<close>, reads the time index
  2600, which is not among the validation indices of the splitter. The loops index the
  subsampled dataset, which holds the pairs \<open>(t, t + 1)\<close> one after the other, by
  position.
\<close>

theorem loop_steps_index_subsampled_positions:
  "1 \<in> set (train_steps (7/10)) \<and> 1 \<notin> set (trainval_range (7/10))
   \<and> then_do (subsampled (7/10) (9/10) clock_field)
         (\<lambda>T. peek (orig_Temp T (region_1 11 78 42) 1) [0, 0]) = Inr ([23680, 1], 1)
   \<and> then_do (subsampled (7/10) (9/10) clock_field)
         (\<lambda>T. peek (outputs_DelT T 1 (region_1 11 78 42) 1) [0, 0]) = Inr ([23680, 1], 199)
   \<and> 26 \<in> set (val_steps (7/10) (9/10)) \<and> 2600 \<notin> set (valtest_range (7/10) (9/10))
   \<and> then_do (subsampled (7/10) (9/10) clock_field)
         (\<lambda>T. peek (orig_Temp T (region_1 11 78 42) 26) [0, 0]) = Inr ([23680, 1], 2600)"
  by (simp add: subsampled_def sample_times_def full_range_def flatten_pairs_def isel_T_def
        default_trainval_range default_valtest_range default_test_range train_steps_def
        val_steps_def clock_field_def peek_def region_defs array_defs upt_rec)

section \<open>The arrays of the loops\<close>

text \<open>
  When every step of the three loops gives, for region \<open>r\<close>, inputs of \<open>N r\<close> rows and
  targets of \<open>M r\<close> rows, the loops return, and the arrays they accumulate for a split
  have as many rows as the split has steps times the rows of the three regions. When
  the run fits, the inputs and the targets of every region and step have one row per
  cell of the region, so the arrays of a split have one row per sample.
\<close>

lemma reshape_column: "\<exists>r. reshape a [- 1, 1] = Inr r \<and> shape r = [prod_list (shape a), 1]"
  by (simp add: reshape_def infer_shape_def)

lemma target_getitem:
  assumes T: "covers T [t + 1, z_up b, y_up b, x_up b]" and t: "0 \<le> t"
    and b: "0 \<le> z_lw b" "z_lw b \<le> z_up b" "0 \<le> y_lw b" "y_lw b \<le> y_up b"
      "0 \<le> x_lw b" "x_lw b \<le> x_up b"
  shows "\<exists>r. getitem T (target_keys b t) = Inr r
           \<and> shape r = [nat (z_up b - z_lw b), nat (y_up b - y_lw b), nat (x_up b - x_lw b)]"
proof -
  from T obtain nt Z Y X where s: "shape T = [nt, Z, Y, X]" "t + 1 \<le> int nt"
      "z_up b \<le> int Z" "y_up b \<le> int Y" "x_up b \<le> int X"
    by (rule covers4)
  have tn: "t < int nt" using s(2) by linarith
  show ?thesis
    unfolding target_keys_def
    using getitem_field4[OF s(1) t tn b(1,2) s(3) b(3,4) s(4) b(5,6) s(5)] by simp
qed

lemma targets_shape:
  assumes now: "covers T [t + 1, z_up b, y_up b, x_up b]" and t: "0 \<le> t"
    and later: "covers T [t + step + 1, z_up b, y_up b, x_up b]" and ts: "0 \<le> t + step"
    and clim: "covers da_clim_T [1, z_up b, y_up b, x_up b]"
    and b: "0 \<le> z_lw b" "z_lw b \<le> z_up b" "0 \<le> y_lw b" "y_lw b \<le> y_up b"
      "0 \<le> x_lw b" "x_lw b \<le> x_up b"
  shows "\<exists>d ot og c. outputs_DelT T step b t = Inr d \<and> outputs_Temp T step b t = Inr ot
           \<and> orig_Temp T b t = Inr og \<and> clim_Temp da_clim_T b = Inr c
           \<and> shape d = [nat (z_up b - z_lw b) * nat (y_up b - y_lw b) * nat (x_up b - x_lw b), 1]
           \<and> shape ot = [nat (z_up b - z_lw b) * nat (y_up b - y_lw b) * nat (x_up b - x_lw b), 1]
           \<and> shape og = [nat (z_up b - z_lw b) * nat (y_up b - y_lw b) * nat (x_up b - x_lw b), 1]
           \<and> shape c = [nat (z_up b - z_lw b) * nat (y_up b - y_lw b) * nat (x_up b - x_lw b), 1]"
proof -
  define sh where "sh = [nat (z_up b - z_lw b), nat (y_up b - y_lw b), nat (x_up b - x_lw b)]"
  have p: "prod_list sh = nat (z_up b - z_lw b) * nat (y_up b - y_lw b) * nat (x_up b - x_lw b)"
    by (simp add: sh_def)
  obtain n where n: "getitem T (target_keys b t) = Inr n" "shape n = sh"
    unfolding sh_def using target_getitem[OF now t b] by blast
  have "covers T [(t + step) + 1, z_up b, y_up b, x_up b]" using later by (simp add: add.assoc)
  then obtain l where l: "getitem T (target_keys b (t + step)) = Inr l" "shape l = sh"
    unfolding sh_def using target_getitem[OF _ ts b] by blast
  have "covers da_clim_T [0 + 1, z_up b, y_up b, x_up b]" using clim by simp
  then obtain k where k: "getitem da_clim_T (target_keys b 0) = Inr k" "shape k = sh"
    unfolding sh_def using target_getitem[OF _ _ b, of da_clim_T 0] by auto
  obtain m where m: "arr_minus l n = Inr m" "shape m = sh"
    by (simp add: arr_minus_def l(2) n(2))
  obtain d where d: "reshape m [- 1, 1] = Inr d" "shape d = [prod_list sh, 1]"
    using reshape_column[of m] m(2) by auto
  obtain ot where ot: "reshape l [- 1, 1] = Inr ot" "shape ot = [prod_list sh, 1]"
    using reshape_column[of l] l(2) by auto
  obtain og where og: "reshape n [- 1, 1] = Inr og" "shape og = [prod_list sh, 1]"
    using reshape_column[of n] n(2) by auto
  obtain c where c: "reshape k [- 1, 1] = Inr c" "shape c = [prod_list sh, 1]"
    using reshape_column[of k] k(2) by auto
  have "outputs_DelT T step b t = Inr d" by (simp add: outputs_DelT_def l(1) n(1) m(1) d(1))
  moreover have "outputs_Temp T step b t = Inr ot" by (simp add: outputs_Temp_def l(1) ot(1))
  moreover have "orig_Temp T b t = Inr og" by (simp add: orig_Temp_def n(1) og(1))
  moreover have "clim_Temp da_clim_T b = Inr c" by (simp add: clim_Temp_def k(1) c(1))
  ultimately show ?thesis using d(2) ot(2) og(2) c(2) unfolding p by blast
qed

lemma step_targets:
  assumes fit: "step_fits rv ds da_clim_T r t"
  shows "\<exists>n d ot og c.
           outputs_DelT (da_T ds) (StepSize rv) (region_bounds ds r) t = Inr d
           \<and> outputs_Temp (da_T ds) (StepSize rv) (region_bounds ds r) t = Inr ot
           \<and> orig_Temp (da_T ds) (region_bounds ds r) t = Inr og
           \<and> clim_Temp da_clim_T (region_bounds ds r) = Inr c
           \<and> n = nat (z_up (region_bounds ds r) - z_lw (region_bounds ds r))
                 * nat (y_up (region_bounds ds r) - y_lw (region_bounds ds r))
                 * nat (x_up (region_bounds ds r) - x_lw (region_bounds ds r))
           \<and> shape d = [n, 1] \<and> shape ot = [n, 1] \<and> shape og = [n, 1] \<and> shape c = [n, 1]"
proof -
  define b where "b = region_bounds ds r"
  note f = fit[unfolded step_fits_def window_fits_def, folded b_def]
  have t: "0 \<le> t" and ts: "0 \<le> t + StepSize rv" using f by simp_all
  have bd: "0 \<le> z_lw b" "z_lw b \<le> z_up b" "0 \<le> y_lw b" "y_lw b \<le> y_up b"
      "0 \<le> x_lw b" "x_lw b \<le> x_up b"
    using f by simp_all
  have "field_fits rv b t (da_T ds)" using f by simp
  then obtain nt Z Y X where s: "shape (da_T ds) = [nt, Z, Y, X]" "t + 1 \<le> int nt"
      "z_up b + (if dimension rv = 2 then 0 else 1) \<le> int Z" "y_up b + 1 \<le> int Y"
      "x_up b + 1 \<le> int X"
    unfolding field_fits_def by (rule covers4)
  have z: "z_up b \<le> int Z" using s(3) by (simp split: if_splits)
  have later: "t + StepSize rv < int nt" using f s(1) by simp
  have now: "covers (da_T ds) [t + 1, z_up b, y_up b, x_up b]"
    using s z by (simp add: covers_def)
  have lat: "covers (da_T ds) [t + StepSize rv + 1, z_up b, y_up b, x_up b]"
    using s z later by (simp add: covers_def)
  have clim: "covers da_clim_T [1, z_up b, y_up b, x_up b]" using f by simp
  from targets_shape[OF now t lat ts clim bd]
  show ?thesis unfolding b_def by blast
qed

lemma region_step5_shaped:
  assumes fit: "step_fits rv ds da_clim_T r t"
    and dim: "dimension rv = 2 \<or> dimension rv = 3" and poly: "poly_degree rv \<le> 1"
  shows "\<exists>s. region_step5 rv ds da_clim_T r t = Inr s
           \<and> shaped5 s (cells (region_bounds ds r)) (cells (region_bounds ds r)) (n_features rv)"
proof -
  define b where "b = region_bounds ds r"
  have fb: "window_fits rv ds b t" using fit by (simp add: step_fits_def b_def)
  obtain fields where f: "region_fields ds r = Inr fields" "window_fits rv fields b t"
  proof (cases r)
    case Interior
    thus ?thesis using fb that by (simp add: region_fields_def)
  next
    case WestWrap
    thus ?thesis using shifted_west_fits[OF fb] that by (auto simp add: region_fields_def)
  next
    case EastWrap
    thus ?thesis using shifted_east_fits[OF fb] that by (auto simp add: region_fields_def)
  qed
  obtain i where i: "region_inputs rv fields b t = Inr i"
      "shape i = [nat (z_up b - z_lw b) * nat (y_up b - y_lw b) * nat (x_up b - x_lw b),
                    n_features rv]"
    using region_inputs_fit[OF f(2) dim poly] by blast
  have ri: "region_sample_inputs rv ds r t = Inr i"
    by (simp add: region_sample_inputs_def f(1) b_def[symmetric] i(1))
  obtain n d ot og c where tg:
      "outputs_DelT (da_T ds) (StepSize rv) (region_bounds ds r) t = Inr d"
      "outputs_Temp (da_T ds) (StepSize rv) (region_bounds ds r) t = Inr ot"
      "orig_Temp (da_T ds) (region_bounds ds r) t = Inr og"
      "clim_Temp da_clim_T (region_bounds ds r) = Inr c"
      "n = nat (z_up (region_bounds ds r) - z_lw (region_bounds ds r))
                 * nat (y_up (region_bounds ds r) - y_lw (region_bounds ds r))
                 * nat (x_up (region_bounds ds r) - x_lw (region_bounds ds r))"
      "shape d = [n, 1]" "shape ot = [n, 1]" "shape og = [n, 1]" "shape c = [n, 1]"
    using step_targets[OF fit] by blast
  have "region_step5 rv ds da_clim_T r t = Inr (i, d, ot, og, c)"
    using dim by (simp add: region_step5_def ri tg(1-4) local_var_def)
  moreover have "shaped5 (i, d, ot, og, c) (cells b) (cells b) (n_features rv)"
    using i(2) tg(5-9) by (simp add: shaped5_def b_def cells_def)
  ultimately show ?thesis unfolding b_def by blast
qed

lemma region_step3_of5:
  assumes "region_step5 rv ds da_clim_T r t = Inr s" "shaped5 s n m F"
  shows "\<exists>s'. region_step3 rv ds r t = Inr s' \<and> shaped3 s' n m F"
proof -
  obtain i d ot og c where e: "s = (i, d, ot, og, c)" by (cases s) auto
  have "region_step3 rv ds r t = Inr (i, d, ot)"
    using assms(1) unfolding e region_step5_def region_step3_def then_do_def local_var_def
    by (auto split: sum.splits option.splits if_splits)
  moreover have "shaped3 (i, d, ot) n m F"
    using assms(2) by (simp add: e shaped5_def shaped3_def)
  ultimately show ?thesis by blast
qed

lemma concatenate_rows:
  assumes "shape a = [n, F]" "shape b = [m, F]"
  shows "\<exists>r. np_concatenate a b 0 = Inr r \<and> shape r = [n + m, F]"
  using assms by (simp add: np_concatenate_def Let_def)

lemma concatenate5_shaped:
  assumes "shaped5 a n m F" "shaped5 s n' m' F"
  shows "\<exists>r. concatenate5 a s = Inr r \<and> shaped5 r (n + n') (m + m') F"
proof -
  obtain i d t og c where a: "a = (i, d, t, og, c)" by (cases a) auto
  obtain i1 d1 t1 o1 c1 where s: "s = (i1, d1, t1, o1, c1)" by (cases s) auto
  have h: "shape i = [n, F]" "shape d = [m, 1]" "shape t = [m, 1]" "shape og = [m, 1]"
      "shape c = [m, 1]" "shape i1 = [n', F]" "shape d1 = [m', 1]" "shape t1 = [m', 1]"
      "shape o1 = [m', 1]" "shape c1 = [m', 1]"
    using assms by (simp_all add: a s shaped5_def)
  obtain i' where i': "np_concatenate i i1 0 = Inr i'" "shape i' = [n + n', F]"
    using concatenate_rows[OF h(1) h(6)] by blast
  obtain d' where d': "np_concatenate d d1 0 = Inr d'" "shape d' = [m + m', 1]"
    using concatenate_rows[OF h(2) h(7)] by blast
  obtain t' where t': "np_concatenate t t1 0 = Inr t'" "shape t' = [m + m', 1]"
    using concatenate_rows[OF h(3) h(8)] by blast
  obtain o' where o': "np_concatenate og o1 0 = Inr o'" "shape o' = [m + m', 1]"
    using concatenate_rows[OF h(4) h(9)] by blast
  obtain c' where c': "np_concatenate c c1 0 = Inr c'" "shape c' = [m + m', 1]"
    using concatenate_rows[OF h(5) h(10)] by blast
  show ?thesis
    by (simp add: a s concatenate5_def i' d' t' o' c' shaped5_def)
qed

lemma concatenate3_shaped:
  assumes "shaped3 a n m F" "shaped3 s n' m' F"
  shows "\<exists>r. concatenate3 a s = Inr r \<and> shaped3 r (n + n') (m + m') F"
proof -
  obtain i d t where a: "a = (i, d, t)" by (cases a) auto
  obtain i1 d1 t1 where s: "s = (i1, d1, t1)" by (cases s) auto
  have h: "shape i = [n, F]" "shape d = [m, 1]" "shape t = [m, 1]"
      "shape i1 = [n', F]" "shape d1 = [m', 1]" "shape t1 = [m', 1]"
    using assms by (simp_all add: a s shaped3_def)
  obtain i' where i': "np_concatenate i i1 0 = Inr i'" "shape i' = [n + n', F]"
    using concatenate_rows[OF h(1) h(4)] by blast
  obtain d' where d': "np_concatenate d d1 0 = Inr d'" "shape d' = [m + m', 1]"
    using concatenate_rows[OF h(2) h(5)] by blast
  obtain t' where t': "np_concatenate t t1 0 = Inr t'" "shape t' = [m + m', 1]"
    using concatenate_rows[OF h(3) h(6)] by blast
  show ?thesis
    by (simp add: a s concatenate3_def i' d' t' shaped3_def)
qed

lemma loop_body5_rows:
  assumes step: "\<And>r. \<exists>s. region_step5 rv ds da_clim_T r t = Inr s \<and> shaped5 s (N r) (M r) F"
    and none: "acc = None \<Longrightarrow> t = first \<and> n0 = 0 \<and> m0 = 0"
    and some: "\<And>a. acc = Some a \<Longrightarrow> t \<noteq> first \<and> shaped5 a n0 m0 F"
  shows "\<exists>a. loop_body5 rv ds da_clim_T first acc t = Inr a
           \<and> shaped5 a (n0 + rows_of N) (m0 + rows_of M) F"
proof -
  obtain s1 where s1: "region_step5 rv ds da_clim_T Interior t = Inr s1"
      "shaped5 s1 (N Interior) (M Interior) F" using step by blast
  obtain s2 where s2: "region_step5 rv ds da_clim_T WestWrap t = Inr s2"
      "shaped5 s2 (N WestWrap) (M WestWrap) F" using step by blast
  obtain s3 where s3: "region_step5 rv ds da_clim_T EastWrap t = Inr s3"
      "shaped5 s3 (N EastWrap) (M EastWrap) F" using step by blast
  obtain a1 where a1: "(if t = first then Inr s1
              else then_do (local_var acc) (\<lambda>a. concatenate5 a s1)) = Inr a1"
      "shaped5 a1 (n0 + N Interior) (m0 + M Interior) F"
  proof (cases acc)
    case None
    thus ?thesis using none s1(2) that by simp
  next
    case (Some a)
    hence h: "t \<noteq> first" "shaped5 a n0 m0 F" using some by simp_all
    from concatenate5_shaped[OF h(2) s1(2)] show ?thesis
      using h(1) Some that by (auto simp add: local_var_def)
  qed
  obtain a2 where a2: "concatenate5 a1 s2 = Inr a2"
      "shaped5 a2 (n0 + N Interior + N WestWrap) (m0 + M Interior + M WestWrap) F"
    using concatenate5_shaped[OF a1(2) s2(2)] by blast
  obtain a3 where a3: "concatenate5 a2 s3 = Inr a3"
      "shaped5 a3 (n0 + N Interior + N WestWrap + N EastWrap)
         (m0 + M Interior + M WestWrap + M EastWrap) F"
    using concatenate5_shaped[OF a2(2) s3(2)] by blast
  have "loop_body5 rv ds da_clim_T first acc t = Inr a3"
    unfolding loop_body5_def by (simp add: s1(1) a1(1) s2(1) a2(1) s3(1) a3(1))
  with a3(2) show ?thesis by (auto simp add: rows_of_def add.assoc)
qed

lemma loop_body3_rows:
  assumes step: "\<And>r. \<exists>s. region_step3 rv ds r t = Inr s \<and> shaped3 s (N r) (M r) F"
    and none: "acc = None \<Longrightarrow> t = first \<and> n0 = 0 \<and> m0 = 0"
    and some: "\<And>a. acc = Some a \<Longrightarrow> t \<noteq> first \<and> shaped3 a n0 m0 F"
  shows "\<exists>a. loop_body3 rv ds first acc t = Inr a
           \<and> shaped3 a (n0 + rows_of N) (m0 + rows_of M) F"
proof -
  obtain s1 where s1: "region_step3 rv ds Interior t = Inr s1"
      "shaped3 s1 (N Interior) (M Interior) F" using step by blast
  obtain s2 where s2: "region_step3 rv ds WestWrap t = Inr s2"
      "shaped3 s2 (N WestWrap) (M WestWrap) F" using step by blast
  obtain s3 where s3: "region_step3 rv ds EastWrap t = Inr s3"
      "shaped3 s3 (N EastWrap) (M EastWrap) F" using step by blast
  obtain a1 where a1: "(if t = first then Inr s1
              else then_do (local_var acc) (\<lambda>a. concatenate3 a s1)) = Inr a1"
      "shaped3 a1 (n0 + N Interior) (m0 + M Interior) F"
  proof (cases acc)
    case None
    thus ?thesis using none s1(2) that by simp
  next
    case (Some a)
    hence h: "t \<noteq> first" "shaped3 a n0 m0 F" using some by simp_all
    from concatenate3_shaped[OF h(2) s1(2)] show ?thesis
      using h(1) Some that by (auto simp add: local_var_def)
  qed
  obtain a2 where a2: "concatenate3 a1 s2 = Inr a2"
      "shaped3 a2 (n0 + N Interior + N WestWrap) (m0 + M Interior + M WestWrap) F"
    using concatenate3_shaped[OF a1(2) s2(2)] by blast
  obtain a3 where a3: "concatenate3 a2 s3 = Inr a3"
      "shaped3 a3 (n0 + N Interior + N WestWrap + N EastWrap)
         (m0 + M Interior + M WestWrap + M EastWrap) F"
    using concatenate3_shaped[OF a2(2) s3(2)] by blast
  have "loop_body3 rv ds first acc t = Inr a3"
    unfolding loop_body3_def by (simp add: s1(1) a1(1) s2(1) a2(1) s3(1) a3(1))
  with a3(2) show ?thesis by (auto simp add: rows_of_def add.assoc)
qed

lemma loop5_rows:
  assumes step: "\<And>t r. t \<in> set ts
                   \<Longrightarrow> \<exists>s. region_step5 rv ds da_clim_T r t = Inr s \<and> shaped5 s (N r) (M r) F"
    and none: "acc = None \<Longrightarrow> ts \<noteq> [] \<and> hd ts = first \<and> first \<notin> set (tl ts) \<and> n0 = 0 \<and> m0 = 0"
    and some: "\<And>a. acc = Some a \<Longrightarrow> first \<notin> set ts \<and> shaped5 a n0 m0 F"
  shows "\<exists>a. loop5 rv ds da_clim_T first acc ts = Inr (Some a)
           \<and> shaped5 a (n0 + length ts * rows_of N) (m0 + length ts * rows_of M) F"
  using step none some
proof (induction ts arbitrary: acc n0 m0)
  case Nil
  thus ?case by (cases acc) auto
next
  case (Cons t ts)
  have "\<exists>a. loop_body5 rv ds da_clim_T first acc t = Inr a
           \<and> shaped5 a (n0 + rows_of N) (m0 + rows_of M) F"
  proof (rule loop_body5_rows)
    show "\<exists>s. region_step5 rv ds da_clim_T r t = Inr s \<and> shaped5 s (N r) (M r) F" for r
      using Cons.prems(1) by simp
    show "t = first \<and> n0 = 0 \<and> m0 = 0" if "acc = None" using Cons.prems(2) that by simp
    show "t \<noteq> first \<and> shaped5 a n0 m0 F" if "acc = Some a" for a
      using Cons.prems(3) that by auto
  qed
  then obtain a where a: "loop_body5 rv ds da_clim_T first acc t = Inr a"
      "shaped5 a (n0 + rows_of N) (m0 + rows_of M) F" by blast
  have later: "first \<notin> set ts"
    using Cons.prems(2,3) by (cases acc) auto
  have "\<exists>a'. loop5 rv ds da_clim_T first (Some a) ts = Inr (Some a')
           \<and> shaped5 a' (n0 + rows_of N + length ts * rows_of N)
                (m0 + rows_of M + length ts * rows_of M) F"
  proof (rule Cons.IH)
    show "\<exists>s. region_step5 rv ds da_clim_T r t' = Inr s \<and> shaped5 s (N r) (M r) F"
      if "t' \<in> set ts" for t' r using Cons.prems(1) that by simp
    show "ts \<noteq> [] \<and> hd ts = first \<and> first \<notin> set (tl ts) \<and> n0 + rows_of N = 0
            \<and> m0 + rows_of M = 0" if "Some a = None" using that by simp
    show "first \<notin> set ts \<and> shaped5 a' (n0 + rows_of N) (m0 + rows_of M) F"
      if "Some a = Some a'" for a' using that a(2) later by auto
  qed
  thus ?case by (simp add: a(1) add.assoc)
qed

lemma loop3_rows:
  assumes step: "\<And>t r. t \<in> set ts
                   \<Longrightarrow> \<exists>s. region_step3 rv ds r t = Inr s \<and> shaped3 s (N r) (M r) F"
    and none: "acc = None \<Longrightarrow> ts \<noteq> [] \<and> hd ts = first \<and> first \<notin> set (tl ts) \<and> n0 = 0 \<and> m0 = 0"
    and some: "\<And>a. acc = Some a \<Longrightarrow> first \<notin> set ts \<and> shaped3 a n0 m0 F"
  shows "\<exists>a. loop3 rv ds first acc ts = Inr (Some a)
           \<and> shaped3 a (n0 + length ts * rows_of N) (m0 + length ts * rows_of M) F"
  using step none some
proof (induction ts arbitrary: acc n0 m0)
  case Nil
  thus ?case by (cases acc) auto
next
  case (Cons t ts)
  have "\<exists>a. loop_body3 rv ds first acc t = Inr a
           \<and> shaped3 a (n0 + rows_of N) (m0 + rows_of M) F"
  proof (rule loop_body3_rows)
    show "\<exists>s. region_step3 rv ds r t = Inr s \<and> shaped3 s (N r) (M r) F" for r
      using Cons.prems(1) by simp
    show "t = first \<and> n0 = 0 \<and> m0 = 0" if "acc = None" using Cons.prems(2) that by simp
    show "t \<noteq> first \<and> shaped3 a n0 m0 F" if "acc = Some a" for a
      using Cons.prems(3) that by auto
  qed
  then obtain a where a: "loop_body3 rv ds first acc t = Inr a"
      "shaped3 a (n0 + rows_of N) (m0 + rows_of M) F" by blast
  have later: "first \<notin> set ts"
    using Cons.prems(2,3) by (cases acc) auto
  have "\<exists>a'. loop3 rv ds first (Some a) ts = Inr (Some a')
           \<and> shaped3 a' (n0 + rows_of N + length ts * rows_of N)
                (m0 + rows_of M + length ts * rows_of M) F"
  proof (rule Cons.IH)
    show "\<exists>s. region_step3 rv ds r t' = Inr s \<and> shaped3 s (N r) (M r) F"
      if "t' \<in> set ts" for t' r using Cons.prems(1) that by simp
    show "ts \<noteq> [] \<and> hd ts = first \<and> first \<notin> set (tl ts) \<and> n0 + rows_of N = 0
            \<and> m0 + rows_of M = 0" if "Some a = None" using that by simp
    show "first \<notin> set ts \<and> shaped3 a' (n0 + rows_of N) (m0 + rows_of M) F"
      if "Some a = Some a'" for a' using that a(2) later by auto
  qed
  thus ?case by (simp add: a(1) add.assoc)
qed

lemma steps_first:
  assumes "0 < n"
  shows "map int [m..<m + n] \<noteq> [] \<and> hd (map int [m..<m + n]) = int m
           \<and> int m \<notin> set (tl (map int [m..<m + n]))"
  using assms by (auto simp add: upt_conv_Cons)

lemma accumulate_rows:
  assumes step: "\<And>t r. t \<in> set (train_steps r1 @ val_steps r1 r2 @ test_steps r1 r2)
                   \<Longrightarrow> \<exists>s. region_step5 rv ds da_clim_T r t = Inr s \<and> shaped5 s (N r) (M r) F"
    and ne: "train_steps r1 \<noteq> []" "val_steps r1 r2 \<noteq> []" "test_steps r1 r2 \<noteq> []"
  shows "\<exists>p. accumulate rv ds da_clim_T r1 r2 = Inr p
           \<and> pools_rows p (length (train_steps r1) * rows_of N) (length (train_steps r1) * rows_of M)
               (length (val_steps r1 r2) * rows_of N) (length (val_steps r1 r2) * rows_of M)
               (length (test_steps r1 r2) * rows_of N) (length (test_steps r1 r2) * rows_of M) F"
proof -
  have h_tr: "train_steps r1 \<noteq> [] \<and> hd (train_steps r1) = start
                \<and> start \<notin> set (tl (train_steps r1))"
    using ne(1) steps_first[of "length (trainval_range r1)" 0]
    by (simp add: train_steps_def start_def)
  have h_val: "val_steps r1 r2 \<noteq> [] \<and> hd (val_steps r1 r2) = int (length (trainval_range r1))
                \<and> int (length (trainval_range r1)) \<notin> set (tl (val_steps r1 r2))"
    using ne(2) steps_first[of "length (valtest_range r1 r2)" "length (trainval_range r1)"]
    by (simp add: val_steps_def)
  have h_te: "test_steps r1 r2 \<noteq> [] \<and> hd (test_steps r1 r2)
                = int (length (trainval_range r1)) + int (length (valtest_range r1 r2))
                \<and> int (length (trainval_range r1)) + int (length (valtest_range r1 r2))
                    \<notin> set (tl (test_steps r1 r2))"
    using ne(3) steps_first[of "length (test_range r2)"
            "length (trainval_range r1) + length (valtest_range r1 r2)"]
    by (simp add: test_steps_def)
  have step3: "\<exists>s. region_step3 rv ds r t = Inr s \<and> shaped3 s (N r) (M r) F"
    if "t \<in> set (test_steps r1 r2)" for t r
  proof -
    have "t \<in> set (train_steps r1 @ val_steps r1 r2 @ test_steps r1 r2)" using that by simp
    from step[OF this, of r]
    obtain s where "region_step5 rv ds da_clim_T r t = Inr s" "shaped5 s (N r) (M r) F"
      by blast
    thus ?thesis by (rule region_step3_of5)
  qed
  obtain tr where tr: "loop5 rv ds da_clim_T start None (train_steps r1) = Inr (Some tr)"
      "shaped5 tr (0 + length (train_steps r1) * rows_of N)
         (0 + length (train_steps r1) * rows_of M) F"
    using loop5_rows[of "train_steps r1" rv ds da_clim_T N M F None start 0 0] step h_tr
    by auto
  obtain va where va: "loop5 rv ds da_clim_T (int (length (trainval_range r1))) None
        (val_steps r1 r2) = Inr (Some va)"
      "shaped5 va (0 + length (val_steps r1 r2) * rows_of N)
         (0 + length (val_steps r1 r2) * rows_of M) F"
    using loop5_rows[of "val_steps r1 r2" rv ds da_clim_T N M F None
            "int (length (trainval_range r1))" 0 0] step h_val
    by auto
  obtain te where te: "loop3 rv ds
        (int (length (trainval_range r1)) + int (length (valtest_range r1 r2))) None
        (test_steps r1 r2) = Inr (Some te)"
      "shaped3 te (0 + length (test_steps r1 r2) * rows_of N)
         (0 + length (test_steps r1 r2) * rows_of M) F"
    using loop3_rows[of "test_steps r1 r2" rv ds N M F None
            "int (length (trainval_range r1)) + int (length (valtest_range r1 r2))" 0 0]
      step3 h_te
    by auto
  obtain i1 d1 t1 o1 c1 where e1: "tr = (i1, d1, t1, o1, c1)" by (cases tr) auto
  obtain i2 d2 t2 o2 c2 where e2: "va = (i2, d2, t2, o2, c2)" by (cases va) auto
  obtain i3 d3 t3 where e3: "te = (i3, d3, t3)" by (cases te) auto
  have "accumulate rv ds da_clim_T r1 r2 =
      Inr \<lparr>inputs_tr = i1, outputs_tr_DelT = d1, outputs_tr_Temp = t1,
          orig_tr_Temp = o1, clim_tr_Temp = c1,
          inputs_val = i2, outputs_val_DelT = d2, outputs_val_Temp = t2,
          orig_val_Temp = o2, clim_val_Temp = c2,
          inputs_te = i3, outputs_te_DelT = d3, outputs_te_Temp = t3\<rparr>"
    unfolding accumulate_def by (simp add: tr(1) va(1) te(1) local_var_def e1 e2 e3)
  moreover have "pools_rows \<lparr>inputs_tr = i1, outputs_tr_DelT = d1, outputs_tr_Temp = t1,
          orig_tr_Temp = o1, clim_tr_Temp = c1,
          inputs_val = i2, outputs_val_DelT = d2, outputs_val_Temp = t2,
          orig_val_Temp = o2, clim_val_Temp = c2,
          inputs_te = i3, outputs_te_DelT = d3, outputs_te_Temp = t3\<rparr>
          (length (train_steps r1) * rows_of N) (length (train_steps r1) * rows_of M)
          (length (val_steps r1 r2) * rows_of N) (length (val_steps r1 r2) * rows_of M)
          (length (test_steps r1 r2) * rows_of N) (length (test_steps r1 r2) * rows_of M) F"
    using tr(2) va(2) te(2) by (simp add: pools_rows_def shaped5_def shaped3_def e1 e2 e3)
  ultimately show ?thesis by blast
qed

lemma accumulate_pools_shaped:
  assumes fit: "run_fits rv ds da_clim_T r1 r2"
    and dim: "dimension rv = 2 \<or> dimension rv = 3" and poly: "poly_degree rv \<le> 1"
  shows "\<exists>p. accumulate rv ds da_clim_T r1 r2 = Inr p
           \<and> pools_shaped p
               (length (train_steps r1) * rows_of (\<lambda>r. cells (region_bounds ds r)))
               (length (val_steps r1 r2) * rows_of (\<lambda>r. cells (region_bounds ds r)))
               (length (test_steps r1 r2) * rows_of (\<lambda>r. cells (region_bounds ds r)))
               (n_features rv)"
proof -
  note f = fit[unfolded run_fits_def]
  have all: "step_fits rv ds da_clim_T r t"
    if "t \<in> set (train_steps r1 @ val_steps r1 r2 @ test_steps r1 r2)" for t r
    using f that by (cases r) (auto simp add: list_all_iff)
  have step: "\<exists>s. region_step5 rv ds da_clim_T r t = Inr s
           \<and> shaped5 s (cells (region_bounds ds r)) (cells (region_bounds ds r)) (n_features rv)"
    if "t \<in> set (train_steps r1 @ val_steps r1 r2 @ test_steps r1 r2)" for t r
    using region_step5_shaped[OF all[OF that] dim poly] .
  from accumulate_rows[of r1 r2 rv ds da_clim_T "\<lambda>r. cells (region_bounds ds r)"
         "\<lambda>r. cells (region_bounds ds r)" "n_features rv", OF step] f
  show ?thesis by (auto simp add: pools_rows_def pools_shaped_def)
qed

lemma example_step_fits:
  assumes "0 \<le> t" "t \<le> 74"
  shows "step_fits (temp_only 2) example_ds example_clim r t"
  using assms
  by (cases r)
     (simp_all add: step_fits_def window_fits_def field_fits_def covers_def example_ds_def
        example_clim_def lon_field_def coord_def temp_only_def region_bounds_def region_1_def
        region_2_def region_3_def x_size_def y_size_def z_size_def)

lemma example_run_fits: "run_fits (temp_only 2) example_ds example_clim (7/10) (9/10)"
proof -
  have l: "length (trainval_range (7/10)) = 26" "length (valtest_range (7/10) (9/10)) = 8"
      "length (test_range (9/10)) = 4"
    by (simp_all add: default_trainval_range default_valtest_range default_test_range)
  have "step_fits (temp_only 2) example_ds example_clim r t"
    if "t \<in> set (train_steps (7/10) @ val_steps (7/10) (9/10) @ test_steps (7/10) (9/10))"
    for t r
  proof (rule example_step_fits)
    show "0 \<le> t" "t \<le> 74"
      using that by (auto simp add: train_steps_def val_steps_def test_steps_def l)
  qed
  thus ?thesis
    by (simp add: run_fits_def list_all_iff train_steps_def val_steps_def test_steps_def l)
qed

lemma small_step:
  assumes "0 \<le> t" "t \<le> 74"
  shows "\<exists>s. region_step5 (temp_only 2) small_ds small_clim r t = Inr s
           \<and> shaped5 s (small_inputs r) (small_targets r) 9"
  using assms
  by (cases r)
     (simp_all add: region_step5_def outputs_Temp_def clim_Temp_def shaped5_def small_inputs_def
        small_targets_def small_ds_def small_clim_def lon_field_def coord_def temp_only_def
        region_defs array_defs GetInputs_defs)

lemma default_steps:
  "length (train_steps (7/10)) = 26" "length (val_steps (7/10) (9/10)) = 8"
  "length (test_steps (7/10) (9/10)) = 4"
  "t \<in> set (train_steps (7/10) @ val_steps (7/10) (9/10) @ test_steps (7/10) (9/10))
     \<Longrightarrow> 0 \<le> t \<and> t \<le> 74"
  by (auto simp add: train_steps_def val_steps_def test_steps_def default_trainval_range
        default_valtest_range default_test_range)

section \<open>Shuffling\<close>

lemma take_rows_2d:
  assumes "shape a = [n, F]" "mset ix = mset [0..<n]"
  shows "take_rows a ix =
           Inr \<lparr>shape = [n, F], elem = (\<lambda>js. elem a ((ix ! hd js) # tl js))\<rparr>"
proof -
  have "set ix = set [0..<n]" using assms(2) by (rule mset_eq_setD)
  hence "list_all (\<lambda>i. i < n) ix" by (simp add: list_all_iff)
  moreover have "length ix = n" using mset_eq_length[OF assms(2)] by simp
  ultimately show ?thesis by (simp add: take_rows_def assms(1))
qed

lemma nth_reindex:
  assumes "mset ix = mset [0..<n]"
  shows "map (\<lambda>i. f (ix ! i)) [0..<n] = map ((!) (map f [0..<n])) ix"
proof -
  have len: "length ix = n" using mset_eq_length[OF assms] by simp
  have "set ix = set [0..<n]" using assms by (rule mset_eq_setD)
  hence lt: "k < n" if "k \<in> set ix" for k using that by simp
  have "map ((!) (map f [0..<n])) ix = map f ix"
    by (rule map_cong) (simp_all add: lt)
  also have "\<dots> = map f (map ((!) ix) [0..<length ix])" by (simp only: map_nth)
  also have "\<dots> = map (\<lambda>i. f (ix ! i)) [0..<n]" by (simp add: len)
  finally show ?thesis by simp
qed

lemma rev_reindex: "map ((!) xs) (rev [0..<length xs]) = rev xs"
proof -
  have "map ((!) xs) (rev [0..<length xs]) = rev (map ((!) xs) [0..<length xs])"
    by (simp only: rev_map)
  thus ?thesis by (simp only: map_nth)
qed

text \<open>
  Claim C10, as amended. The shuffling step seeds the generator with 5 and draws one
  permutation per split: the first in the seeded state, the second in the state the
  first draw leaves, the third in the state the second leaves. When the arrays of
  every split have one row per sample (as the arrays of the loops have when the run
  fits), and the three arrays drawn are permutations of the row indices of their
  splits, then sample \<open>i\<close> of a shuffled split is the sample that was at position
  \<open>ordering ! i\<close> of the same split: each permutation is applied to all the arrays of
  its own split, and to no array of another split. The shuffled samples of a split are
  therefore a reordering of the samples the split had, a sample being the rows of one
  index of all arrays of the split. The result does not depend on the state of the
  generator before the step: two runs on the same arrays give the same shuffled arrays
  and leave the same state.
\<close>

theorem shuffle_split_local:
  assumes shp: "pools_shaped p n_tr n_val n_te F"
    and d_tr: "permutation (seed 5) n_tr = (ordering_tr, g1)"
    and d_val: "permutation g1 n_val = (ordering_val, g2)"
    and d_te: "permutation g2 n_te = (ordering_te, g3)"
    and m_tr: "mset ordering_tr = mset [0..<n_tr]"
    and m_val: "mset ordering_val = mset [0..<n_val]"
    and m_te: "mset ordering_te = mset [0..<n_te]"
  shows "\<exists>p'. randomise seed permutation ga p = Inr (p', g3)
           \<and> pools_shaped p' n_tr n_val n_te F
           \<and> samples_tr p' = map ((!) (samples_tr p)) ordering_tr
           \<and> samples_val p' = map ((!) (samples_val p)) ordering_val
           \<and> samples_te p' = map ((!) (samples_te p)) ordering_te
           \<and> mset (samples_tr p') = mset (samples_tr p)
           \<and> mset (samples_val p') = mset (samples_val p)
           \<and> mset (samples_te p') = mset (samples_te p)
           \<and> randomise seed permutation gb p = Inr (p', g3)"
proof -
  note s = shp[unfolded pools_shaped_def]
  define p' where "p' =
    \<lparr>inputs_tr = \<lparr>shape = [n_tr, F], elem = (\<lambda>js. elem (inputs_tr p) ((ordering_tr ! hd js) # tl js))\<rparr>,
     outputs_tr_DelT = \<lparr>shape = [n_tr, 1], elem = (\<lambda>js. elem (outputs_tr_DelT p) ((ordering_tr ! hd js) # tl js))\<rparr>,
     outputs_tr_Temp = \<lparr>shape = [n_tr, 1], elem = (\<lambda>js. elem (outputs_tr_Temp p) ((ordering_tr ! hd js) # tl js))\<rparr>,
     orig_tr_Temp = \<lparr>shape = [n_tr, 1], elem = (\<lambda>js. elem (orig_tr_Temp p) ((ordering_tr ! hd js) # tl js))\<rparr>,
     clim_tr_Temp = \<lparr>shape = [n_tr, 1], elem = (\<lambda>js. elem (clim_tr_Temp p) ((ordering_tr ! hd js) # tl js))\<rparr>,
     inputs_val = \<lparr>shape = [n_val, F], elem = (\<lambda>js. elem (inputs_val p) ((ordering_val ! hd js) # tl js))\<rparr>,
     outputs_val_DelT = \<lparr>shape = [n_val, 1], elem = (\<lambda>js. elem (outputs_val_DelT p) ((ordering_val ! hd js) # tl js))\<rparr>,
     outputs_val_Temp = \<lparr>shape = [n_val, 1], elem = (\<lambda>js. elem (outputs_val_Temp p) ((ordering_val ! hd js) # tl js))\<rparr>,
     orig_val_Temp = \<lparr>shape = [n_val, 1], elem = (\<lambda>js. elem (orig_val_Temp p) ((ordering_val ! hd js) # tl js))\<rparr>,
     clim_val_Temp = \<lparr>shape = [n_val, 1], elem = (\<lambda>js. elem (clim_val_Temp p) ((ordering_val ! hd js) # tl js))\<rparr>,
     inputs_te = \<lparr>shape = [n_te, F], elem = (\<lambda>js. elem (inputs_te p) ((ordering_te ! hd js) # tl js))\<rparr>,
     outputs_te_DelT = \<lparr>shape = [n_te, 1], elem = (\<lambda>js. elem (outputs_te_DelT p) ((ordering_te ! hd js) # tl js))\<rparr>,
     outputs_te_Temp = \<lparr>shape = [n_te, 1], elem = (\<lambda>js. elem (outputs_te_Temp p) ((ordering_te ! hd js) # tl js))\<rparr>\<rparr>"
  have run: "randomise seed permutation g p = Inr (p', g3)" for g
    unfolding randomise_def Let_def
    using s
    by (simp add: d_tr d_val d_te
          take_rows_2d[OF _ m_tr] take_rows_2d[OF _ m_val] take_rows_2d[OF _ m_te] p'_def)
  have shp': "pools_shaped p' n_tr n_val n_te F"
    by (simp add: pools_shaped_def p'_def)
  have "samples_tr p' = map (\<lambda>i. (\<lambda>k. (row (inputs_tr p) k, row (outputs_tr_DelT p) k,
                  row (outputs_tr_Temp p) k, row (orig_tr_Temp p) k, row (clim_tr_Temp p) k))
                (ordering_tr ! i)) [0..<n_tr]"
    using s by (simp add: samples_tr_def p'_def row_def)
  hence tr: "samples_tr p' = map ((!) (samples_tr p)) ordering_tr"
    using nth_reindex[OF m_tr] s by (simp add: samples_tr_def)
  have "samples_val p' = map (\<lambda>i. (\<lambda>k. (row (inputs_val p) k, row (outputs_val_DelT p) k,
                  row (outputs_val_Temp p) k, row (orig_val_Temp p) k, row (clim_val_Temp p) k))
                (ordering_val ! i)) [0..<n_val]"
    using s by (simp add: samples_val_def p'_def row_def)
  hence va: "samples_val p' = map ((!) (samples_val p)) ordering_val"
    using nth_reindex[OF m_val] s by (simp add: samples_val_def)
  have "samples_te p' = map (\<lambda>i. (\<lambda>k. (row (inputs_te p) k, row (outputs_te_DelT p) k,
                  row (outputs_te_Temp p) k)) (ordering_te ! i)) [0..<n_te]"
    using s by (simp add: samples_te_def p'_def row_def)
  hence te: "samples_te p' = map ((!) (samples_te p)) ordering_te"
    using nth_reindex[OF m_te] s by (simp add: samples_te_def)
  have l: "length (samples_tr p) = n_tr" "length (samples_val p) = n_val"
      "length (samples_te p) = n_te"
    using s by (simp_all add: samples_tr_def samples_val_def samples_te_def)
  have ms: "mset (map ((!) xs) ix) = mset xs" if "mset ix = mset [0..<length xs]"
    for xs :: "'b list" and ix
  proof -
    have "mset (map ((!) xs) ix) = image_mset ((!) xs) (mset ix)" by simp
    also have "\<dots> = image_mset ((!) xs) (mset [0..<length xs])" by (simp only: that)
    also have "\<dots> = mset (map ((!) xs) [0..<length xs])" by simp
    finally show ?thesis by (simp only: map_nth)
  qed
  have mtr: "mset (samples_tr p') = mset (samples_tr p)"
    unfolding tr using m_tr l(1) by (intro ms) simp
  have mva: "mset (samples_val p') = mset (samples_val p)"
    unfolding va using m_val l(2) by (intro ms) simp
  have mte: "mset (samples_te p') = mset (samples_te p)"
    unfolding te using m_te l(3) by (intro ms) simp
  from run shp' tr va te mtr mva mte show ?thesis by blast
qed

theorem shuffle_split_local_witness:
  "pools_shaped example_split_pools 3 2 2 1
   \<and> example_permutation (example_seed 5) 3 = ([2, 1, 0], 6)
   \<and> example_permutation 6 2 = ([1, 0], 7)
   \<and> example_permutation 7 2 = ([1, 0], 8)
   \<and> (\<exists>p'. randomise example_seed example_permutation 0 example_split_pools = Inr (p', 8)
          \<and> samples_tr p' = [([2], [12], [22], [32], [42]), ([1], [11], [21], [31], [41]),
                              ([0], [10], [20], [30], [40])]
          \<and> samples_val p' = [([101], [111], [121], [131], [141]),
                               ([100], [110], [120], [130], [140])]
          \<and> samples_te p' = [([201], [211], [221]), ([200], [210], [220])]
          \<and> randomise example_seed example_permutation 9 example_split_pools = Inr (p', 8))
   \<and> (\<exists>p. accumulate (temp_only 2) example_ds example_clim (7/10) (9/10) = Inr p
          \<and> pools_shaped p 648440 199520 99760 9
          \<and> (\<exists>p'. randomise example_seed example_permutation 0 p = Inr (p', 8)
                 \<and> samples_tr p' = rev (samples_tr p)
                 \<and> samples_val p' = rev (samples_val p)
                 \<and> samples_te p' = rev (samples_te p)))"
proof -
  have a: "pools_shaped example_split_pools 3 2 2 1"
    by (simp add: pools_shaped_def example_split_pools_def column_from_def)
  have d: "example_permutation (example_seed 5) 3 = ([2, 1, 0], 6)"
      "example_permutation 6 2 = ([1, 0], 7)" "example_permutation 7 2 = ([1, 0], 8)"
    by (simp_all add: example_permutation_def example_seed_def upt_rec)
  have m: "mset [2, 1, 0] = mset [0..<(3::nat)]" "mset [1, 0] = mset [0..<(2::nat)]"
    by (simp_all add: upt_rec)
  have v: "samples_tr example_split_pools
             = [([0], [10], [20], [30], [40]), ([1], [11], [21], [31], [41]),
                ([2], [12], [22], [32], [42])]"
      "samples_val example_split_pools
             = [([100], [110], [120], [130], [140]), ([101], [111], [121], [131], [141])]"
      "samples_te example_split_pools = [([200], [210], [220]), ([201], [211], [221])]"
    by (simp_all add: samples_tr_def samples_val_def samples_te_def example_split_pools_def
          column_from_def row_def upt_rec)
  have first: "\<exists>p'. randomise example_seed example_permutation 0 example_split_pools = Inr (p', 8)
          \<and> samples_tr p' = [([2], [12], [22], [32], [42]), ([1], [11], [21], [31], [41]),
                              ([0], [10], [20], [30], [40])]
          \<and> samples_val p' = [([101], [111], [121], [131], [141]),
                               ([100], [110], [120], [130], [140])]
          \<and> samples_te p' = [([201], [211], [221]), ([200], [210], [220])]
          \<and> randomise example_seed example_permutation 9 example_split_pools = Inr (p', 8)"
    using shuffle_split_local [where seed = example_seed and permutation = example_permutation
            and ga = 0 and gb = 9, OF a d m(1) m(2) m(2)]
    by (auto simp add: v)
  have dim: "dimension (temp_only 2) = 2 \<or> dimension (temp_only 2) = 3"
    and poly: "poly_degree (temp_only 2) \<le> 1"
    and F: "n_features (temp_only 2) = 9"
    by (simp_all add: temp_only_def n_features_def n_fields_def)
  have rows: "rows_of (\<lambda>r. cells (region_bounds example_ds r)) = 24940"
    by (simp add: rows_of_def cells_def region_bounds_def region_1_def region_2_def region_3_def
          x_size_def y_size_def z_size_def example_ds_def lon_field_def)
  obtain p where p:
      "accumulate (temp_only 2) example_ds example_clim (7/10) (9/10) = Inr p"
      "pools_shaped p 648440 199520 99760 9"
    using accumulate_pools_shaped[OF example_run_fits dim poly]
    by (auto simp add: rows F default_steps)
  have e: "example_permutation (example_seed 5) 648440 = (rev [0..<648440], 6)"
      "example_permutation 6 199520 = (rev [0..<199520], 7)"
      "example_permutation 7 99760 = (rev [0..<99760], 8)"
    by (simp_all add: example_permutation_def example_seed_def)
  have r: "mset (rev [0..<k]) = mset [0..<k]" for k :: nat by simp
  have l: "648440 = length (samples_tr p)" "199520 = length (samples_val p)"
      "99760 = length (samples_te p)"
    using p(2) by (simp_all add: pools_shaped_def samples_tr_def samples_val_def samples_te_def)
  obtain p' where p': "randomise example_seed example_permutation 0 p = Inr (p', 8)"
      "samples_tr p' = map ((!) (samples_tr p)) (rev [0..<648440])"
      "samples_val p' = map ((!) (samples_val p)) (rev [0..<199520])"
      "samples_te p' = map ((!) (samples_te p)) (rev [0..<99760])"
    using shuffle_split_local [where seed = example_seed and permutation = example_permutation
            and ga = 0 and gb = 0, OF p(2) e r r r]
    by blast
  have "samples_tr p' = rev (samples_tr p)" "samples_val p' = rev (samples_val p)"
      "samples_te p' = rev (samples_te p)"
    using p'(2,3,4) unfolding l by (simp_all only: rev_reindex)
  with p p'(1) have second: "\<exists>p. accumulate (temp_only 2) example_ds example_clim (7/10) (9/10)
            = Inr p
          \<and> pools_shaped p 648440 199520 99760 9
          \<and> (\<exists>p'. randomise example_seed example_permutation 0 p = Inr (p', 8)
                 \<and> samples_tr p' = rev (samples_tr p)
                 \<and> samples_val p' = rev (samples_val p)
                 \<and> samples_te p' = rev (samples_te p))"
    by blast
  from a d first second show ?thesis by blast
qed

lemma take_rows_shape:
  assumes "shape a = [m, F]" "list_all (\<lambda>i. i < m) ix"
  shows "\<exists>r. take_rows a ix = Inr r \<and> shape r = [length ix, F]"
  using assms by (simp add: take_rows_def)

lemma randomise_rows:
  assumes rows: "pools_rows p n_tr m_tr n_val m_val n_te m_te F"
    and d_tr: "permutation (seed 5) n_tr = (ordering_tr, g1)"
    and d_val: "permutation g1 n_val = (ordering_val, g2)"
    and d_te: "permutation g2 n_te = (ordering_te, g3)"
    and i_tr: "list_all (\<lambda>i. i < n_tr) ordering_tr" "list_all (\<lambda>i. i < m_tr) ordering_tr"
    and i_val: "list_all (\<lambda>i. i < n_val) ordering_val" "list_all (\<lambda>i. i < m_val) ordering_val"
    and i_te: "list_all (\<lambda>i. i < n_te) ordering_te" "list_all (\<lambda>i. i < m_te) ordering_te"
  shows "\<exists>p'. randomise seed permutation g p = Inr (p', g3)
           \<and> pools_rows p' (length ordering_tr) (length ordering_tr)
               (length ordering_val) (length ordering_val)
               (length ordering_te) (length ordering_te) F"
proof -
  note s = rows[unfolded pools_rows_def]
  show ?thesis
    unfolding randomise_def Let_def
    using s i_tr i_val i_te
    by (simp add: d_tr d_val d_te take_rows_def pools_rows_def)
qed

text \<open>
  Claim C10 as it is written, for every run, does not hold. The permutation of a split
  is drawn for the rows of its inputs and selects the rows of every array of the split,
  so every array is cut to the number of rows of the inputs. On the grid of 5 by 7 by 6
  cells, with the default ratios, the slices of the calls are clipped: the training
  inputs have \<open>26 * 87 = 2262\<close> rows and the training targets \<open>26 * 99 = 2574\<close>. The
  shuffled targets have 2262 rows: 312 rows of the targets are dropped, and the
  shuffled split is not a reordering of the arrays the split had.
\<close>

theorem shuffle_drops_rows_counterexample:
  "\<exists>p. accumulate (temp_only 2) small_ds small_clim (7/10) (9/10) = Inr p
       \<and> shape (inputs_tr p) = [2262, 9] \<and> shape (outputs_tr_DelT p) = [2574, 1]
       \<and> (\<exists>p'. randomise example_seed example_permutation 0 p = Inr (p', 8)
              \<and> shape (inputs_tr p') = [2262, 9] \<and> shape (outputs_tr_DelT p') = [2262, 1])"
proof -
  have rows: "rows_of small_inputs = 87" "rows_of small_targets = 99"
    by (simp_all add: rows_of_def small_inputs_def small_targets_def)
  have step: "\<exists>s. region_step5 (temp_only 2) small_ds small_clim r t = Inr s
           \<and> shaped5 s (small_inputs r) (small_targets r) 9"
    if "t \<in> set (train_steps (7/10) @ val_steps (7/10) (9/10) @ test_steps (7/10) (9/10))"
    for t r
    using default_steps(4)[OF that] by (intro small_step) simp_all
  have ne: "train_steps (7/10) \<noteq> []" "val_steps (7/10) (9/10) \<noteq> []"
      "test_steps (7/10) (9/10) \<noteq> []"
    using default_steps(1-3) by auto
  obtain p where p: "accumulate (temp_only 2) small_ds small_clim (7/10) (9/10) = Inr p"
      "pools_rows p 2262 2574 696 792 348 396 9"
    using accumulate_rows[of "7/10" "9/10" "temp_only 2" small_ds small_clim small_inputs
            small_targets 9, OF step ne]
    by (auto simp add: rows default_steps)
  have e: "example_permutation (example_seed 5) 2262 = (rev [0..<2262], 6)"
      "example_permutation 6 696 = (rev [0..<696], 7)"
      "example_permutation 7 348 = (rev [0..<348], 8)"
    by (simp_all add: example_permutation_def example_seed_def)
  obtain p' where p': "randomise example_seed example_permutation 0 p = Inr (p', 8)"
      "pools_rows p' (length (rev [0..<2262])) (length (rev [0..<2262]))
         (length (rev [0..<696])) (length (rev [0..<696]))
         (length (rev [0..<348])) (length (rev [0..<348])) 9"
    using randomise_rows[where seed = example_seed and permutation = example_permutation
            and g = 0, OF p(2) e]
    by (auto simp add: list_all_iff)
  show ?thesis
    using p p' by (auto simp add: pools_rows_def)
qed

section \<open>Normalisation\<close>

text \<open>
  Claim C7. \<^verbatim>\<open>normalise_data(train, val, test)\<close> computes one mean and one standard
  deviation, from \<^verbatim>\<open>train\<close> alone: the mean is the sum of the elements of \<^verbatim>\<open>train\<close>
  over their number, and the deviation is the population one, the square root of the
  mean squared distance to that mean, so it is not negative and its square is that
  mean. It returns the three arrays, in their shapes, with every element \<open>x\<close> replaced
  by \<open>(x - mean) / std\<close>, together with that mean and deviation. With a zero deviation
  the quotients are not finite, and the statistics of an empty \<^verbatim>\<open>train\<close> are
  not-a-number. Called with any other \<^verbatim>\<open>val\<close> and \<^verbatim>\<open>test\<close> it returns the same
  normalised \<^verbatim>\<open>train\<close> and the same statistics. The source applies the function to
  every feature column and to each of the two targets.
\<close>

theorem normalise_data_train_statistics:
  "\<exists>norm_train norm_val norm_test mean std.
      normalise_data train val test = (norm_train, norm_val, norm_test, mean, std)
      \<and> shape norm_train = shape train \<and> shape norm_val = shape val \<and> shape norm_test = shape test
      \<and> (tolist train = [] \<longrightarrow> mean = None \<and> std = None)
      \<and> (tolist train \<noteq> [] \<longrightarrow>
           (\<exists>m s. mean = Some m \<and> std = Some s
              \<and> m = sum_list (tolist train) / real (length (tolist train))
              \<and> s = sqrt ((\<Sum>x\<leftarrow>tolist train. (x - m)\<^sup>2) / real (length (tolist train)))
              \<and> 0 \<le> s
              \<and> s\<^sup>2 * real (length (tolist train)) = (\<Sum>x\<leftarrow>tolist train. (x - m)\<^sup>2)
              \<and> (s \<noteq> 0 \<longrightarrow>
                   (\<forall>js. elem norm_train js = Some ((elem train js - m) / s)
                       \<and> elem norm_val js = Some ((elem val js - m) / s)
                       \<and> elem norm_test js = Some ((elem test js - m) / s)))
              \<and> (s = 0 \<longrightarrow>
                   (\<forall>js. elem norm_train js = None \<and> elem norm_val js = None
                       \<and> elem norm_test js = None))))
      \<and> (\<exists>norm_val' norm_test'.
            normalise_data train val' test' = (norm_train, norm_val', norm_test', mean, std))"
proof (cases "tolist train = []")
  case True
  thus ?thesis by (simp add: normalise_data_def Let_def np_mean_def np_std_def)
next
  case False
  define m where "m = sum_list (tolist train) / real (length (tolist train))"
  define s where "s = sqrt ((\<Sum>x\<leftarrow>tolist train. (x - m)\<^sup>2) / real (length (tolist train)))"
  have n: "0 < real (length (tolist train))" using False by simp
  have mean: "np_mean train = Some m" using False by (simp add: np_mean_def m_def)
  have std: "np_std train = Some s" by (simp add: np_std_def mean s_def)
  have nonneg: "0 \<le> (\<Sum>x\<leftarrow>tolist train. (x - m)\<^sup>2)"
    by (rule sum_list_nonneg) auto
  have s0: "0 \<le> s" unfolding s_def using nonneg n by simp
  have "s\<^sup>2 = (\<Sum>x\<leftarrow>tolist train. (x - m)\<^sup>2) / real (length (tolist train))"
    unfolding s_def using nonneg n by simp
  hence s2: "s\<^sup>2 * real (length (tolist train)) = (\<Sum>x\<leftarrow>tolist train. (x - m)\<^sup>2)"
    using n by simp
  define ntr where "ntr = \<lparr>shape = shape train,
      elem = (\<lambda>js. standardise (Some m) (Some s) (elem train js))\<rparr>"
  define nva where "nva = (\<lambda>v :: real ndarray. \<lparr>shape = shape v,
      elem = (\<lambda>js. standardise (Some m) (Some s) (elem v js))\<rparr>)"
  have nd: "normalise_data train v w = (ntr, nva v, nva w, Some m, Some s)" for v w
    by (simp add: normalise_data_def Let_def mean std ntr_def nva_def)
  have sh: "shape ntr = shape train" "shape (nva val) = shape val" "shape (nva test) = shape test"
    by (simp_all add: ntr_def nva_def)
  have fin: "\<forall>js. elem ntr js = Some ((elem train js - m) / s)
                \<and> elem (nva val) js = Some ((elem val js - m) / s)
                \<and> elem (nva test) js = Some ((elem test js - m) / s)" if "s \<noteq> 0"
    using that by (simp add: ntr_def nva_def standardise_def)
  have inf: "\<forall>js. elem ntr js = None \<and> elem (nva val) js = None \<and> elem (nva test) js = None"
    if "s = 0"
    using that by (simp add: ntr_def nva_def standardise_def)
  have stats: "\<exists>m' s'. Some m = Some m' \<and> Some s = Some s'
              \<and> m' = sum_list (tolist train) / real (length (tolist train))
              \<and> s' = sqrt ((\<Sum>x\<leftarrow>tolist train. (x - m')\<^sup>2) / real (length (tolist train)))
              \<and> 0 \<le> s'
              \<and> s'\<^sup>2 * real (length (tolist train)) = (\<Sum>x\<leftarrow>tolist train. (x - m')\<^sup>2)
              \<and> (s' \<noteq> 0 \<longrightarrow>
                   (\<forall>js. elem ntr js = Some ((elem train js - m') / s')
                       \<and> elem (nva val) js = Some ((elem val js - m') / s')
                       \<and> elem (nva test) js = Some ((elem test js - m') / s')))
              \<and> (s' = 0 \<longrightarrow>
                   (\<forall>js. elem ntr js = None \<and> elem (nva val) js = None
                       \<and> elem (nva test) js = None))"
    using m_def s_def s0 s2 fin inf by blast
  have other: "\<exists>norm_val' norm_test'.
            normalise_data train val' test' = (ntr, norm_val', norm_test', Some m, Some s)"
    using nd by blast
  show ?thesis
    using nd[of val test] sh False stats other by blast
qed

theorem normalise_data_train_statistics_witness:
  "tolist example_train = [1, 3]
   \<and> (\<exists>norm_train norm_val norm_test.
        normalise_data example_train example_val example_test
          = (norm_train, norm_val, norm_test, Some 2, Some 1)
        \<and> elem norm_train [0] = Some (- 1) \<and> elem norm_train [1] = Some 1
        \<and> elem norm_val [0] = Some 3 \<and> elem norm_test [0] = Some 0)"
proof -
  have l: "tolist example_train = [1, 3]"
    by (simp add: tolist_def example_train_def unravel.simps upt_rec)
  have x: "elem example_train [0] = 1" "elem example_train [1] = 3"
    "elem example_train [Suc 0] = 3"
    "elem example_val [0] = 5" "elem example_test [0] = 2"
    by (simp_all add: example_train_def example_val_def example_test_def)
  from normalise_data_train_statistics [of example_train example_val example_test
        example_train example_train]
  show ?thesis
    by (auto simp add: l x)
qed

text \<open>
  Claim C9. When the standard deviation of the training array is not zero, every
  element of the three normalised arrays is finite, and the inverse transform
  \<open>x' * std + mean\<close> of a normalised element is the original element, in exact
  arithmetic.
\<close>

theorem normalise_round_trip:
  assumes "np_std train = Some s" "s \<noteq> 0"
  shows "case normalise_data train val test of
           (norm_train, norm_val, norm_test, mean, std) \<Rightarrow>
             std = Some s
             \<and> (\<exists>m. mean = Some m
                  \<and> (\<forall>js. \<exists>x'. elem norm_train js = Some x' \<and> x' * s + m = elem train js)
                  \<and> (\<forall>js. \<exists>x'. elem norm_val js = Some x' \<and> x' * s + m = elem val js)
                  \<and> (\<forall>js. \<exists>x'. elem norm_test js = Some x' \<and> x' * s + m = elem test js))"
proof -
  obtain m where m: "np_mean train = Some m"
    using assms(1) by (auto simp add: np_std_def split: option.splits)
  show ?thesis
    using assms m by (simp add: normalise_data_def Let_def standardise_def)
qed

theorem normalise_round_trip_witness:
  "np_std example_train = Some 1 \<and> (1::real) \<noteq> 0
   \<and> elem (fst (normalise_data example_train example_train example_train)) [1] = Some 1
   \<and> (1::real) * 1 + 2 = elem example_train [1]
   \<and> (case normalise_data example_train example_train example_train of
           (norm_train, norm_val, norm_test, mean, std) \<Rightarrow>
             std = Some 1
             \<and> (\<exists>m. mean = Some m
                  \<and> (\<forall>js. \<exists>x'. elem norm_train js = Some x' \<and> x' * 1 + m = elem example_train js)
                  \<and> (\<forall>js. \<exists>x'. elem norm_val js = Some x' \<and> x' * 1 + m = elem example_train js)
                  \<and> (\<forall>js. \<exists>x'. elem norm_test js = Some x' \<and> x' * 1 + m = elem example_train js)))"
proof -
  have l: "tolist example_train = [1, 3]"
    by (simp add: tolist_def example_train_def unravel.simps upt_rec)
  have m: "np_mean example_train = Some 2" by (simp add: np_mean_def l)
  have s: "np_std example_train = Some 1" by (simp add: np_std_def m l)
  have n: "(1::real) \<noteq> 0" by simp
  have x: "elem example_train [1] = 3" "elem example_train [Suc 0] = 3"
    by (simp_all add: example_train_def)
  have v: "elem (fst (normalise_data example_train example_train example_train)) [1] = Some 1"
    by (simp add: normalise_data_def Let_def standardise_def m s x)
  have o: "(1::real) * 1 + 2 = elem example_train [1]" by (simp add: x)
  from normalise_round_trip [OF s n, of example_train example_train] s n v o
  show ?thesis by blast
qed

end
